(* ===== verification/Paros_Prelude.thy ===== *)
theory Paros_Prelude
  imports Main "HOL-Library.AList"
begin

text \<open>
  Shared vocabulary of the paros-tools development: the Python exceptions the two
  scripts can raise (as values of a sum type), the result type and its bind, the
  control characters the query text contains, the collections of facts the component
  theories feed to the simplifier, and generic lemmas on lists and association lists
  that several components use.
\<close>

section \<open>Python exceptions as values\<close>

text \<open>
  Every exception a modelled statement can raise is a constructor here; a function of
  the model that can raise returns \<open>py_error + 'a\<close>, \<open>Inl\<close> the exception. The
  string arguments carry the key or the message the exception is raised with, where the
  model needs to tell two raises apart.
\<close>

datatype py_error =
    KeyError string
  | IndexError
  | ValueError string
  | TypeError string
  | AttributeError string
  | UnknownTimeZoneError string
  | OverflowError
  | EOFError
  | UnpicklingError string
  | SystemExit int

type_synonym 'a py_result = "py_error + 'a"

definition res_bind :: "'e + 'a \<Rightarrow> ('a \<Rightarrow> 'e + 'b) \<Rightarrow> 'e + 'b" where
  "res_bind m f = (case m of Inl e \<Rightarrow> Inl e | Inr x \<Rightarrow> f x)"

definition res_map :: "('a \<Rightarrow> 'b) \<Rightarrow> 'e + 'a \<Rightarrow> 'e + 'b" where
  "res_map f m = (case m of Inl e \<Rightarrow> Inl e | Inr x \<Rightarrow> Inr (f x))"

section \<open>Characters of the generated text\<close>

abbreviation NL :: char where "NL \<equiv> CHR 0x0A"
abbreviation TAB :: char where "TAB \<equiv> CHR 0x09"
abbreviation DQ :: char where "DQ \<equiv> CHR 0x22"

named_theorems paros_simps "equations of the model that evaluate its operations"
named_theorems paros_wf "preservation facts of the model's invariants"

lemma res_bind_Inl [simp]: "res_bind (Inl e) f = Inl e"
  by (simp add: res_bind_def)

lemma res_bind_Inr [simp]: "res_bind (Inr x) f = f x"
  by (simp add: res_bind_def)

lemma res_map_Inl [simp]: "res_map f (Inl e) = Inl e"
  by (simp add: res_map_def)

lemma res_map_Inr [simp]: "res_map f (Inr x) = Inr (f x)"
  by (simp add: res_map_def)

lemma res_bind_eq_Inr:
  "res_bind m f = Inr y \<longleftrightarrow> (\<exists>x. m = Inr x \<and> f x = Inr y)"
  by (cases m) simp_all

lemma res_bind_eq_Inl:
  "res_bind m f = Inl e \<longleftrightarrow> (m = Inl e \<or> (\<exists>x. m = Inr x \<and> f x = Inl e))"
  by (cases m) simp_all

lemma res_map_eq_Inr:
  "res_map f m = Inr y \<longleftrightarrow> (\<exists>x. m = Inr x \<and> y = f x)"
  by (cases m) auto

lemma res_map_eq_Inl:
  "res_map f m = Inl e \<longleftrightarrow> m = Inl e"
  by (cases m) auto

lemma res_bind_assoc:
  "res_bind (res_bind m f) g = res_bind m (\<lambda>x. res_bind (f x) g)"
  by (cases m) simp_all

section \<open>Generic lemmas on lists\<close>

text \<open>
  The model keeps Python's lists, dictionaries and DataFrame columns as HOL lists and
  association lists; these facts about them are shared by several components.
\<close>

lemma append_eq_append_same_length:
  "length xs = length ys \<Longrightarrow> xs @ us = ys @ vs \<longleftrightarrow> xs = ys \<and> us = vs"
  by simp

lemma map_fst_AList_update:
  "map fst (AList.update k v al) =
     (if k \<in> set (map fst al) then map fst al else map fst al @ [k])"
  by (induction al) auto

lemma distinct_AList_update [paros_wf]:
  "distinct (map fst al) \<Longrightarrow> distinct (map fst (AList.update k v al))"
  by (simp add: distinct_update)

lemma map_of_AList_update:
  "map_of (AList.update k v al) = (map_of al)(k \<mapsto> v)"
  by (simp add: update_conv')

lemma length_AList_update:
  "length (AList.update k v al) =
     (if k \<in> set (map fst al) then length al else Suc (length al))"
  by (induction al) auto

lemma set_filter_not_in:
  "set (filter (\<lambda>x. x \<notin> set ks) xs) = set xs - set ks"
  by auto

end
