(* ===== verification/Py_Str.thy ===== *)
theory Py_Str
  imports Paros_Prelude
begin

text \<open>
  The Python string builtins the scripts call, at the level of detail their results
  depend on: \<open>str.split\<close> with a one-character separator, \<open>str.join\<close>,
  \<open>str(int)\<close>, zero-padded decimal formatting (\<open>%02d\<close>, \<open>%04d\<close>) and the
  digit parsing that \<open>datetime.fromisoformat\<close> does. Strings are \<open>char list\<close>s; the
  scripts only handle ASCII text here. Each builtin comes with the round trip that
  the components rely on.
\<close>

section \<open>\<open>str.split\<close> and \<open>str.join\<close>\<close>

text \<open>
  \<open>s.split(c)\<close> for a one-character separator: the pieces between the occurrences of
  \<open>c\<close>, always at least one (\<open>''.split(',') == ['']\<close>), empty pieces kept.
\<close>

fun py_split :: "char \<Rightarrow> string \<Rightarrow> string list" where
  "py_split c [] = [[]]"
| "py_split c (x # xs) =
     (let r = py_split c xs in if x = c then [] # r else (x # hd r) # tl r)"

text \<open>\<open>sep.join(xs)\<close>.\<close>

fun py_join :: "string \<Rightarrow> string list \<Rightarrow> string" where
  "py_join sep [] = []"
| "py_join sep [x] = x"
| "py_join sep (x # y # zs) = x @ sep @ py_join sep (y # zs)"

section \<open>Decimal numbers\<close>

definition digit_char :: "nat \<Rightarrow> char" where
  "digit_char d = ''0123456789'' ! d"

fun nat_str :: "nat \<Rightarrow> string" where
  "nat_str n = (if n < 10 then [digit_char n] else nat_str (n div 10) @ [digit_char (n mod 10)])"

declare nat_str.simps [simp del]

text \<open>\<open>str(i)\<close> for a Python integer.\<close>

definition int_str :: "int \<Rightarrow> string" where
  "int_str i = (if i < 0 then CHR ''-'' # nat_str (nat (- i)) else nat_str (nat i))"

text \<open>\<open>'%0wd' % n\<close>: the decimal digits, padded with zeros on the left to width \<open>w\<close>.\<close>

definition zero_pad :: "nat \<Rightarrow> nat \<Rightarrow> string" where
  "zero_pad w n = (let s = nat_str n in replicate (w - length s) (CHR ''0'') @ s)"

definition is_ascii_digit :: "char \<Rightarrow> bool" where
  "is_ascii_digit ch \<longleftrightarrow> (48::nat) \<le> of_char ch \<and> of_char ch < (58::nat)"

definition digit_val :: "char \<Rightarrow> nat" where
  "digit_val ch = of_char ch - (48::nat)"

text \<open>
  The value of a string of ASCII digits (the \<open>parse_digits\<close> of CPython's
  \<open>datetime\<close> module): \<open>None\<close> when a character is not a digit.
\<close>

fun digits_val :: "nat \<Rightarrow> string \<Rightarrow> nat option" where
  "digits_val acc [] = Some acc"
| "digits_val acc (ch # s) =
     (if is_ascii_digit ch then digits_val (10 * acc + digit_val ch) s else None)"

definition parse_digits :: "string \<Rightarrow> nat option" where
  "parse_digits s = (if s = [] then None else digits_val 0 s)"

section \<open>Lemmas on splitting and joining\<close>

lemma py_split_not_Nil [simp]: "py_split c s \<noteq> []"
  by (induction s) (simp_all add: Let_def)

lemma py_split_no_sep:
  "c \<notin> set s \<Longrightarrow> py_split c s = [s]"
  by (induction s) (auto simp: Let_def)

lemma length_py_split:
  "length (py_split c s) = Suc (count_list s c)"
  by (induction s) (auto simp: Let_def)

lemma py_split_pieces_sep_free:
  "w \<in> set (py_split c s) \<Longrightarrow> c \<notin> set w"
proof (induction s arbitrary: w)
  case Nil
  then show ?case by simp
next
  case (Cons x xs)
  obtain r rs where r: "py_split c xs = r # rs"
    by (cases "py_split c xs") simp_all
  with Cons show ?case by (auto simp: Let_def split: if_splits)
qed

lemma py_split_pieces_subset:
  "w \<in> set (py_split c s) \<Longrightarrow> set w \<subseteq> set s"
proof (induction s arbitrary: w)
  case Nil
  then show ?case by simp
next
  case (Cons x xs)
  obtain r rs where r: "py_split c xs = r # rs"
    by (cases "py_split c xs") simp_all
  with Cons show ?case by (fastforce simp: Let_def split: if_splits)
qed

lemma py_join_Cons:
  "ws \<noteq> [] \<Longrightarrow> py_join sep (w # ws) = w @ sep @ py_join sep ws"
  by (cases ws) simp_all

lemma py_join_Cons_hd:
  "ws \<noteq> [] \<Longrightarrow> py_join sep ((x # hd ws) # tl ws) = x # py_join sep ws"
  by (cases ws; cases "tl ws") auto

text \<open>Joining the pieces with the separator gives the string back.\<close>

theorem py_join_py_split: "py_join [c] (py_split c s) = s"
proof (induction s)
  case Nil
  then show ?case by simp
next
  case (Cons x xs)
  have ne: "py_split c xs \<noteq> []" by simp
  show ?case
  proof (cases "x = c")
    case True
    with Cons ne show ?thesis by (simp add: Let_def py_join_Cons)
  next
    case False
    with Cons ne show ?thesis by (simp add: Let_def py_join_Cons_hd)
  qed
qed

lemma py_split_sep_append:
  "c \<notin> set w \<Longrightarrow> py_split c (w @ c # v) = w # py_split c v"
  by (induction w) (auto simp: Let_def)

text \<open>Splitting a join of separator-free pieces gives the pieces back.\<close>

theorem py_split_py_join:
  "ws \<noteq> [] \<Longrightarrow> (\<forall>w \<in> set ws. c \<notin> set w) \<Longrightarrow> py_split c (py_join [c] ws) = ws"
proof (induction ws)
  case Nil
  then show ?case by simp
next
  case (Cons w ws)
  show ?case
  proof (cases ws)
    case Nil
    with Cons.prems show ?thesis by (simp add: py_split_no_sep)
  next
    case (Cons w' ws')
    with Cons.prems Cons.IH show ?thesis by (simp add: py_split_sep_append)
  qed
qed

section \<open>Lemmas on decimal numbers\<close>

lemma of_char_digit_char:
  assumes "d < 10"
  shows "(of_char (digit_char d) :: nat) = 48 + d"
proof -
  from assms have "d = 0 \<or> d = 1 \<or> d = 2 \<or> d = 3 \<or> d = 4 \<or> d = 5 \<or> d = 6 \<or> d = 7 \<or>
      d = 8 \<or> d = 9" by presburger
  then show ?thesis by (elim disjE) (simp_all add: digit_char_def)
qed

lemma digit_char_is_ascii_digit [simp]: "d < 10 \<Longrightarrow> is_ascii_digit (digit_char d)"
  by (simp add: of_char_digit_char is_ascii_digit_def)

lemma digit_val_digit_char [simp]: "d < 10 \<Longrightarrow> digit_val (digit_char d) = d"
  by (simp add: of_char_digit_char digit_val_def)

lemma digits_val_append:
  "digits_val acc (u @ v) = (case digits_val acc u of None \<Rightarrow> None | Some a \<Rightarrow> digits_val a v)"
  by (induction u arbitrary: acc) simp_all

lemma nat_str_not_Nil [simp]: "nat_str n \<noteq> []"
  by (subst nat_str.simps) simp

lemma nat_str_digits: "ch \<in> set (nat_str n) \<Longrightarrow> is_ascii_digit ch"
proof (induction n rule: nat_str.induct)
  case (1 n)
  then show ?case
    by (subst (asm) nat_str.simps) (auto split: if_splits)
qed

lemma digits_val_nat_str: "digits_val acc (nat_str n) = Some (acc * 10 ^ length (nat_str n) + n)"
proof (induction n arbitrary: acc rule: nat_str.induct)
  case (1 n)
  show ?case
  proof (cases "n < 10")
    case True
    then show ?thesis by (subst (1 2) nat_str.simps) simp
  next
    case False
    then have IH: "digits_val acc (nat_str (n div 10)) =
        Some (acc * 10 ^ length (nat_str (n div 10)) + n div 10)"
      using "1.IH" by simp
    have eq: "nat_str n = nat_str (n div 10) @ [digit_char (n mod 10)]"
      using False by (subst nat_str.simps) simp
    have "10 * (acc * 10 ^ length (nat_str (n div 10)) + n div 10) + n mod 10
        = acc * 10 ^ Suc (length (nat_str (n div 10))) + n"
      by (simp add: algebra_simps)
    then show ?thesis
      by (simp add: eq digits_val_append IH)
  qed
qed

lemma digits_val_zeros: "digits_val 0 (replicate k (CHR ''0'') @ s) = digits_val 0 s"
  by (induction k) (simp_all add: is_ascii_digit_def digit_val_def)

text \<open>Reading back a number printed in decimal, with or without zero padding.\<close>

theorem parse_digits_nat_str: "parse_digits (nat_str n) = Some n"
  by (simp add: parse_digits_def digits_val_nat_str)

theorem parse_digits_zero_pad: "parse_digits (zero_pad w n) = Some n"
  by (simp add: parse_digits_def zero_pad_def Let_def digits_val_zeros digits_val_nat_str)

lemma length_nat_str_le: "n < 10 ^ k \<Longrightarrow> 0 < k \<Longrightarrow> length (nat_str n) \<le> k"
proof (induction n arbitrary: k rule: nat_str.induct)
  case (1 n)
  show ?case
  proof (cases "n < 10")
    case True
    with "1.prems" show ?thesis by (subst nat_str.simps) simp
  next
    case False
    obtain k' where k: "k = Suc k'" using "1.prems" by (cases k) simp_all
    with False "1.prems" have "n div 10 < 10 ^ k'" by (simp add: less_mult_imp_div_less mult.commute)
    moreover have "0 < k'" using False "1.prems" k by (cases k') simp_all
    ultimately have "length (nat_str (n div 10)) \<le> k'" using "1.IH" False by simp
    with False k show ?thesis by (subst nat_str.simps) simp
  qed
qed

lemma length_zero_pad: "n < 10 ^ w \<Longrightarrow> 0 < w \<Longrightarrow> length (zero_pad w n) = w"
  using length_nat_str_le [of n w] by (simp add: zero_pad_def Let_def)

lemma zero_pad_digits: "ch \<in> set (zero_pad w n) \<Longrightarrow> is_ascii_digit ch"
  by (auto simp: zero_pad_def Let_def is_ascii_digit_def dest: nat_str_digits)

end
