(* ===== verification/Date_Time.thy ===== *)
theory Date_Time
  imports Py_Str
begin

text \<open>
  Naive datetimes as \<open>src/get-paros-data.py\<close> uses them (lines 112--123 and 131):
  \<open>datetime.fromisoformat\<close> on the command-line strings, localisation to a time zone
  and conversion to UTC (\<open>localize\<close>, \<open>astimezone\<close>, \<open>replace(tzinfo=None)\<close>), and
  \<open>isoformat\<close> when the bounds are printed into the query. The calendar is CPython's
  proleptic Gregorian one: ordinals count days from 0001-01-01 (ordinal 1) as
  \<open>_ymd2ord\<close> does, years run from 1 to 9999, and leaving that range raises
  \<open>OverflowError\<close>. Time zones are fixed UTC offsets in seconds, looked up by name in
  a table (the pytz database restricted to zones without daylight saving); an unknown
  name raises \<open>UnknownTimeZoneError\<close>.
\<close>

section \<open>Datetimes and the calendar\<close>

record naive_dt =
  dt_year :: nat
  dt_month :: nat
  dt_day :: nat
  dt_hour :: nat
  dt_minute :: nat
  dt_second :: nat
  dt_microsecond :: nat

definition MINYEAR :: nat where "MINYEAR = 1"
definition MAXYEAR :: nat where "MAXYEAR = 9999"

definition is_leap :: "nat \<Rightarrow> bool" where
  "is_leap y \<longleftrightarrow> y mod 4 = 0 \<and> (y mod 100 \<noteq> 0 \<or> y mod 400 = 0)"

text \<open>
  CPython's tables \<open>_DAYS_IN_MONTH\<close> and \<open>_DAYS_BEFORE_MONTH\<close>, indexed by the
  month; their entry 0 (\<open>-1\<close> in CPython) is never read for a valid month and is 0
  here.
\<close>

definition DAYS_IN_MONTH :: "nat list" where
  "DAYS_IN_MONTH = [0, 31, 28, 31, 30, 31, 30, 31, 31, 30, 31, 30, 31]"

definition DAYS_BEFORE_MONTH :: "nat list" where
  "DAYS_BEFORE_MONTH = [0, 0, 31, 59, 90, 120, 151, 181, 212, 243, 273, 304, 334]"

text \<open>\<open>_days_in_month\<close>.\<close>

definition days_in_month :: "nat \<Rightarrow> nat \<Rightarrow> nat" where
  "days_in_month y m = (if m = 2 \<and> is_leap y then 29 else DAYS_IN_MONTH ! m)"

definition days_in_year :: "nat \<Rightarrow> nat" where
  "days_in_year y = (if is_leap y then 366 else 365)"

text \<open>\<open>_days_before_year\<close>: days in the years before \<open>y\<close>.\<close>

definition days_before_year :: "nat \<Rightarrow> nat" where
  "days_before_year y = (let z = y - 1 in 365 * z + z div 4 - z div 100 + z div 400)"

text \<open>\<open>_days_before_month\<close>: days in the months of year \<open>y\<close> before month \<open>m\<close>.\<close>

definition days_before_month :: "nat \<Rightarrow> nat \<Rightarrow> nat" where
  "days_before_month y m = DAYS_BEFORE_MONTH ! m + (if 2 < m \<and> is_leap y then 1 else 0)"

definition ymd2ord :: "nat \<Rightarrow> nat \<Rightarrow> nat \<Rightarrow> nat" where
  "ymd2ord y m d = days_before_year y + days_before_month y m + d"

definition valid_date :: "nat \<Rightarrow> nat \<Rightarrow> nat \<Rightarrow> bool" where
  "valid_date y m d \<longleftrightarrow>
     MINYEAR \<le> y \<and> y \<le> MAXYEAR \<and> 1 \<le> m \<and> m \<le> 12 \<and> 1 \<le> d \<and> d \<le> days_in_month y m"

definition valid_dt :: "naive_dt \<Rightarrow> bool" where
  "valid_dt t \<longleftrightarrow> valid_date (dt_year t) (dt_month t) (dt_day t) \<and>
     dt_hour t < 24 \<and> dt_minute t < 60 \<and> dt_second t < 60 \<and> dt_microsecond t < 1000000"

text \<open>
  From an ordinal back to a date (\<open>_ord2ymd\<close>): whole 400-year cycles of 146097
  days first, then year by year and month by month.
\<close>

function find_year :: "nat \<Rightarrow> nat \<Rightarrow> nat \<times> nat" where
  "find_year y k = (if k < days_in_year y then (y, k) else find_year (Suc y) (k - days_in_year y))"
  by pat_completeness auto
termination
  by (relation "measure (\<lambda>(y, k). k)") (auto simp: days_in_year_def)

function find_month :: "nat \<Rightarrow> nat \<Rightarrow> nat \<Rightarrow> nat \<times> nat" where
  "find_month y m k =
     (if 12 \<le> m \<or> k < days_in_month y m then (m, k)
      else find_month y (Suc m) (k - days_in_month y m))"
  by pat_completeness auto
termination
  by (relation "measure (\<lambda>(y, m, k). 12 - m)") auto

declare find_year.simps [simp del] find_month.simps [simp del]

definition ord2ymd :: "nat \<Rightarrow> nat \<times> nat \<times> nat" where
  "ord2ymd n =
     (let n0 = n - 1;
          (y, k) = find_year (400 * (n0 div 146097) + 1) (n0 mod 146097);
          (m, d0) = find_month y 1 k
      in (y, m, Suc d0))"


section \<open>Arithmetic on datetimes\<close>

definition MAXORDINAL :: nat where "MAXORDINAL = 3652059"

definition toordinal :: "naive_dt \<Rightarrow> nat" where
  "toordinal t = ymd2ord (dt_year t) (dt_month t) (dt_day t)"

text \<open>Whole seconds since 0001-01-01T00:00:00 (microseconds apart).\<close>

definition dt_seconds :: "naive_dt \<Rightarrow> int" where
  "dt_seconds t = int ((toordinal t - 1) * 86400 + dt_hour t * 3600 + dt_minute t * 60 + dt_second t)"

text \<open>
  \<open>t + timedelta(seconds=delta)\<close> (CPython's \<open>datetime.__add__\<close>): the sum as whole
  days and seconds of the day, rejected with \<open>OverflowError\<close> unless the day's ordinal
  is in \<open>1..MAXORDINAL\<close>; microseconds are untouched by a whole number of seconds.
\<close>

definition dt_add_seconds :: "int \<Rightarrow> naive_dt \<Rightarrow> naive_dt py_result" where
  "dt_add_seconds delta t =
     (let total = dt_seconds t + delta;
          days = total div 86400 + 1;
          secs = nat (total mod 86400)
      in if 0 < days \<and> days \<le> int MAXORDINAL then
           (case ord2ymd (nat days) of (y, m, d) \<Rightarrow>
              Inr \<lparr>dt_year = y, dt_month = m, dt_day = d, dt_hour = secs div 3600,
                   dt_minute = secs mod 3600 div 60, dt_second = secs mod 60,
                   dt_microsecond = dt_microsecond t\<rparr>)
         else Inl OverflowError)"

section \<open>Time zones\<close>

text \<open>
  A time-zone database maps a zone name to its UTC offset in seconds.
  \<open>pytz.timezone(name)\<close> (lines 113--114) raises \<open>UnknownTimeZoneError\<close> for a name
  it does not know.
\<close>

type_synonym tz_table = "string \<Rightarrow> int option"

definition py_timezone :: "tz_table \<Rightarrow> string \<Rightarrow> int py_result" where
  "py_timezone tzdb name = (case tzdb name of None \<Rightarrow> Inl (UnknownTimeZoneError name) | Some off \<Rightarrow> Inr off)"

text \<open>
  \<open>tz.localize(t).astimezone(datetime.timezone.utc).replace(tzinfo=None)\<close>
  (lines 117--119 and 121--123) for a zone of offset \<open>off\<close>: the wall-clock time minus
  the offset.
\<close>

definition local_to_utc :: "int \<Rightarrow> naive_dt \<Rightarrow> naive_dt py_result" where
  "local_to_utc off t = dt_add_seconds (- off) t"

section \<open>ISO 8601 text\<close>

text \<open>\<open>datetime.isoformat()\<close> with the default separator and \<open>timespec='auto'\<close>.\<close>

definition isoformat :: "naive_dt \<Rightarrow> string" where
  "isoformat t =
     zero_pad 4 (dt_year t) @ ''-'' @ zero_pad 2 (dt_month t) @ ''-'' @ zero_pad 2 (dt_day t) @
     ''T'' @ zero_pad 2 (dt_hour t) @ '':'' @ zero_pad 2 (dt_minute t) @ '':'' @
     zero_pad 2 (dt_second t) @
     (if dt_microsecond t = 0 then [] else ''.'' @ zero_pad 6 (dt_microsecond t))"

text \<open>
  CPython's \<open>parse_digits(p, &v, n)\<close>: exactly \<open>n\<close> ASCII digits at the front.
\<close>

definition take_digits :: "nat \<Rightarrow> string \<Rightarrow> nat option" where
  "take_digits n s = (if n \<le> length s then digits_val 0 (take n s) else None)"

text \<open>
  \<open>parse_isoformat_date\<close>: \<open>YYYY-MM-DD\<close> at the front of the string.
\<close>

definition parse_iso_date :: "string \<Rightarrow> (nat \<times> nat \<times> nat) option" where
  "parse_iso_date s =
     (if length s < 10 \<or> s ! 4 \<noteq> CHR ''-'' \<or> s ! 7 \<noteq> CHR ''-'' then None
      else (case (take_digits 4 s, take_digits 2 (drop 5 s), take_digits 2 (drop 8 s)) of
              (Some y, Some m, Some d) \<Rightarrow> Some (y, m, d)
            | _ \<Rightarrow> None))"

text \<open>
  The loop of \<open>parse_hh_mm_ss_ff\<close>: up to three two-digit fields; after each, the end
  of the string ends the time, \<open>:\<close> goes on to the next field and \<open>.\<close> to the
  fraction; after the third field the loop falls through to the fraction.
\<close>

datatype hms_outcome = HmsEnd "nat list" | HmsFrac "nat list" string | HmsError

fun parse_hms :: "nat \<Rightarrow> string \<Rightarrow> nat list \<Rightarrow> hms_outcome" where
  "parse_hms 0 rest vals = HmsFrac vals rest"
| "parse_hms (Suc i) t vals =
     (case take_digits 2 t of
        None \<Rightarrow> HmsError
      | Some v \<Rightarrow>
          (let vals' = vals @ [v]; r = drop 2 t in
           if length r \<le> 1 then (if r = [] then HmsEnd vals' else HmsError)
           else if hd r = CHR '':'' then parse_hms i (tl r) vals'
           else if hd r = CHR ''.'' then HmsFrac vals' (tl r)
           else HmsError))"

definition hms_of :: "nat list \<Rightarrow> nat \<Rightarrow> nat \<times> nat \<times> nat \<times> nat" where
  "hms_of vals us = (let v = vals @ [0, 0, 0] in (v ! 0, v ! 1, v ! 2, us))"

text \<open>
  \<open>parse_isoformat_time\<close>: the fields, then a fraction of exactly three or six
  digits (milliseconds or microseconds). A time-zone suffix (\<open>+\<close> or \<open>-\<close>) makes
  the datetime aware, which \<open>localize\<close> (line 117) then rejects with \<open>ValueError\<close>;
  the model rejects it here, with the same exception.
\<close>

definition parse_iso_time :: "string \<Rightarrow> (nat \<times> nat \<times> nat \<times> nat) option" where
  "parse_iso_time t =
     (if CHR ''+'' \<in> set t \<or> CHR ''-'' \<in> set t then None
      else (case parse_hms 3 t [] of
              HmsEnd vals \<Rightarrow> Some (hms_of vals 0)
            | HmsFrac vals f \<Rightarrow>
                (if length f = 3 then map_option (\<lambda>ms. hms_of vals (ms * 1000)) (take_digits 3 f)
                 else if length f = 6 then map_option (hms_of vals) (take_digits 6 f)
                 else None)
            | HmsError \<Rightarrow> None))"

text \<open>
  \<open>datetime.fromisoformat(s)\<close> (lines 116 and 120): the date, then, when the string
  is longer than ten characters, any one separator character and the time; the fields
  are checked against the calendar as the \<open>datetime\<close> constructor does.
\<close>

definition fromisoformat :: "string \<Rightarrow> naive_dt py_result" where
  "fromisoformat s =
     (case parse_iso_date s of
        None \<Rightarrow> Inl (ValueError ''Invalid isoformat string'')
      | Some (y, m, d) \<Rightarrow>
          (case (if length s = 10 then Some (0, 0, 0, 0) else parse_iso_time (drop 11 s)) of
             None \<Rightarrow> Inl (ValueError ''Invalid isoformat string'')
           | Some (hh, mm, ss, us) \<Rightarrow>
               (let t = \<lparr>dt_year = y, dt_month = m, dt_day = d, dt_hour = hh, dt_minute = mm,
                         dt_second = ss, dt_microsecond = us\<rparr>
                in if valid_dt t then Inr t else Inl (ValueError ''value out of range''))))"

section \<open>Example datetimes\<close>

definition example_dt :: naive_dt where
  "example_dt = \<lparr>dt_year = 2024, dt_month = 3, dt_day = 1, dt_hour = 2, dt_minute = 30,
     dt_second = 5, dt_microsecond = 0\<rparr>"

definition example_utc :: naive_dt where
  "example_utc = \<lparr>dt_year = 2024, dt_month = 3, dt_day = 1, dt_hour = 8, dt_minute = 30,
     dt_second = 5, dt_microsecond = 0\<rparr>"

section \<open>Evaluating the calendar\<close>

text \<open>
  The recursive equations of \<open>find_year\<close> and \<open>find_month\<close> unfold only once their
  guard is decided, so that \<open>simp\<close> evaluates them on numerals without looping.
\<close>

lemma find_year_found [paros_simps]:
  "k < days_in_year y \<Longrightarrow> find_year y k = (y, k)"
  by (simp add: find_year.simps)

lemma find_year_next [paros_simps]:
  "\<not> k < days_in_year y \<Longrightarrow> find_year y k = find_year (Suc y) (k - days_in_year y)"
  by (simp add: find_year.simps)

lemma find_month_found [paros_simps]:
  "12 \<le> m \<or> k < days_in_month y m \<Longrightarrow> find_month y m k = (m, k)"
  by (simp add: find_month.simps)

lemma find_month_next [paros_simps]:
  "\<not> 12 \<le> m \<Longrightarrow> \<not> k < days_in_month y m \<Longrightarrow>
   find_month y m k = find_month y (Suc m) (k - days_in_month y m)"
  by (simp add: find_month.simps)

lemma parse_hms_3 [paros_simps]: "parse_hms 3 t vals = parse_hms (Suc (Suc (Suc 0))) t vals"
  by (simp add: numeral_3_eq_3)

lemmas calendar_defs [paros_simps] =
  is_leap_def days_in_month_def days_in_year_def days_before_year_def days_before_month_def
  ymd2ord_def DAYS_IN_MONTH_def DAYS_BEFORE_MONTH_def

section \<open>The calendar arithmetic\<close>

lemma days_before_year_1 [simp]: "days_before_year 1 = 0"
  unfolding days_before_year_def Let_def by simp

lemma div_Suc_step: "0 < n \<Longrightarrow> Suc z div (n::nat) = z div n + (if Suc z mod n = 0 then 1 else 0)"
  by (simp add: div_Suc)

lemma leap_step_arith:
  fixes a b c z :: nat
  assumes "b \<le> a" and "P100 \<Longrightarrow> P4" and "P400 \<Longrightarrow> P100"
  shows "365 * Suc z + (a + (if P4 then 1 else 0)) - (b + (if P100 then 1 else 0)) +
           (c + (if P400 then 1 else 0)) =
         (365 * z + a - b + c) + (if P4 \<and> (\<not> P100 \<or> P400) then 366 else 365)"
  using assms by (cases P4; cases P100; cases P400) simp_all

lemma days_before_year_Suc:
  assumes "1 \<le> y"
  shows "days_before_year (Suc y) = days_before_year y + days_in_year y"
proof -
  obtain z where y: "y = Suc z" using assms by (cases y) simp_all
  have e1: "days_before_year (Suc y) = 365 * Suc z + Suc z div 4 - Suc z div 100 + Suc z div 400"
    by (simp add: days_before_year_def y)
  have e2: "days_before_year y = 365 * z + z div 4 - z div 100 + z div 400"
    by (simp add: days_before_year_def y)
  have e3: "days_in_year y =
      (if Suc z mod 4 = 0 \<and> (\<not> Suc z mod 100 = 0 \<or> Suc z mod 400 = 0) then 366 else 365)"
    by (simp add: days_in_year_def is_leap_def y)
  have d4: "Suc z div 4 = z div 4 + (if Suc z mod 4 = 0 then 1 else 0)"
    by (rule div_Suc_step) simp
  have d100: "Suc z div 100 = z div 100 + (if Suc z mod 100 = 0 then 1 else 0)"
    by (rule div_Suc_step) simp
  have d400: "Suc z div 400 = z div 400 + (if Suc z mod 400 = 0 then 1 else 0)"
    by (rule div_Suc_step) simp
  have "z div 100 \<le> z div 4" by (simp add: div_le_mono2)
  moreover have "Suc z mod 100 = 0 \<Longrightarrow> Suc z mod 4 = 0" by presburger
  moreover have "Suc z mod 400 = 0 \<Longrightarrow> Suc z mod 100 = 0" by presburger
  ultimately show ?thesis
    unfolding e1 e2 e3 d4 d100 d400 by (rule leap_step_arith)
qed

lemma days_before_year_400:
  assumes "1 \<le> y"
  shows "days_before_year (y + 400) = days_before_year y + 146097"
proof -
  obtain z where y: "y = Suc z" using assms by (cases y) simp_all
  have "y + 400 - 1 = z + 400" by (simp add: y)
  then have e1: "days_before_year (y + 400) =
      365 * (z + 400) + (z + 400) div 4 - (z + 400) div 100 + (z + 400) div 400"
    by (simp only: days_before_year_def Let_def)
  have e2: "days_before_year y = 365 * z + z div 4 - z div 100 + z div 400"
    by (simp add: days_before_year_def y)
  have h4: "(z + 400) div 4 = z div 4 + 100" by simp
  have h100: "(z + 400) div 100 = z div 100 + 4" by simp
  have h400: "(z + 400) div 400 = z div 400 + 1" by simp
  have "z div 100 \<le> z div 4" by (simp add: div_le_mono2)
  then show ?thesis unfolding e1 e2 h4 h100 h400 by (simp only: distrib_left) linarith
qed

lemma days_in_year_pos: "0 < days_in_year y"
  by (simp add: days_in_year_def)

lemma days_before_year_mono:
  assumes "1 \<le> y" and "y \<le> y'"
  shows "days_before_year y \<le> days_before_year y'"
  using assms(2)
proof (induction y' rule: dec_induct)
  case base
  then show ?case by simp
next
  case (step n)
  with assms(1) have "days_before_year (Suc n) = days_before_year n + days_in_year n"
    by (simp add: days_before_year_Suc)
  with step.IH show ?case by simp
qed

lemma days_before_year_cycles:
  "days_before_year (400 * q + 1) = 146097 * q"
proof (induction q)
  case 0
  then show ?case by (simp add: days_before_year_def)
next
  case (Suc q)
  have "400 * Suc q + 1 = (400 * q + 1) + 400" by simp
  then show ?case using Suc days_before_year_400 [of "400 * q + 1"] by simp
qed

lemma find_year_ymd:
  assumes "1 \<le> y0" and "k < days_in_year (y0 + d)"
  shows "find_year y0 (days_before_year (y0 + d) - days_before_year y0 + k) = (y0 + d, k)"
  using assms
proof (induction d arbitrary: y0)
  case 0
  then show ?case by (simp add: find_year_found)
next
  case (Suc d)
  have suc: "days_before_year (Suc y0) = days_before_year y0 + days_in_year y0"
    using Suc.prems(1) by (rule days_before_year_Suc)
  have mono: "days_before_year (Suc y0) \<le> days_before_year (Suc y0 + d)"
    by (rule days_before_year_mono) simp_all
  have eq: "days_before_year (y0 + Suc d) - days_before_year y0 + k =
      days_in_year y0 + (days_before_year (Suc y0 + d) - days_before_year (Suc y0) + k)"
    using suc mono by simp
  have IH: "find_year (Suc y0) (days_before_year (Suc y0 + d) - days_before_year (Suc y0) + k) =
      (Suc y0 + d, k)"
    by (rule Suc.IH) (use Suc.prems in simp_all)
  have nxt: "find_year y0 (days_in_year y0 + x) = find_year (Suc y0) x" for x
    by (simp add: find_year_next)
  have shift: "Suc y0 + d = y0 + Suc d" by simp
  have IH': "find_year (Suc y0) (days_before_year (y0 + Suc d) - days_before_year (Suc y0) + k) =
      (y0 + Suc d, k)"
    using IH by (simp only: shift)
  show ?case
    by (simp only: eq nxt IH' shift)
qed

lemma find_year_inv:
  "find_year y0 k = (y, k') \<Longrightarrow> 1 \<le> y0 \<Longrightarrow>
   y0 \<le> y \<and> days_before_year y0 + k = days_before_year y + k' \<and> k' < days_in_year y"
proof (induction y0 k rule: find_year.induct)
  case (1 y0 k)
  show ?case
  proof (cases "k < days_in_year y0")
    case True
    with "1.prems" show ?thesis by (simp add: find_year_found)
  next
    case False
    with "1.prems" have "find_year (Suc y0) (k - days_in_year y0) = (y, k')"
      by (simp add: find_year_next)
    with "1.IH" False "1.prems"(2)
    have "Suc y0 \<le> y \<and> days_before_year (Suc y0) + (k - days_in_year y0) = days_before_year y + k' \<and>
        k' < days_in_year y" by simp
    with False "1.prems"(2) show ?thesis by (simp add: days_before_year_Suc)
  qed
qed

lemma months_cases:
  "1 \<le> (m::nat) \<Longrightarrow> m \<le> 12 \<Longrightarrow>
   m = 1 \<or> m = 2 \<or> m = 3 \<or> m = 4 \<or> m = 5 \<or> m = 6 \<or> m = 7 \<or> m = 8 \<or> m = 9 \<or>
   m = 10 \<or> m = 11 \<or> m = 12"
  by presburger

lemma days_before_month_Suc:
  assumes "1 \<le> m" and "m < 12"
  shows "days_before_month y (Suc m) = days_before_month y m + days_in_month y m"
  using months_cases [OF assms(1) less_imp_le [OF assms(2)]] assms(2)
  by (elim disjE) (simp_all add: days_before_month_def days_in_month_def
    DAYS_BEFORE_MONTH_def DAYS_IN_MONTH_def)

lemma days_before_month_1 [simp]:
  "days_before_month y 1 = 0" "days_before_month y (Suc 0) = 0"
  by (simp_all add: days_before_month_def DAYS_BEFORE_MONTH_def)

lemma days_before_month_year:
  "days_before_month y 12 + days_in_month y 12 = days_in_year y"
  by (simp add: days_before_month_def days_in_month_def days_in_year_def
    DAYS_BEFORE_MONTH_def DAYS_IN_MONTH_def)

lemma days_in_month_pos:
  assumes "1 \<le> m" and "m \<le> 12"
  shows "0 < days_in_month y m"
  using months_cases [OF assms]
  by (elim disjE) (simp_all add: days_in_month_def DAYS_IN_MONTH_def)

lemma days_before_month_mono:
  assumes "1 \<le> m" and "m \<le> m'" and "m' \<le> 12"
  shows "days_before_month y m \<le> days_before_month y m'"
  using assms(2,3)
proof (induction m' rule: dec_induct)
  case base
  then show ?case by simp
next
  case (step n)
  with assms(1) have "days_before_month y (Suc n) = days_before_month y n + days_in_month y n"
    by (simp add: days_before_month_Suc)
  with step show ?case by simp
qed

lemma days_before_month_in_year:
  assumes "1 \<le> m" and "m \<le> 12"
  shows "days_before_month y m + days_in_month y m \<le> days_in_year y"
proof (cases "m = 12")
  case True
  then show ?thesis by (simp add: days_before_month_year)
next
  case False
  with assms have "days_before_month y m + days_in_month y m = days_before_month y (Suc m)"
    by (simp add: days_before_month_Suc)
  also have "\<dots> \<le> days_before_month y 12"
    using assms False by (intro days_before_month_mono) simp_all
  also have "\<dots> \<le> days_in_year y"
    using days_before_month_year [of y] by simp
  finally show ?thesis .
qed

lemma find_month_ymd:
  assumes "1 \<le> m0" and "m0 + d \<le> 12" and "k < days_in_month y (m0 + d)"
  shows "find_month y m0 (days_before_month y (m0 + d) - days_before_month y m0 + k) = (m0 + d, k)"
  using assms
proof (induction d arbitrary: m0)
  case 0
  then show ?case by (simp add: find_month_found)
next
  case (Suc d)
  have suc: "days_before_month y (Suc m0) = days_before_month y m0 + days_in_month y m0"
    using Suc.prems by (simp add: days_before_month_Suc)
  have mono: "days_before_month y (Suc m0) \<le> days_before_month y (Suc m0 + d)"
    using Suc.prems by (intro days_before_month_mono) simp_all
  have eq: "days_before_month y (m0 + Suc d) - days_before_month y m0 + k =
      days_in_month y m0 + (days_before_month y (Suc m0 + d) - days_before_month y (Suc m0) + k)"
    using suc mono by simp
  have IH: "find_month y (Suc m0) (days_before_month y (Suc m0 + d) - days_before_month y (Suc m0) + k) =
      (Suc m0 + d, k)"
    by (rule Suc.IH) (use Suc.prems in simp_all)
  have shift: "Suc m0 + d = m0 + Suc d" by simp
  have IH': "find_month y (Suc m0) (days_before_month y (m0 + Suc d) - days_before_month y (Suc m0) + k) =
      (m0 + Suc d, k)"
    using IH by (simp only: shift)
  have nxt: "find_month y m0 (days_in_month y m0 + x) = find_month y (Suc m0) x" for x
    using Suc.prems by (simp add: find_month_next)
  show ?case
    by (simp only: eq nxt IH' shift)
qed

lemma find_month_inv:
  "find_month y m0 k = (m, k') \<Longrightarrow> 1 \<le> m0 \<Longrightarrow> m0 \<le> 12 \<Longrightarrow>
   days_before_month y m0 + k < days_in_year y \<Longrightarrow>
   m0 \<le> m \<and> m \<le> 12 \<and> days_before_month y m0 + k = days_before_month y m + k' \<and>
   k' < days_in_month y m"
proof (induction y m0 k rule: find_month.induct)
  case (1 y m0 k)
  show ?case
  proof (cases "12 \<le> m0 \<or> k < days_in_month y m0")
    case True
    with "1.prems" have mk: "m = m0" "k' = k" by (simp_all add: find_month_found)
    have "k < days_in_month y m0"
    proof (cases "k < days_in_month y m0")
      case False
      with True "1.prems" have "m0 = 12" by simp
      with "1.prems"(4) show ?thesis using days_before_month_year [of y] by simp
    qed
    with mk "1.prems" show ?thesis by simp
  next
    case False
    with "1.prems" have "find_month y (Suc m0) (k - days_in_month y m0) = (m, k')"
      by (simp add: find_month_next)
    moreover have "days_before_month y (Suc m0) = days_before_month y m0 + days_in_month y m0"
      using False "1.prems" by (simp add: days_before_month_Suc)
    ultimately show ?thesis
      using "1.IH" False "1.prems" by simp
  qed
qed

section \<open>Ordinals and dates are in bijection\<close>

lemma ord_decompose:
  assumes "1 \<le> y"
  obtains q where "days_before_year (400 * q + 1) = 146097 * q" and "400 * q + 1 \<le> y"
    and "y + 1 \<le> (400 * q + 1) + 400"
proof
  let ?q = "(y - 1) div 400"
  show "days_before_year (400 * ?q + 1) = 146097 * ?q" by (rule days_before_year_cycles)
  show "400 * ?q + 1 \<le> y" using assms by linarith
  show "y + 1 \<le> (400 * ?q + 1) + 400" using assms by linarith
qed

theorem ord2ymd_ymd2ord:
  assumes "valid_date y m d"
  shows "ord2ymd (ymd2ord y m d) = (y, m, d)"
proof -
  from assms have y1: "1 \<le> y" and m: "1 \<le> m" "m \<le> 12" and d: "1 \<le> d" "d \<le> days_in_month y m"
    by (simp_all add: valid_date_def MINYEAR_def)
  obtain q where cyc: "days_before_year (400 * q + 1) = 146097 * q"
    and lo: "400 * q + 1 \<le> y" and hi: "y + 1 \<le> (400 * q + 1) + 400"
    using ord_decompose [OF y1] by blast
  let ?y0 = "400 * q + 1"
  let ?k = "days_before_month y m + (d - 1)"
  have k: "?k < days_in_year y"
    using days_before_month_in_year [OF m, where y = y] d by linarith
  have mono: "days_before_year ?y0 \<le> days_before_year y"
    using lo by (intro days_before_year_mono) simp_all
  have "days_before_year y + days_in_year y = days_before_year (Suc y)"
    using y1 by (simp add: days_before_year_Suc)
  also have "\<dots> \<le> days_before_year (?y0 + 400)"
    using hi y1 by (intro days_before_year_mono) simp_all
  also have "\<dots> = 146097 * q + 146097"
    using cyc days_before_year_400 [of ?y0] by simp
  finally have bound: "days_before_year y + days_in_year y \<le> 146097 * q + 146097" .
  let ?r = "days_before_year y - days_before_year ?y0 + ?k"
  have n0: "ymd2ord y m d - 1 = 146097 * q + ?r"
    using mono cyc d by (simp add: ymd2ord_def)
  have r: "?r < 146097" using bound k mono cyc by linarith
  have div: "(ymd2ord y m d - 1) div 146097 = q"
    unfolding n0 using r by simp
  have md: "(ymd2ord y m d - 1) mod 146097 = ?r"
    unfolding n0 using r by simp
  have fy: "find_year ?y0 ?r = (y, ?k)"
    using find_year_ymd [of ?y0 ?k "y - ?y0"] lo k by simp
  have "find_month y 1 (days_before_month y (1 + (m - 1)) - days_before_month y 1 + (d - 1)) =
      (1 + (m - 1), d - 1)"
    by (rule find_month_ymd) (use m d in simp_all)
  then have fm: "find_month y 1 ?k = (m, d - 1)"
    using m by simp
  show ?thesis
    unfolding ord2ymd_def Let_def div md fy using fm d by simp
qed

theorem ymd2ord_ord2ymd:
  assumes "1 \<le> n" and "ord2ymd n = (y, m, d)"
  shows "ymd2ord y m d = n \<and> 1 \<le> y \<and> 1 \<le> m \<and> m \<le> 12 \<and> 1 \<le> d \<and> d \<le> days_in_month y m"
proof -
  let ?q = "(n - 1) div 146097" and ?r = "(n - 1) mod 146097"
  obtain k where fy: "find_year (400 * ?q + 1) ?r = (y, k)"
    and fm: "find_month y 1 k = (m, d - 1)" and d: "1 \<le> d"
    using assms(2) by (auto simp: ord2ymd_def Let_def split: prod.splits)
  from find_year_inv [OF fy]
  have y: "400 * ?q + 1 \<le> y" and yeq: "days_before_year (400 * ?q + 1) + ?r = days_before_year y + k"
    and k: "k < days_in_year y" by simp_all
  from find_month_inv [OF fm] k
  have mm: "1 \<le> m" "m \<le> 12" and meq: "k = days_before_month y m + (d - 1)"
    and dd: "d - 1 < days_in_month y m" by simp_all
  have "ymd2ord y m d = days_before_year y + k + 1"
    using meq d by (simp add: ymd2ord_def)
  also have "\<dots> = 146097 * ?q + ?r + 1"
    using yeq days_before_year_cycles [of ?q] by simp
  also have "\<dots> = n"
    using assms(1) by simp
  finally show ?thesis using y mm dd d by simp
qed

section \<open>Seconds since the epoch of the calendar\<close>

lemma days_before_year_10000: "days_before_year 10000 = 3652059"
  by (simp add: days_before_year_def)

lemma ymd2ord_pos: "1 \<le> d \<Longrightarrow> 1 \<le> ymd2ord y m d"
  by (simp add: ymd2ord_def)

lemma ymd2ord_bound:
  assumes "valid_date y m d"
  shows "ymd2ord y m d \<le> days_before_year (Suc y)"
proof -
  from assms have y1: "1 \<le> y" and m: "1 \<le> m" "m \<le> 12" and d: "d \<le> days_in_month y m"
    by (simp_all add: valid_date_def MINYEAR_def)
  have "days_before_month y m + d \<le> days_in_year y"
    using days_before_month_in_year [OF m, where y = y] d by linarith
  then show ?thesis using y1 by (simp add: ymd2ord_def days_before_year_Suc)
qed

lemma toordinal_range:
  assumes "valid_dt t"
  shows "1 \<le> toordinal t \<and> toordinal t \<le> MAXORDINAL"
proof -
  from assms have v: "valid_date (dt_year t) (dt_month t) (dt_day t)"
    by (simp add: valid_dt_def)
  then have "dt_year t \<le> 9999" "1 \<le> dt_year t" "1 \<le> dt_day t"
    by (simp_all add: valid_date_def MAXYEAR_def MINYEAR_def)
  moreover have "days_before_year (Suc (dt_year t)) \<le> days_before_year 10000"
    using \<open>dt_year t \<le> 9999\<close> by (intro days_before_year_mono) simp_all
  ultimately show ?thesis
    using ymd2ord_bound [OF v] days_before_year_10000
      ymd2ord_pos [of "dt_day t" "dt_year t" "dt_month t"]
    by (simp add: toordinal_def MAXORDINAL_def)
qed

lemma ord2ymd_year_bound:
  assumes "1 \<le> n" and "n \<le> MAXORDINAL" and "ord2ymd n = (y, m, d)"
  shows "y \<le> MAXYEAR"
proof (rule ccontr)
  assume "\<not> y \<le> MAXYEAR"
  then have "10000 \<le> y" by (simp add: MAXYEAR_def)
  from ymd2ord_ord2ymd [OF assms(1,3)]
  have n: "n = ymd2ord y m d" and "1 \<le> d" by simp_all
  have "days_before_year 10000 \<le> days_before_year y"
    using \<open>10000 \<le> y\<close> by (intro days_before_year_mono) simp_all
  then have "3652059 < n" using n \<open>1 \<le> d\<close> days_before_year_10000 by (simp add: ymd2ord_def)
  with assms(2) show False by (simp add: MAXORDINAL_def)
qed

lemma seconds_of_day_split:
  fixes h mi s :: nat
  assumes "mi < 60" and "s < 60"
  shows "(h * 3600 + mi * 60 + s) div 3600 = h"
    and "(h * 3600 + mi * 60 + s) mod 3600 div 60 = mi"
    and "(h * 3600 + mi * 60 + s) mod 60 = s"
proof -
  have a: "mi * 60 + s < 3600" using assms by linarith
  show "(h * 3600 + mi * 60 + s) div 3600 = h"
    using a by (simp add: add.assoc)
  show "(h * 3600 + mi * 60 + s) mod 3600 div 60 = mi"
    using a assms by (simp add: add.assoc)
  have e: "h * 3600 + mi * 60 + s = s + (h * 60 + mi) * 60" by simp
  show "(h * 3600 + mi * 60 + s) mod 60 = s"
    unfolding e mod_mult_self1 using assms by simp
qed

lemma dt_add_seconds_exact:
  assumes t: "valid_dt t" and u: "dt_seconds u + delta = dt_seconds t"
    and us: "dt_microsecond u = dt_microsecond t"
  shows "dt_add_seconds delta u = Inr t"
proof -
  let ?sod = "dt_hour t * 3600 + dt_minute t * 60 + dt_second t"
  let ?N = "?sod + (toordinal t - 1) * 86400"
  have sod: "?sod < 86400" using t by (simp add: valid_dt_def)
  have tot: "dt_seconds u + delta = int ?N"
    using u by (simp add: dt_seconds_def)
  have ord: "1 \<le> toordinal t" "toordinal t \<le> MAXORDINAL"
    using toordinal_range [OF t] by simp_all
  have Ndiv: "?N div 86400 = toordinal t - 1"
    unfolding div_mult_self1 [of 86400 ?sod "toordinal t - 1", simplified] using sod by simp
  have Nmod: "?N mod 86400 = ?sod"
    unfolding mod_mult_self1 using sod by simp
  have days: "(dt_seconds u + delta) div 86400 + 1 = int (toordinal t)"
    unfolding tot using Ndiv ord(1) by (simp add: zdiv_int [symmetric])
  have secs: "nat ((dt_seconds u + delta) mod 86400) = ?sod"
    unfolding tot using Nmod by (simp add: zmod_int [symmetric])
  have ymd: "ord2ymd (toordinal t) = (dt_year t, dt_month t, dt_day t)"
    using t by (simp add: toordinal_def valid_dt_def ord2ymd_ymd2ord)
  have ms: "dt_minute t < 60" "dt_second t < 60" using t by (simp_all add: valid_dt_def)
  show ?thesis
    using ord unfolding dt_add_seconds_def Let_def days secs
    by (simp add: ymd seconds_of_day_split [OF ms] us)
qed


lemma seconds_of_day_bounds:
  "(x::nat) < 86400 \<Longrightarrow> x div 3600 < 24 \<and> x mod 3600 div 60 < 60"
  using div_less_iff_less_mult [of 3600 x 24] div_less_iff_less_mult [of 60 "x mod 3600" 60]
  by simp

lemma seconds_of_day_recombine:
  "(x::nat) div 3600 * 3600 + x mod 3600 div 60 * 60 + x mod 60 = x"
proof -
  have "x mod 3600 mod 60 = x mod 60" by (rule mod_mod_cancel) simp
  then have "x mod 3600 div 60 * 60 + x mod 60 = x mod 3600"
    by (metis div_mult_mod_eq)
  then show ?thesis by (metis add.assoc div_mult_mod_eq)
qed

lemma int_days_secs:
  fixes x :: int
  assumes "0 \<le> x div 86400"
  shows "int ((nat (x div 86400 + 1) - 1) * 86400 + nat (x mod 86400)) = x"
proof -
  have "int ((nat (x div 86400 + 1) - 1) * 86400 + nat (x mod 86400)) =
      (x div 86400) * 86400 + x mod 86400"
    using assms by (simp add: of_nat_diff nat_add_distrib)
  also have "\<dots> = x" by (rule div_mult_mod_eq)
  finally show ?thesis .
qed

lemma dt_add_seconds_Inr:
  assumes r: "dt_add_seconds delta u = Inr t'" and us: "dt_microsecond u < 1000000"
  shows "valid_dt t' \<and> dt_seconds t' = dt_seconds u + delta \<and> dt_microsecond t' = dt_microsecond u"
proof -
  let ?total = "dt_seconds u + delta"
  let ?days = "?total div 86400 + 1"
  let ?secs = "nat (?total mod 86400)"
  have rng: "0 < ?days \<and> ?days \<le> int MAXORDINAL"
    using r by (auto simp: dt_add_seconds_def Let_def split: if_splits)
  obtain y m d where ymd: "ord2ymd (nat ?days) = (y, m, d)"
    by (cases "ord2ymd (nat ?days)") auto
  have t': "t' = \<lparr>dt_year = y, dt_month = m, dt_day = d, dt_hour = ?secs div 3600,
      dt_minute = ?secs mod 3600 div 60, dt_second = ?secs mod 60,
      dt_microsecond = dt_microsecond u\<rparr>"
    using r rng ymd by (simp add: dt_add_seconds_def Let_def)
  have n1: "1 \<le> nat ?days" and nmax: "nat ?days \<le> MAXORDINAL" using rng by linarith+
  from ymd2ord_ord2ymd [OF n1 ymd]
  have o: "ymd2ord y m d = nat ?days" and v: "1 \<le> y" "1 \<le> m" "m \<le> 12" "1 \<le> d" "d \<le> days_in_month y m"
    by simp_all
  have ymax: "y \<le> MAXYEAR" by (rule ord2ymd_year_bound [OF n1 nmax ymd])
  have secs: "?secs < 86400" by simp
  have valid: "valid_dt t'"
    using v ymax seconds_of_day_bounds [OF secs] us
    by (simp add: t' valid_dt_def valid_date_def MINYEAR_def)
  have "?secs div 3600 * 3600 + ?secs mod 3600 div 60 * 60 + ?secs mod 60 = ?secs"
    by (rule seconds_of_day_recombine)
  then have "dt_seconds t' = int ((nat ?days - 1) * 86400 + ?secs)"
    by (simp add: t' dt_seconds_def toordinal_def o add.assoc)
  also have "\<dots> = ?total"
    by (rule int_days_secs) (use rng in simp)
  finally have sec_eq: "dt_seconds t' = ?total" .
  have "dt_microsecond t' = dt_microsecond u" by (simp add: t')
  with valid sec_eq show ?thesis by blast
qed

theorem dt_add_seconds_cancel:
  assumes "valid_dt u" and "dt_add_seconds delta u = Inr t'"
  shows "dt_add_seconds (- delta) t' = Inr u"
proof -
  have "dt_microsecond u < 1000000" using assms(1) by (simp add: valid_dt_def)
  from dt_add_seconds_Inr [OF assms(2) this]
  have "dt_seconds t' + - delta = dt_seconds u" and "dt_microsecond t' = dt_microsecond u"
    by simp_all
  then show ?thesis by (rule dt_add_seconds_exact [OF assms(1)])
qed


lemma days_in_month_le_31: "m \<le> 12 \<Longrightarrow> days_in_month y m \<le> 31"
proof (cases "m = 0")
  case True
  then show ?thesis by (simp add: days_in_month_def DAYS_IN_MONTH_def)
next
  case False
  assume "m \<le> 12"
  with False have "1 \<le> m" by simp
  from months_cases [OF this \<open>m \<le> 12\<close>] show ?thesis
    by (elim disjE) (simp_all add: days_in_month_def DAYS_IN_MONTH_def)
qed

section \<open>Properties of the datetime model\<close>

text \<open>
  C14. Converting a local wall-clock time to UTC (lines 117--119) and shifting back by
  the same zone's offset gives the original wall-clock time: the specification's
  round trip when the input and output zones agree.
\<close>

theorem local_to_utc_roundtrip:
  assumes "valid_dt t" and "local_to_utc off t = Inr u"
  shows "valid_dt u \<and> dt_add_seconds off u = Inr t \<and> dt_seconds u = dt_seconds t - off"
proof -
  have r: "dt_add_seconds (- off) t = Inr u" using assms(2) by (simp add: local_to_utc_def)
  have "dt_microsecond t < 1000000" using assms(1) by (simp add: valid_dt_def)
  from dt_add_seconds_Inr [OF r this] have "valid_dt u" and "dt_seconds u = dt_seconds t - off"
    by simp_all
  moreover have "dt_add_seconds (- (- off)) u = Inr t"
    by (rule dt_add_seconds_cancel [OF assms(1) r])
  ultimately show ?thesis by simp
qed

lemma example_dt_valid: "valid_dt example_dt"
  by (simp add: example_dt_def valid_dt_def valid_date_def paros_simps MINYEAR_def MAXYEAR_def)

theorem local_to_utc_roundtrip_witness:
  "local_to_utc (- 21600) example_dt = Inr example_utc \<and> dt_add_seconds (- 21600) example_utc = Inr example_dt"
proof -
  have r: "local_to_utc (- 21600) example_dt = Inr example_utc"
    by (simp add: local_to_utc_def dt_add_seconds_def dt_seconds_def toordinal_def example_dt_def
        example_utc_def ord2ymd_def paros_simps MAXORDINAL_def)
  from local_to_utc_roundtrip [OF example_dt_valid r] r show ?thesis by simp
qed

end
