(* ===== verification/Frame.thy ===== *)
theory Frame
  imports Complex_Main Date_Time
begin

text \<open>
  The part of pandas that \<open>src/get-paros-data.py\<close> uses on the query results. A
  DataFrame is its list of columns in order, each a label and the column's cells (the
  row index is not modelled: the script never reads it, and both exporters drop it).
  Cells are what the InfluxDB client puts in a result frame: strings (tags, the
  \<open>result\<close> label), integers (the \<open>table\<close> index), floats (exact rationals here),
  booleans, missing values, and timestamps: time-zone aware ones carry their zone's
  UTC offset in seconds and the instant in nanoseconds since the Unix epoch, naive ones
  the wall-clock nanoseconds since 1970-01-01. Each operation raises what pandas raises
  on the inputs where the script can meet it.
\<close>

section \<open>Cells, columns and frames\<close>

datatype cell =
    CStr string
  | CInt int
  | CFloat rat
  | CBool bool
  | CNaN
  | CTime int int
  | CNaive int

type_synonym column = "string \<times> cell list"
type_synonym frame = "column list"

definition columns :: "frame \<Rightarrow> string list" where
  "columns df = map fst df"

definition nrows :: "frame \<Rightarrow> nat" where
  "nrows df = (case df of [] \<Rightarrow> 0 | (_, v) # _ \<Rightarrow> length v)"

text \<open>The invariant of a frame: distinct labels, columns of equal length.\<close>

definition wf_frame :: "frame \<Rightarrow> bool" where
  "wf_frame df \<longleftrightarrow> distinct (columns df) \<and> list_all (\<lambda>(_, v). length v = nrows df) df"

section \<open>Rendering a cell with \<open>str()\<close>\<close>

text \<open>
  The fractional digits of \<open>r / q\<close> (\<open>r < q\<close>), at most \<open>k\<close> of them, stopping when
  the expansion ends.
\<close>

fun frac_digits :: "nat \<Rightarrow> nat \<Rightarrow> nat \<Rightarrow> string" where
  "frac_digits 0 r q = []"
| "frac_digits (Suc k) r q =
     (if r = 0 then [] else digit_char (10 * r div q) # frac_digits k (10 * r mod q) q)"

text \<open>
  \<open>str(x)\<close> of a float in positional notation: integral values print as \<open>n.0\<close>,
  others with their decimal expansion (up to 17 digits). Python's exponent notation
  (\<open>|x| \<ge> 1e16\<close> or \<open>|x| < 1e-4\<close>) and the shortest-round-trip choice of digits
  for values with no short decimal expansion are not modelled.
\<close>

definition float_str :: "rat \<Rightarrow> string" where
  "float_str r =
     (case quotient_of r of (p, q) \<Rightarrow>
        (if p < 0 then ''-'' else []) @ nat_str (nat \<bar>p\<bar> div nat q) @ ''.'' @
        (if nat \<bar>p\<bar> mod nat q = 0 then ''0'' else frac_digits 17 (nat \<bar>p\<bar> mod nat q) (nat q)))"

text \<open>
  \<open>str(Timestamp)\<close>: the wall-clock time \<open>YYYY-MM-DD HH:MM:SS\<close>, the fraction
  (six digits when it is whole microseconds, nine otherwise) and, for an aware
  timestamp, the offset \<open>+HH:MM\<close>. The wall clock comes from the calendar of
  \<open>Date_Time\<close>, counted from 1970-01-01; pandas timestamps are 64-bit nanosecond
  counts, inside the calendar's range, and a count outside it prints as the number.
\<close>

definition epoch_dt :: naive_dt where
  "epoch_dt = \<lparr>dt_year = 1970, dt_month = 1, dt_day = 1, dt_hour = 0, dt_minute = 0,
     dt_second = 0, dt_microsecond = 0\<rparr>"

definition wall_str :: "int \<Rightarrow> string" where
  "wall_str ns =
     (case dt_add_seconds (ns div 1000000000) epoch_dt of
        Inl _ \<Rightarrow> int_str ns
      | Inr t \<Rightarrow>
          zero_pad 4 (dt_year t) @ ''-'' @ zero_pad 2 (dt_month t) @ ''-'' @ zero_pad 2 (dt_day t) @
          '' '' @ zero_pad 2 (dt_hour t) @ '':'' @ zero_pad 2 (dt_minute t) @ '':'' @
          zero_pad 2 (dt_second t) @
          (let f = nat (ns mod 1000000000) in
           if f = 0 then []
           else if f mod 1000 = 0 then ''.'' @ zero_pad 6 (f div 1000)
           else ''.'' @ zero_pad 9 f))"

definition offset_str :: "int \<Rightarrow> string" where
  "offset_str off =
     (if off < 0 then ''-'' else ''+'') @ zero_pad 2 (nat \<bar>off\<bar> div 3600) @ '':'' @
     zero_pad 2 (nat \<bar>off\<bar> mod 3600 div 60)"

fun py_str :: "cell \<Rightarrow> string" where
  "py_str (CStr s) = s"
| "py_str (CInt i) = int_str i"
| "py_str (CFloat r) = float_str r"
| "py_str (CBool b) = (if b then ''True'' else ''False'')"
| "py_str CNaN = ''nan''"
| "py_str (CTime off ns) = wall_str (ns + off * 1000000000) @ offset_str off"
| "py_str (CNaive ns) = wall_str ns"

section \<open>Selecting, dropping, renaming and assigning columns\<close>

text \<open>\<open>label in df\<close>.\<close>

definition df_contains :: "string \<Rightarrow> frame \<Rightarrow> bool" where
  "df_contains c df \<longleftrightarrow> c \<in> set (columns df)"

text \<open>
  \<open>df[label]\<close>: \<open>KeyError\<close> when no column has the label. A label held by two
  columns selects a DataFrame rather than a column; the one place the script can meet
  that (line 71, after a rename) then asks it for \<open>.dt\<close>, which raises
  \<open>AttributeError\<close>, so the model raises it at the selection.
\<close>

definition df_getitem :: "string \<Rightarrow> frame \<Rightarrow> cell list py_result" where
  "df_getitem c df =
     (case filter (\<lambda>col. fst col = c) df of
        [] \<Rightarrow> Inl (KeyError c)
      | [(_, v)] \<Rightarrow> Inr v
      | _ \<Rightarrow> Inl (AttributeError ''DataFrame'' ))"

text \<open>\<open>series.iloc[0]\<close>.\<close>

definition iloc0 :: "cell list \<Rightarrow> cell py_result" where
  "iloc0 v = (case v of [] \<Rightarrow> Inl IndexError | x # _ \<Rightarrow> Inr x)"

text \<open>
  \<open>df.drop(columns=labels)\<close>: \<open>KeyError\<close> naming a label that is not there,
  otherwise the frame without the labelled columns, in order.
\<close>

definition df_drop :: "string list \<Rightarrow> frame \<Rightarrow> frame py_result" where
  "df_drop cs df =
     (case find (\<lambda>c. c \<notin> set (columns df)) cs of
        Some c \<Rightarrow> Inl (KeyError c)
      | None \<Rightarrow> Inr (filter (\<lambda>col. fst col \<notin> set cs) df))"

text \<open>\<open>df.rename(columns={old: new})\<close>; a label that is not there is ignored.\<close>

definition df_rename :: "string \<Rightarrow> string \<Rightarrow> frame \<Rightarrow> frame" where
  "df_rename old new df = map (\<lambda>(c, v). (if c = old then new else c, v)) df"

text \<open>
  \<open>df[label] = values\<close>: replaces the column in place, or appends a new one at the
  end; this is \<open>AList.update\<close>.
\<close>

definition df_setitem :: "string \<Rightarrow> cell list \<Rightarrow> frame \<Rightarrow> frame" where
  "df_setitem c v df = AList.update c v df"

section \<open>The \<open>.dt\<close> accessor and time arithmetic\<close>

fun is_aware :: "cell \<Rightarrow> bool" where
  "is_aware (CTime _ _) = True"
| "is_aware _ = False"

fun is_naive :: "cell \<Rightarrow> bool" where
  "is_naive (CNaive _) = True"
| "is_naive _ = False"

text \<open>
  \<open>series.dt.tz_convert(zone)\<close>: the same instants shown in another zone. A column
  that holds anything but timestamps has no \<open>.dt\<close> (\<open>AttributeError\<close>); naive
  timestamps cannot be converted (\<open>TypeError\<close>); an unknown zone raises
  \<open>UnknownTimeZoneError\<close>.
\<close>

fun set_offset :: "int \<Rightarrow> cell \<Rightarrow> cell" where
  "set_offset off (CTime _ ns) = CTime off ns"
| "set_offset off c = c"

definition dt_tz_convert :: "tz_table \<Rightarrow> string \<Rightarrow> cell list \<Rightarrow> cell list py_result" where
  "dt_tz_convert tzdb zone v =
     (if v \<noteq> [] \<and> list_all is_aware v then res_map (\<lambda>off. map (set_offset off) v) (py_timezone tzdb zone)
      else if v \<noteq> [] \<and> list_all is_naive v then Inl (TypeError ''Cannot convert tz-naive timestamps'')
      else Inl (AttributeError ''.dt''))"

text \<open>\<open>series.dt.tz_localize(None)\<close>: an aware timestamp becomes its wall-clock time.\<close>

fun drop_zone :: "cell \<Rightarrow> cell" where
  "drop_zone (CTime off ns) = CNaive (ns + off * 1000000000)"
| "drop_zone c = c"

definition dt_tz_localize_none :: "cell list \<Rightarrow> cell list py_result" where
  "dt_tz_localize_none v =
     (if v \<noteq> [] \<and> (list_all is_aware v \<or> list_all is_naive v) then Inr (map drop_zone v)
      else Inl (AttributeError ''.dt''))"

text \<open>
  \<open>(series - pd.Timestamp("1970-01-01")) / pd.Timedelta('1s')\<close>: naive timestamps
  become float seconds since the epoch; aware ones cannot be subtracted from a naive
  timestamp (\<open>TypeError\<close>).
\<close>

fun unix_seconds :: "cell \<Rightarrow> cell" where
  "unix_seconds (CNaive ns) = CFloat (of_int ns / 1000000000)"
| "unix_seconds c = c"

definition to_unix_time :: "cell list \<Rightarrow> cell list py_result" where
  "to_unix_time v =
     (if list_all is_naive v then Inr (map unix_seconds v)
      else Inl (TypeError ''unsupported operand types for -''))"

text \<open>\<open>pd.Series(xs).unique()\<close>: the distinct values in order of first appearance.\<close>

fun py_unique :: "'a list \<Rightarrow> 'a list" where
  "py_unique [] = []"
| "py_unique (x # xs) = x # py_unique (filter (\<lambda>y. y \<noteq> x) xs)"

section \<open>Lemmas on frames\<close>

lemma columns_filter [simp]: "columns (filter P df) = map fst (filter P df)"
  by (simp add: columns_def)

lemma df_getitem_unique:
  "distinct (columns df) \<Longrightarrow> map_of df c = Some v \<Longrightarrow> df_getitem c df = Inr v"
proof (induction df)
  case Nil
  then show ?case by simp
next
  case (Cons col df)
  obtain c' v' where col: "col = (c', v')" by (cases col)
  show ?case
  proof (cases "c' = c")
    case True
    with Cons.prems col have "filter (\<lambda>col. fst col = c) df = []"
      by (auto simp: columns_def filter_empty_conv)
    with True Cons.prems col show ?thesis by (simp add: df_getitem_def)
  next
    case False
    with Cons col show ?thesis by (simp add: df_getitem_def columns_def)
  qed
qed

lemma df_getitem_missing:
  assumes "c \<notin> set (columns df)"
  shows "df_getitem c df = Inl (KeyError c)"
proof -
  have "filter (\<lambda>col. fst col = c) df = []"
    using assms by (force simp: filter_empty_conv columns_def)
  then show ?thesis by (simp add: df_getitem_def)
qed

lemma df_drop_ok:
  "set cs \<subseteq> set (columns df) \<Longrightarrow> df_drop cs df = Inr (filter (\<lambda>col. fst col \<notin> set cs) df)"
  by (auto simp: df_drop_def find_None_iff split: option.splits)

lemma df_drop_missing:
  "c \<in> set cs \<Longrightarrow> c \<notin> set (columns df) \<Longrightarrow> \<exists>c'. df_drop cs df = Inl (KeyError c')"
  by (auto simp: df_drop_def find_None_iff split: option.splits)

lemma py_unique_err: "length (py_unique ''err'') = 2"
  by simp

end
