(* ===== verification/Normalize.thy ===== *)
theory Normalize
  imports Frame
begin

text \<open>
  The result normaliser \<open>processInfluxDF\<close> of \<open>src/get-paros-data.py\<close>
  (lines 53--76): it names a per-sensor frame \<open>{box}_{sensor}\<close> from its first row,
  drops the bookkeeping columns, drops \<open>baro_time\<close> and \<open>err\<close> when present (warning
  about \<open>err\<close>), renames \<open>_time\<close> to \<open>time\<close> and turns the timestamps into unix
  seconds of the output zone's wall clock. The theory states the contract as
  \<open>normalize_spec\<close>, proves that the code implements it on every frame the InfluxDB
  client produces, and gives the error branches, the invariant kept and the warning's
  actual condition.
\<close>

section \<open>The definitions\<close>

definition DROP_COLUMNS :: "string list" where
  "DROP_COLUMNS = [''result'', ''table'', ''_measurement'', ''id'']"

definition ERR_WARNING :: string where
  "ERR_WARNING = ''WARNING: Some anemometer values were recorded with an error code''"

text \<open>Lines 60--61: \<open>if "baro_time" in out_df: out_df.drop(columns=["baro_time"])\<close>.\<close>

definition drop_baro_time :: "frame \<Rightarrow> frame py_result" where
  "drop_baro_time out_df =
     (if df_contains ''baro_time'' out_df then df_drop [''baro_time''] out_df else Inr out_df)"

text \<open>
  Lines 63--68. The distinct values inspected are those of \<open>list("err")\<close>, the
  characters of the literal string, not of the column; the printed warning is the
  output the model returns.
\<close>

definition check_err :: "frame \<Rightarrow> (string list \<times> frame) py_result" where
  "check_err out_df =
     (if df_contains ''err'' out_df then
        (let err_list = py_unique ''err'' in
         res_map (\<lambda>df'. (if 1 < length err_list then [ERR_WARNING] else [], df'))
           (df_drop [''err''] out_df))
      else Inr ([], out_df))"

text \<open>Lines 70--74: rename, convert to the output zone, drop the zone, unix seconds.\<close>

definition convert_time :: "tz_table \<Rightarrow> string \<Rightarrow> frame \<Rightarrow> frame py_result" where
  "convert_time tzdb output_tz out_df =
     (let df1 = df_rename ''_time'' ''time'' out_df in
      res_bind (df_getitem ''time'' df1) (\<lambda>t1.
      res_bind (dt_tz_convert tzdb output_tz t1) (\<lambda>t1'.
      (let df2 = df_setitem ''time'' t1' df1 in
       res_bind (df_getitem ''time'' df2) (\<lambda>t2.
       res_bind (dt_tz_localize_none t2) (\<lambda>t2'.
       (let df3 = df_setitem ''time'' t2' df2 in
        res_bind (df_getitem ''time'' df3) (\<lambda>t3.
        res_map (\<lambda>t3'. df_setitem ''time'' t3' df3) (to_unix_time t3)))))))))"

definition processInfluxDF :: "tz_table \<Rightarrow> frame \<Rightarrow> string \<Rightarrow> (string list \<times> string \<times> frame) py_result" where
  "processInfluxDF tzdb df output_tz =
     res_bind (df_getitem ''_measurement'' df) (\<lambda>meas. res_bind (iloc0 meas) (\<lambda>cur_box.
     res_bind (df_getitem ''id'' df) (\<lambda>ids. res_bind (iloc0 ids) (\<lambda>cur_id.
     (let id_str = py_str cur_box @ ''_'' @ py_str cur_id in
      res_bind (df_drop DROP_COLUMNS df) (\<lambda>out_df.
      res_bind (drop_baro_time out_df) (\<lambda>out_df.
      res_bind (check_err out_df) (\<lambda>(warnings, out_df).
      res_map (\<lambda>out_df. (warnings, id_str, out_df)) (convert_time tzdb output_tz out_df)))))))))"

section \<open>The contract\<close>

text \<open>
  A frame as the InfluxDB client returns it for one table: well formed, at least one
  row, the bookkeeping columns and \<open>_time\<close> present, no column already named
  \<open>time\<close>, and aware timestamps in \<open>_time\<close>.
\<close>

definition influx_frame :: "frame \<Rightarrow> bool" where
  "influx_frame df \<longleftrightarrow>
     wf_frame df \<and> 0 < nrows df \<and>
     set [''result'', ''table'', ''_measurement'', ''id'', ''_time''] \<subseteq> set (columns df) \<and>
     ''time'' \<notin> set (columns df) \<and>
     list_all is_aware (the (map_of df ''_time''))"

definition INTERNAL_COLUMNS :: "string list" where
  "INTERNAL_COLUMNS = DROP_COLUMNS @ [''baro_time'', ''err'']"

fun normalized_time :: "int \<Rightarrow> cell \<Rightarrow> cell" where
  "normalized_time off (CTime _ ns) = CFloat (of_int (ns + off * 1000000000) / 1000000000)"
| "normalized_time off c = c"

text \<open>
  The contract of the normaliser as the code fulfils it: the frame part is the
  specification's section 4.2 (the identifier from the first row's box and sensor,
  the internal columns gone, \<open>_time\<close> renamed and holding the unix seconds of the
  output zone's wall clock, everything else in place); the warning part is the code's
  own condition, a warning exactly when an \<open>err\<close> column is present, which is not
  the specification's (a warning only for two or more distinct error codes; C10).
\<close>

definition normalized_warnings :: "frame \<Rightarrow> string list" where
  "normalized_warnings df = (if ''err'' \<in> set (columns df) then [ERR_WARNING] else [])"

definition normalized_id :: "frame \<Rightarrow> string" where
  "normalized_id df =
     py_str (hd (the (map_of df ''_measurement''))) @ ''_'' @ py_str (hd (the (map_of df ''id'')))"

definition normalized_frame :: "int \<Rightarrow> frame \<Rightarrow> frame" where
  "normalized_frame off df =
     map (\<lambda>(c, v). if c = ''_time'' then (''time'', map (normalized_time off) v) else (c, v))
       (filter (\<lambda>col. fst col \<notin> set INTERNAL_COLUMNS) df)"

definition normalize_spec :: "int \<Rightarrow> frame \<Rightarrow> string list \<times> string \<times> frame" where
  "normalize_spec off df = (normalized_warnings df, normalized_id df, normalized_frame off df)"

text \<open>
  A raw table as in the specification's example: box \<open>box7\<close>, sensor \<open>P1\<close>, two
  samples ten seconds apart from the epoch, an \<open>err\<close> column that flags no error, and
  a zone table with UTC and a fixed-offset Chicago (CST).
\<close>

definition example_raw :: frame where
  "example_raw =
     [(''result'', [CStr ''_result'', CStr ''_result'']), (''table'', [CInt 0, CInt 0]),
      (''_time'', [CTime 0 10000000000, CTime 0 20000000000]),
      (''_value'', [CFloat 1013, CFloat 1014]),
      (''_measurement'', [CStr ''box7'', CStr ''box7'']), (''id'', [CStr ''P1'', CStr ''P1'']),
      (''err'', [CInt 0, CInt 0])]"

definition example_tzdb :: tz_table where
  "example_tzdb z =
     (if z = ''UTC'' then Some 0 else if z = ''America/Chicago'' then Some (-21600) else None)"

section \<open>Lemmas on the steps\<close>

lemma df_setitem_existing:
  "distinct (columns df) \<Longrightarrow> c \<in> set (columns df) \<Longrightarrow>
   df_setitem c v df = map (\<lambda>(c', x). if c' = c then (c', v) else (c', x)) df"
proof (induction df)
  case Nil
  then show ?case by (simp add: columns_def)
next
  case (Cons col df)
  obtain c' x where col: "col = (c', x)" by (cases col)
  show ?case
  proof (cases "c' = c")
    case True
    with Cons.prems col have "\<forall>e \<in> set df. fst e \<noteq> c" by (auto simp: columns_def)
    then have "map (\<lambda>(c', x). if c' = c then (c', v) else (c', x)) df = df"
      by (induction df) auto
    with True col show ?thesis by (simp add: df_setitem_def)
  next
    case False
    with Cons col show ?thesis by (simp add: df_setitem_def columns_def)
  qed
qed

lemma columns_df_setitem:
  "c \<in> set (columns df) \<Longrightarrow> columns (df_setitem c v df) = columns df"
  by (simp add: df_setitem_def columns_def map_fst_AList_update)

lemma df_getitem_setitem:
  "distinct (columns df) \<Longrightarrow> c \<in> set (columns df) \<Longrightarrow> df_getitem c (df_setitem c v df) = Inr v"
  by (rule df_getitem_unique)
    (simp_all add: columns_df_setitem, simp add: df_setitem_def map_of_AList_update)

lemma drop_baro_time_ok:
  "drop_baro_time df = Inr (filter (\<lambda>col. fst col \<noteq> ''baro_time'') df)"
proof (cases "df_contains ''baro_time'' df")
  case True
  then show ?thesis by (simp add: drop_baro_time_def df_drop_ok df_contains_def)
next
  case False
  then have "filter (\<lambda>col. fst col \<noteq> ''baro_time'') df = df"
    by (force simp: df_contains_def columns_def filter_id_conv)
  with False show ?thesis by (simp add: drop_baro_time_def)
qed

lemma check_err_ok:
  "check_err df =
     Inr (if ''err'' \<in> set (columns df) then [ERR_WARNING] else [],
          filter (\<lambda>col. fst col \<noteq> ''err'') df)"
proof (cases "df_contains ''err'' df")
  case True
  then show ?thesis by (simp add: check_err_def df_drop_ok df_contains_def)
next
  case False
  then have "filter (\<lambda>col. fst col \<noteq> ''err'') df = df"
    by (force simp: df_contains_def columns_def filter_id_conv)
  with False show ?thesis by (simp add: check_err_def df_contains_def)
qed

lemma normalized_time_steps:
  "is_aware c \<Longrightarrow> unix_seconds (drop_zone (set_offset off c)) = normalized_time off c"
  by (cases c) simp_all

lemma columns_df_rename:
  "columns (df_rename old new df) = map (\<lambda>c. if c = old then new else c) (columns df)"
  by (induction df) (auto simp: df_rename_def columns_def)

lemma distinct_rename_fresh:
  "distinct xs \<Longrightarrow> new \<notin> set xs \<Longrightarrow> distinct (map (\<lambda>c. if c = old then new else c) xs)"
  by (induction xs) auto

lemma map_of_df_rename_new:
  "new \<notin> set (columns df) \<Longrightarrow> map_of (df_rename old new df) new = map_of df old"
  by (induction df) (auto simp: df_rename_def columns_def)

lemma map_of_filter_fst:
  "P k \<Longrightarrow> map_of (filter (\<lambda>col. P (fst col)) df) k = map_of df k"
  by (induction df) auto

lemma wf_map_of_length:
  "wf_frame df \<Longrightarrow> map_of df c = Some v \<Longrightarrow> length v = nrows df"
  by (auto simp: wf_frame_def list_all_iff dest!: map_of_SomeD)

lemma column_present:
  "c \<in> set (columns df) \<Longrightarrow> \<exists>v. map_of df c = Some v"
  by (cases "map_of df c") (auto simp: columns_def map_of_eq_None_iff)

lemma map_of_column:
  "map_of df c = Some v \<Longrightarrow> c \<in> set (columns df)"
  by (force simp: columns_def dest: map_of_SomeD)

lemma rename_setitem_map:
  assumes dist: "distinct (columns df)" and fresh: "new \<notin> set (columns df)"
    and col: "map_of df old = Some v"
  shows "df_setitem new (g v) (df_rename old new df) =
    map (\<lambda>(c, x). if c = old then (new, g x) else (c, x)) df"
proof -
  have "df_setitem new (g v) (df_rename old new df) =
      map (\<lambda>(c', x). if c' = new then (c', g v) else (c', x)) (df_rename old new df)"
    using dist fresh map_of_column [OF col]
    by (intro df_setitem_existing) (force simp: columns_df_rename distinct_rename_fresh)+
  also have "\<dots> = map (\<lambda>(c, x). if c = old then (new, g x) else (c, x)) df"
    unfolding df_rename_def map_map
  proof (rule map_cong [OF refl])
    fix e assume e: "e \<in> set df"
    obtain c x where ce: "e = (c, x)" by (cases e)
    have "c = old \<Longrightarrow> x = v"
      using e ce col dist by (simp add: columns_def map_of_is_SomeI)
    moreover have "c \<noteq> new"
      using e ce fresh by (force simp: columns_def)
    ultimately show "((\<lambda>(c', x). if c' = new then (c', g v) else (c', x)) \<circ>
        (\<lambda>(c, v). (if c = old then new else c, v))) e =
      (\<lambda>(c, x). if c = old then (new, g x) else (c, x)) e"
      using ce by auto
  qed
  finally show ?thesis .
qed

lemma df_getitem_renamed:
  "distinct (columns df) \<Longrightarrow> new \<notin> set (columns df) \<Longrightarrow> map_of df old = Some v \<Longrightarrow>
   df_getitem new (df_rename old new df) = Inr v"
  by (rule df_getitem_unique)
    (simp_all add: columns_df_rename distinct_rename_fresh map_of_df_rename_new)

lemma convert_time_ok:
  assumes dist: "distinct (columns df)" and has: "''_time'' \<in> set (columns df)"
    and fresh: "''time'' \<notin> set (columns df)"
    and col: "map_of df ''_time'' = Some v" and ne: "v \<noteq> []" and aware: "list_all is_aware v"
    and tz: "tzdb z = Some off"
  shows "convert_time tzdb z df =
    Inr (map (\<lambda>(c, x). if c = ''_time'' then (''time'', map (normalized_time off) x) else (c, x)) df)"
proof -
  let ?df1 = "df_rename ''_time'' ''time'' df"
  have d1: "distinct (columns ?df1)"
    using dist fresh by (simp add: columns_df_rename distinct_rename_fresh)
  have h1: "''time'' \<in> set (columns ?df1)"
    using has by (force simp: columns_df_rename)
  have g1: "df_getitem ''time'' ?df1 = Inr v"
    using dist fresh col by (rule df_getitem_renamed)
  let ?v1 = "map (set_offset off) v"
  have c1: "dt_tz_convert tzdb z v = Inr ?v1"
    using ne aware tz by (simp add: dt_tz_convert_def py_timezone_def)
  let ?df2 = "df_setitem ''time'' ?v1 ?df1"
  have d2: "distinct (columns ?df2)" and h2: "''time'' \<in> set (columns ?df2)"
    using d1 h1 by (simp_all add: columns_df_setitem)
  have aware1: "list_all is_aware ?v1"
    using aware by (induction v) (auto elim: is_aware.elims)
  let ?v2 = "map drop_zone ?v1"
  have c2: "dt_tz_localize_none ?v1 = Inr ?v2"
    using ne aware1 by (simp add: dt_tz_localize_none_def)
  let ?df3 = "df_setitem ''time'' ?v2 ?df2"
  have naive2: "list_all is_naive ?v2"
    using aware1 by (induction v) (auto elim: is_aware.elims)
  have c3: "to_unix_time ?v2 = Inr (map unix_seconds ?v2)"
    using naive2 by (simp add: to_unix_time_def)
  have v3: "map unix_seconds ?v2 = map (normalized_time off) v"
    using aware by (induction v) (simp_all add: normalized_time_steps)
  have "convert_time tzdb z df =
      Inr (df_setitem ''time'' (map unix_seconds ?v2) ?df3)"
    unfolding convert_time_def Let_def
    using g1 c1 c2 c3 d1 h1 d2 h2 by (simp add: df_getitem_setitem)
  also have "df_setitem ''time'' (map unix_seconds ?v2) ?df3 =
      df_setitem ''time'' (map (normalized_time off) v) ?df1"
    by (simp only: v3 df_setitem_def update_last)
  also have "\<dots> = map (\<lambda>(c, x). if c = ''_time'' then (''time'', map (normalized_time off) x)
      else (c, x)) df"
    using dist fresh col by (rule rename_setitem_map [where g = "map (normalized_time off)"])
  finally show ?thesis .
qed

lemma columns_filter_mem:
  "set (columns (filter (\<lambda>col. P (fst col)) df)) = {c \<in> set (columns df). P c}"
  by (induction df) (auto simp: columns_def)

lemma filter_internal:
  "filter (\<lambda>col. fst col \<noteq> ''err'') (filter (\<lambda>col. fst col \<noteq> ''baro_time'')
     (filter (\<lambda>col. fst col \<notin> set DROP_COLUMNS) df)) =
   filter (\<lambda>col. fst col \<notin> set INTERNAL_COLUMNS) df"
  by (induction df) (simp_all add: INTERNAL_COLUMNS_def)

lemma convert_time_unknown:
  assumes "distinct (columns df)" "''time'' \<notin> set (columns df)" "map_of df ''_time'' = Some v"
    and "v \<noteq> []" "list_all is_aware v" "tzdb z = None"
  shows "convert_time tzdb z df = Inl (UnknownTimeZoneError z)"
  using df_getitem_renamed [OF assms(1-3)] assms(4-6)
  by (simp add: convert_time_def Let_def dt_tz_convert_def py_timezone_def)

lemma influx_frame_columns:
  assumes "influx_frame df" and "c \<in> set [''result'', ''table'', ''_measurement'', ''id'', ''_time'']"
  obtains v where "map_of df c = Some v" "v \<noteq> []" "length v = nrows df"
proof -
  from assms have wf: "wf_frame df" and "c \<in> set (columns df)"
    by (auto simp: influx_frame_def)
  then obtain v where v: "map_of df c = Some v" using column_present by blast
  moreover have "length v = nrows df" using wf_map_of_length [OF wf v] .
  moreover have "v \<noteq> []" using calculation assms(1) by (auto simp: influx_frame_def)
  ultimately show ?thesis using that by blast
qed

lemma influx_frame_internal:
  assumes "influx_frame df"
  shows "distinct (columns (filter (\<lambda>col. fst col \<notin> set INTERNAL_COLUMNS) df))"
    and "''time'' \<notin> set (columns (filter (\<lambda>col. fst col \<notin> set INTERNAL_COLUMNS) df))"
    and "map_of (filter (\<lambda>col. fst col \<notin> set INTERNAL_COLUMNS) df) ''_time'' = map_of df ''_time''"
  using assms
    map_of_filter_fst [of "\<lambda>c. c \<notin> set INTERNAL_COLUMNS" "''_time''" df]
  by (auto simp: influx_frame_def wf_frame_def columns_def distinct_map_filter
      INTERNAL_COLUMNS_def DROP_COLUMNS_def)

lemma processInfluxDF_steps:
  assumes inf: "influx_frame df"
  shows "processInfluxDF tzdb df z =
    res_map (\<lambda>out. (normalized_warnings df, normalized_id df, out))
      (convert_time tzdb z (filter (\<lambda>col. fst col \<notin> set INTERNAL_COLUMNS) df))"
proof -
  have dist: "distinct (columns df)" and req: "set DROP_COLUMNS \<subseteq> set (columns df)"
    using inf by (auto simp: influx_frame_def wf_frame_def DROP_COLUMNS_def)
  obtain m where m: "map_of df ''_measurement'' = Some m" "m \<noteq> []"
    using influx_frame_columns [OF inf] by (metis list.set_intros)
  obtain i where i: "map_of df ''id'' = Some i" "i \<noteq> []"
    using influx_frame_columns [OF inf] by (metis list.set_intros)
  obtain m0 ms where m0: "m = m0 # ms" using m(2) by (cases m) auto
  obtain i0 irest where i0: "i = i0 # irest" using i(2) by (cases i) auto
  let ?df1 = "filter (\<lambda>col. fst col \<notin> set DROP_COLUMNS) df"
  let ?df2 = "filter (\<lambda>col. fst col \<noteq> ''baro_time'') ?df1"
  have drop: "df_drop DROP_COLUMNS df = Inr ?df1"
    using req by (rule df_drop_ok)
  have err: "(''err'' \<in> set (columns ?df2)) = (''err'' \<in> set (columns df))"
  proof -
    have "set (columns ?df2) = {c \<in> set (columns ?df1). c \<noteq> ''baro_time''}"
      by (rule columns_filter_mem [of "\<lambda>c. c \<noteq> ''baro_time''"])
    moreover have "set (columns ?df1) = {c \<in> set (columns df). c \<notin> set DROP_COLUMNS}"
      by (rule columns_filter_mem [of "\<lambda>c. c \<notin> set DROP_COLUMNS"])
    ultimately show ?thesis by (simp add: DROP_COLUMNS_def)
  qed
  have "processInfluxDF tzdb df z =
      res_map (\<lambda>out. (if ''err'' \<in> set (columns ?df2) then [ERR_WARNING] else [],
        py_str m0 @ ''_'' @ py_str i0, out))
        (convert_time tzdb z (filter (\<lambda>col. fst col \<noteq> ''err'') ?df2))"
    using m i m0 i0 dist drop
    by (simp add: processInfluxDF_def df_getitem_unique iloc0_def drop_baro_time_ok check_err_ok
        del: filter_filter)
  then show ?thesis
    using err m i m0 i0
    by (simp add: normalized_warnings_def normalized_id_def filter_internal del: filter_filter)
qed

lemma processInfluxDF_normalize:
  assumes inf: "influx_frame df" and tz: "tzdb z = Some off"
  shows "processInfluxDF tzdb df z = Inr (normalize_spec off df)"
proof -
  obtain t where t: "map_of df ''_time'' = Some t" "t \<noteq> []"
    using influx_frame_columns [OF inf] by (metis list.set_intros)
  have aw: "list_all is_aware t" using inf t by (simp add: influx_frame_def)
  note int = influx_frame_internal [OF inf]
  have "convert_time tzdb z (filter (\<lambda>col. fst col \<notin> set INTERNAL_COLUMNS) df) =
      Inr (normalized_frame off df)"
    using convert_time_ok [where tzdb = tzdb and z = z,
        OF int(1) map_of_column [OF int(3)[unfolded t(1)]] int(2) int(3)[unfolded t(1)] t(2) aw tz]
    by (simp add: normalized_frame_def)
  then show ?thesis by (simp add: processInfluxDF_steps [OF inf] normalize_spec_def)
qed

lemma processInfluxDF_unknown_zone:
  assumes inf: "influx_frame df" and tz: "tzdb z = None"
  shows "processInfluxDF tzdb df z = Inl (UnknownTimeZoneError z)"
proof -
  obtain t where t: "map_of df ''_time'' = Some t" "t \<noteq> []"
    using influx_frame_columns [OF inf] by (metis list.set_intros)
  have aw: "list_all is_aware t" using inf t by (simp add: influx_frame_def)
  note int = influx_frame_internal [OF inf]
  show ?thesis
    using convert_time_unknown [where tzdb = tzdb and z = z, OF int(1,2) int(3)[unfolded t(1)] t(2) aw tz]
    by (simp add: processInfluxDF_steps [OF inf])
qed

lemma columns_normalized_frame:
  "columns (normalized_frame off df) =
     map (\<lambda>c. if c = ''_time'' then ''time'' else c) (filter (\<lambda>c. c \<notin> set INTERNAL_COLUMNS) (columns df))"
  by (induction df) (auto simp: normalized_frame_def columns_def)

lemma nrows_uniform:
  "list_all (\<lambda>(_, v). length v = n) df \<Longrightarrow> df \<noteq> [] \<Longrightarrow> nrows df = n"
  by (cases df) (auto simp: nrows_def)

lemma normalized_frame_wf:
  assumes inf: "influx_frame df"
  shows "wf_frame (normalized_frame off df) \<and> nrows (normalized_frame off df) = nrows df"
proof -
  have wf: "wf_frame df" and fresh: "''time'' \<notin> set (columns df)"
    and has: "''_time'' \<in> set (columns df)"
    using inf by (auto simp: influx_frame_def)
  have len: "list_all (\<lambda>(_, v). length v = nrows df) (normalized_frame off df)"
    using wf by (auto simp: normalized_frame_def wf_frame_def list_all_iff)
  have "''time'' \<in> set (columns (normalized_frame off df))"
    using has by (force simp: columns_normalized_frame INTERNAL_COLUMNS_def DROP_COLUMNS_def)
  then have ne: "normalized_frame off df \<noteq> []" by (auto simp: columns_def)
  have "distinct (columns (normalized_frame off df))"
    unfolding columns_normalized_frame
    using wf fresh by (intro distinct_rename_fresh) (auto simp: wf_frame_def)
  with len ne show ?thesis by (simp add: wf_frame_def nrows_uniform)
qed

lemma example_raw_influx: "influx_frame example_raw"
  by (simp add: influx_frame_def example_raw_def wf_frame_def columns_def nrows_def)

section \<open>Properties of the normaliser\<close>

text \<open>
  C1. On every table the InfluxDB client returns, with an output zone the time zone
  database knows, \<open>processInfluxDF\<close> succeeds and returns exactly what the contract
  \<open>normalize_spec\<close> describes: the warnings, the \<open>{box}_{sensor}\<close> identifier, and the
  frame without internal columns whose \<open>time\<close> column holds the unix seconds of the
  output zone's wall clock.
\<close>

theorem processInfluxDF_refines:
  assumes "influx_frame df" and "tzdb z = Some off"
  shows "processInfluxDF tzdb df z = Inr (normalize_spec off df)"
  using assms by (rule processInfluxDF_normalize)

theorem processInfluxDF_refines_witness:
  "influx_frame example_raw \<and> example_tzdb ''America/Chicago'' = Some (-21600) \<and>
   processInfluxDF example_tzdb example_raw ''America/Chicago'' = Inr (normalize_spec (-21600) example_raw)"
proof -
  note inf = example_raw_influx
  have tz: "example_tzdb ''America/Chicago'' = Some (-21600)" by (simp add: example_tzdb_def)
  show ?thesis using processInfluxDF_refines [where tzdb = example_tzdb and z = "''America/Chicago''", OF inf tz] inf tz by simp
qed

text \<open>
  C10. The warning about error codes does not depend on the error codes: the code
  counts the distinct characters of the literal string \<open>"err"\<close> (two), not the
  distinct values of the column, so a table whose \<open>err\<close> column holds a single value
  (no record flagged) is reported as having error codes. The specification asks for
  the warning only when the column has two or more distinct values.
\<close>

theorem processInfluxDF_warns_without_error_codes:
  assumes "influx_frame df" and "tzdb z = Some off"
    and "map_of df ''err'' = Some e" and "length (py_unique e) \<le> 1"
  shows "\<exists>s out. processInfluxDF tzdb df z = Inr ([ERR_WARNING], s, out)"
proof -
  have "''err'' \<in> set (columns df)" using assms(3) by (rule map_of_column)
  then show ?thesis
    using processInfluxDF_normalize [where tzdb = tzdb and z = z, OF assms(1,2)]
    by (simp add: normalize_spec_def normalized_warnings_def)
qed

theorem processInfluxDF_warns_without_error_codes_witness:
  "map_of example_raw ''err'' = Some [CInt 0, CInt 0] \<and> length (py_unique [CInt 0, CInt 0]) \<le> 1 \<and>
   (\<exists>s out. processInfluxDF example_tzdb example_raw ''UTC'' = Inr ([ERR_WARNING], s, out))"
proof -
  have e: "map_of example_raw ''err'' = Some [CInt 0, CInt 0]" by (simp add: example_raw_def)
  have u: "length (py_unique [CInt 0, CInt 0]) \<le> 1" by simp
  have tz: "example_tzdb ''UTC'' = Some 0" by (simp add: example_tzdb_def)
  show ?thesis
    using processInfluxDF_warns_without_error_codes [where tzdb = example_tzdb and z = "''UTC''",
        OF example_raw_influx tz e u] e u by simp
qed

text \<open>
  C18. The invariant of the frame is kept: the normalised frame is well formed (distinct
  labels, columns of one length), has as many rows as the raw table, holds none of the
  internal columns, and has a \<open>time\<close> column in place of \<open>_time\<close>.
\<close>

theorem processInfluxDF_output_wf:
  assumes "influx_frame df" and "tzdb z = Some off"
    and "processInfluxDF tzdb df z = Inr (w, s, out)"
  shows "wf_frame out \<and> nrows out = nrows df \<and> set (columns out) \<inter> set INTERNAL_COLUMNS = {} \<and>
    ''time'' \<in> set (columns out) \<and> ''_time'' \<notin> set (columns out)"
proof -
  have out: "out = normalized_frame off df"
    using processInfluxDF_normalize [where tzdb = tzdb and z = z, OF assms(1,2)] assms(3)
    by (simp add: normalize_spec_def)
  have "''_time'' \<in> set (columns df)" using assms(1) by (simp add: influx_frame_def)
  then have "set (columns out) \<inter> set INTERNAL_COLUMNS = {} \<and>
      ''time'' \<in> set (columns out) \<and> ''_time'' \<notin> set (columns out)"
    unfolding out columns_normalized_frame
    by (force simp: INTERNAL_COLUMNS_def DROP_COLUMNS_def)
  with normalized_frame_wf [OF assms(1)] out show ?thesis by simp
qed

theorem processInfluxDF_output_wf_witness:
  "processInfluxDF example_tzdb example_raw ''UTC'' =
     Inr ([ERR_WARNING], ''box7_P1'', [(''time'', [CFloat 10, CFloat 20]), (''_value'', [CFloat 1013, CFloat 1014])]) \<and>
   wf_frame [(''time'', [CFloat 10, CFloat 20]), (''_value'', [CFloat 1013, CFloat 1014])] \<and>
   nrows [(''time'', [CFloat 10, CFloat 20]), (''_value'', [CFloat 1013, CFloat 1014])] = nrows example_raw"
proof -
  have tz: "example_tzdb ''UTC'' = Some 0" by (simp add: example_tzdb_def)
  have ev: "processInfluxDF example_tzdb example_raw ''UTC'' =
     Inr ([ERR_WARNING], ''box7_P1'', [(''time'', [CFloat 10, CFloat 20]), (''_value'', [CFloat 1013, CFloat 1014])])"
    by code_simp
  show ?thesis
    using processInfluxDF_output_wf [where tzdb = example_tzdb and z = "''UTC''",
        OF example_raw_influx tz ev] ev by simp
qed

text \<open>
  C16. The failures of \<open>processInfluxDF\<close>, each a Python exception: a table without
  \<open>_measurement\<close> raises \<open>KeyError\<close>; an empty table raises \<open>IndexError\<close> at
  \<open>iloc[0]\<close> (the specification's empty-result case, left unchecked by the code); an
  output zone that the zone database does not know raises \<open>UnknownTimeZoneError\<close>.
\<close>

theorem processInfluxDF_errors:
  "(''_measurement'' \<notin> set (columns df) \<longrightarrow>
      processInfluxDF tzdb df z = Inl (KeyError ''_measurement'')) \<and>
   (wf_frame df \<and> nrows df = 0 \<and> ''_measurement'' \<in> set (columns df) \<longrightarrow>
      processInfluxDF tzdb df z = Inl IndexError) \<and>
   (influx_frame df \<and> tzdb z = None \<longrightarrow>
      processInfluxDF tzdb df z = Inl (UnknownTimeZoneError z))"
proof (intro conjI impI)
  assume "''_measurement'' \<notin> set (columns df)"
  then show "processInfluxDF tzdb df z = Inl (KeyError ''_measurement'')"
    by (simp add: processInfluxDF_def df_getitem_missing)
next
  assume a: "wf_frame df \<and> nrows df = 0 \<and> ''_measurement'' \<in> set (columns df)"
  then obtain m where m: "map_of df ''_measurement'' = Some m" using column_present by blast
  with a have "m = []" using wf_map_of_length by fastforce
  with a m show "processInfluxDF tzdb df z = Inl IndexError"
    by (simp add: processInfluxDF_def df_getitem_unique wf_frame_def iloc0_def)
next
  assume "influx_frame df \<and> tzdb z = None"
  then show "processInfluxDF tzdb df z = Inl (UnknownTimeZoneError z)"
    by (simp add: processInfluxDF_unknown_zone)
qed

theorem processInfluxDF_errors_witness:
  "processInfluxDF example_tzdb [(''id'', [CStr ''P1''])] ''UTC'' = Inl (KeyError ''_measurement'') \<and>
   processInfluxDF example_tzdb [(''_measurement'', []), (''id'', [])] ''UTC'' = Inl IndexError \<and>
   processInfluxDF example_tzdb example_raw ''Mars/Olympus'' = Inl (UnknownTimeZoneError ''Mars/Olympus'')"
proof -
  have tz: "example_tzdb ''Mars/Olympus'' = None" by (simp add: example_tzdb_def)
  have wf: "wf_frame [(''_measurement'', []), (''id'', [])]"
    by (simp add: wf_frame_def columns_def nrows_def)
  show ?thesis
    using processInfluxDF_errors [of "[(''id'', [CStr ''P1''])]" example_tzdb "''UTC''"]
      processInfluxDF_errors [of "[(''_measurement'', []), (''id'', [])]" example_tzdb "''UTC''"]
      processInfluxDF_errors [of example_raw example_tzdb "''Mars/Olympus''"]
      example_raw_influx tz wf
    by (simp add: columns_def nrows_def)
qed

end
