(* ===== verification/Split_Output.thy ===== *)
theory Split_Output
  imports Normalize
begin

text \<open>
  The middle of \<open>main\<close> in \<open>src/get-paros-data.py\<close> (lines 145--159): the query
  answer, a list of DataFrames or a single one, is split into per-table frames
  (\<open>r.groupby('table')\<close> for each frame of a list, the single frame kept whole), each
  is normalised by \<open>processInfluxDF\<close>, and the results are stored in the dictionary
  \<open>out_df\<close> under their identifiers. The dictionary is an association list updated
  with \<open>AList.update\<close>, which keeps Python's insertion order and overwrites an existing
  key in place. The theory proves that the split partitions the rows into non-empty
  well-formed groups, that the dictionary holds the last frame normalised under each
  identifier, and what happens to a single frame that holds several tables.
\<close>

section \<open>The definitions\<close>

text \<open>
  \<open>query_api.query_data_frame\<close> returns a list of DataFrames or a single one
  (line 148 tests which).
\<close>

datatype query_result = QFrames "frame list" | QFrame frame

fun is_int :: "cell \<Rightarrow> bool" where
  "is_int (CInt _) = True"
| "is_int _ = False"

fun the_int :: "cell \<Rightarrow> int" where
  "the_int (CInt k) = k"
| "the_int _ = 0"

text \<open>
  The keys of \<open>groupby\<close>: the distinct values of the column, sorted (pandas sorts
  group keys by default). InfluxDB's \<open>table\<close> column is an integer; a column of any
  other kind is outside the model and reported as a \<open>TypeError\<close>.
\<close>

definition group_keys :: "cell list \<Rightarrow> int list py_result" where
  "group_keys v =
     (if list_all is_int v then Inr (sort (remdups (map the_int v)))
      else Inl (TypeError ''groupby key''))"

text \<open>The rows at the given positions, in that order (\<open>df.take(idxs)\<close>).\<close>

definition df_take :: "nat list \<Rightarrow> frame \<Rightarrow> frame" where
  "df_take idxs df = map (\<lambda>(c, v). (c, map (\<lambda>i. v ! i) idxs)) df"

text \<open>
  \<open>[r for _, r in df.groupby('table')]\<close> (line 150): one frame per key, holding the
  rows with that key in their original order.
\<close>

definition groupby_table :: "frame \<Rightarrow> frame list py_result" where
  "groupby_table df =
     res_bind (df_getitem ''table'' df) (\<lambda>col.
     res_map (\<lambda>ks. map (\<lambda>k. df_take (filter (\<lambda>i. col ! i = CInt k) [0..<length col]) df) ks)
       (group_keys col))"

text \<open>Lines 149--150: \<open>for r in idb_result: dfs_list += groups of r\<close>.\<close>

fun split_frames :: "frame list \<Rightarrow> frame list \<Rightarrow> frame list py_result" where
  "split_frames dfs_list [] = Inr dfs_list"
| "split_frames dfs_list (r # rs) =
     res_bind (groupby_table r) (\<lambda>gs. split_frames (dfs_list @ gs) rs)"

text \<open>Lines 147--152.\<close>

definition split_results :: "query_result \<Rightarrow> frame list py_result" where
  "split_results idb_result =
     (case idb_result of
        QFrames rs \<Rightarrow> split_frames [] rs
      | QFrame df \<Rightarrow> Inr [df])"

text \<open>
  Lines 155--159: \<open>out_df[cur_idstr] = cur_df\<close> for each frame in turn; the printed
  warnings are collected in order.
\<close>

type_synonym output_bundle = "(string \<times> frame) list"

fun collect_outputs :: "tz_table \<Rightarrow> string \<Rightarrow> string list \<times> output_bundle \<Rightarrow> frame list \<Rightarrow>
    (string list \<times> output_bundle) py_result" where
  "collect_outputs tzdb output_zone acc [] = Inr acc"
| "collect_outputs tzdb output_zone (printed, out_df) (df # dfs) =
     res_bind (processInfluxDF tzdb df output_zone) (\<lambda>(warnings, cur_idstr, cur_df).
       collect_outputs tzdb output_zone (printed @ warnings, AList.update cur_idstr cur_df out_df) dfs)"

definition process_results :: "tz_table \<Rightarrow> string \<Rightarrow> query_result \<Rightarrow>
    (string list \<times> output_bundle) py_result" where
  "process_results tzdb output_zone idb_result =
     res_bind (split_results idb_result) (\<lambda>dfs_list. collect_outputs tzdb output_zone ([], []) dfs_list)"

text \<open>A frame the splitter can group: well formed, with an integer \<open>table\<close> column.\<close>

definition groupable :: "frame \<Rightarrow> bool" where
  "groupable df \<longleftrightarrow>
     wf_frame df \<and> (case map_of df ''table'' of None \<Rightarrow> False | Some v \<Rightarrow> list_all is_int v)"

text \<open>
  Two sensors of one box in one answer, as InfluxDB returns them: tables 0 and 1 in one
  frame.
\<close>

definition example_two :: frame where
  "example_two =
     [(''result'', [CStr ''_result'', CStr ''_result'', CStr ''_result'', CStr ''_result'']),
      (''table'', [CInt 0, CInt 0, CInt 1, CInt 1]),
      (''_time'', [CTime 0 10000000000, CTime 0 20000000000, CTime 0 10000000000, CTime 0 20000000000]),
      (''_value'', [CFloat 1013, CFloat 1014, CFloat 7, CFloat 8]),
      (''_measurement'', [CStr ''box7'', CStr ''box7'', CStr ''box7'', CStr ''box7'']),
      (''id'', [CStr ''P1'', CStr ''P1'', CStr ''P2'', CStr ''P2''])]"

text \<open>A later table of the same box and sensor, without an \<open>err\<close> column.\<close>

definition example_late :: frame where
  "example_late =
     [(''result'', [CStr ''_result'', CStr ''_result'']), (''table'', [CInt 1, CInt 1]),
      (''_time'', [CTime 0 10000000000, CTime 0 20000000000]),
      (''_value'', [CFloat 999, CFloat 998]),
      (''_measurement'', [CStr ''box7'', CStr ''box7'']), (''id'', [CStr ''P1'', CStr ''P1''])]"

section \<open>Lemmas on the split\<close>

lemma length_filter_nth:
  "length (filter (\<lambda>i. P (xs ! i)) [0..<length xs]) = length (filter P xs)"
proof -
  have "filter P (map (nth xs) [0..<length xs]) = map (nth xs) (filter (\<lambda>i. P (xs ! i)) [0..<length xs])"
    by (simp add: filter_map comp_def)
  then show ?thesis by (simp add: map_nth)
qed

lemma count_int_keys:
  "list_all is_int col \<Longrightarrow> length (filter (\<lambda>x. x = CInt k) col) = count_list (map the_int col) k"
  by (induction col) (auto elim: is_int.elims)

lemma group_size:
  "list_all is_int col \<Longrightarrow>
   length (filter (\<lambda>i. col ! i = CInt k) [0..<length col]) = count_list (map the_int col) k"
  using length_filter_nth [of "\<lambda>x. x = CInt k" col] count_int_keys by simp

lemma group_sizes:
  assumes "list_all is_int col"
  shows "sum_list (map (\<lambda>k. length (filter (\<lambda>i. col ! i = CInt k) [0..<length col]))
      (sort (remdups (map the_int col)))) = length col"
proof -
  have "sum_list (map (\<lambda>k. length (filter (\<lambda>i. col ! i = CInt k) [0..<length col]))
      (sort (remdups (map the_int col)))) = sum (count_list (map the_int col)) (set (map the_int col))"
    using assms by (simp add: sum_list_distinct_conv_sum_set group_size)
  also have "\<dots> = length col" by (simp add: sum_count_set)
  finally show ?thesis .
qed

lemma group_nonempty:
  assumes "list_all is_int col" and "k \<in> set (map the_int col)"
  shows "filter (\<lambda>i. col ! i = CInt k) [0..<length col] \<noteq> []"
proof -
  have "0 < count_list (map the_int col) k" using assms(2) by (metis count_list_0_iff gr0I)
  then show ?thesis using group_size [OF assms(1), of k] by auto
qed

lemma columns_df_take [simp]: "columns (df_take idxs df) = columns df"
  by (induction df) (auto simp: df_take_def columns_def)

lemma map_of_df_take:
  "map_of (df_take idxs df) c = map_option (\<lambda>v. map (\<lambda>i. v ! i) idxs) (map_of df c)"
  by (simp add: df_take_def map_of_map)

lemma df_take_wf:
  assumes "wf_frame df" and "df \<noteq> []"
  shows "wf_frame (df_take idxs df) \<and> nrows (df_take idxs df) = length idxs"
proof -
  have n: "nrows (df_take idxs df) = length idxs"
    using assms(2) by (cases df) (auto simp: df_take_def nrows_def)
  have "list_all (\<lambda>(_, v). length v = length idxs) (df_take idxs df)"
    by (auto simp: df_take_def list_all_iff)
  with assms(1) n show ?thesis by (simp add: wf_frame_def)
qed

lemma groupable_table:
  assumes "groupable df"
  obtains col where "map_of df ''table'' = Some col" "list_all is_int col" "length col = nrows df"
    "distinct (columns df)" "df \<noteq> []"
proof -
  from assms have wf: "wf_frame df"
    and tab: "case map_of df ''table'' of None \<Rightarrow> False | Some v \<Rightarrow> list_all is_int v"
    by (simp_all add: groupable_def)
  from tab obtain col where col: "map_of df ''table'' = Some col" and ints: "list_all is_int col"
    by (auto split: option.splits)
  have "df \<noteq> []" using col by auto
  moreover have "distinct (columns df)" using wf by (simp add: wf_frame_def)
  ultimately show ?thesis using that col ints wf_map_of_length [OF wf col] by blast
qed

lemma groupby_table_ok:
  assumes "groupable df"
  shows "\<exists>gs. groupby_table df = Inr gs \<and> sum_list (map nrows gs) = nrows df \<and>
    list_all (\<lambda>g. wf_frame g \<and> 0 < nrows g \<and> (\<exists>k. list_all (\<lambda>x. x = CInt k) (the (map_of g ''table'')))) gs"
proof -
  obtain col where col: "map_of df ''table'' = Some col" "list_all is_int col" "length col = nrows df"
    and dist: "distinct (columns df)" and ne: "df \<noteq> []"
    using groupable_table [OF assms] by blast
  have wf: "wf_frame df" using assms by (simp add: groupable_def)
  let ?idx = "\<lambda>k. filter (\<lambda>i. col ! i = CInt k) [0..<length col]"
  let ?gs = "map (\<lambda>k. df_take (?idx k) df) (sort (remdups (map the_int col)))"
  have run: "groupby_table df = Inr ?gs"
    using col dist by (simp add: groupby_table_def df_getitem_unique group_keys_def)
  have sizes: "sum_list (map nrows ?gs) = nrows df"
    using group_sizes [OF col(2)] col(3) df_take_wf [OF wf ne] by (simp add: comp_def)
  have each: "wf_frame g \<and> 0 < nrows g \<and> (\<exists>k. list_all (\<lambda>x. x = CInt k) (the (map_of g ''table'')))"
    if "g \<in> set ?gs" for g
  proof -
    from that obtain k where k: "k \<in> set (map the_int col)" and g: "g = df_take (?idx k) df" by auto
    have "list_all (\<lambda>x. x = CInt k) (the (map_of g ''table''))"
      using col(1) by (simp add: g map_of_df_take list_all_iff)
    then show ?thesis
      using df_take_wf [OF wf ne, of "?idx k"] group_nonempty [OF col(2) k] g by auto
  qed
  have "list_all (\<lambda>g. wf_frame g \<and> 0 < nrows g \<and>
      (\<exists>k. list_all (\<lambda>x. x = CInt k) (the (map_of g ''table'')))) ?gs"
    using each unfolding list_all_iff by blast
  with run sizes show ?thesis by blast
qed

lemma split_frames_ok:
  "list_all groupable rs \<Longrightarrow>
   \<exists>gs. split_frames acc rs = Inr (acc @ gs) \<and> sum_list (map nrows gs) = sum_list (map nrows rs) \<and>
     list_all (\<lambda>g. wf_frame g \<and> 0 < nrows g \<and> (\<exists>k. list_all (\<lambda>x. x = CInt k) (the (map_of g ''table'')))) gs"
proof (induction rs arbitrary: acc)
  case Nil
  then show ?case by simp
next
  case (Cons r rs)
  obtain gs where gs: "groupby_table r = Inr gs" "sum_list (map nrows gs) = nrows r"
    "list_all (\<lambda>g. wf_frame g \<and> 0 < nrows g \<and> (\<exists>k. list_all (\<lambda>x. x = CInt k) (the (map_of g ''table'')))) gs"
    using groupby_table_ok Cons.prems by auto
  obtain hs where hs: "split_frames (acc @ gs) rs = Inr (acc @ gs @ hs)"
    "sum_list (map nrows hs) = sum_list (map nrows rs)"
    "list_all (\<lambda>g. wf_frame g \<and> 0 < nrows g \<and> (\<exists>k. list_all (\<lambda>x. x = CInt k) (the (map_of g ''table'')))) hs"
    using Cons.IH [of "acc @ gs"] Cons.prems by auto
  show ?case using gs hs by (intro exI [of _ "gs @ hs"]) simp
qed

section \<open>Lemmas on the output dictionary\<close>

lemma collect_outputs_ok:
  assumes "list_all influx_frame dfs" and "tzdb z = Some off"
  shows "collect_outputs tzdb z (printed, out_df) dfs =
    Inr (printed @ concat (map normalized_warnings dfs),
         AList.updates (map normalized_id dfs) (map (normalized_frame off) dfs) out_df)"
  using assms(1)
proof (induction dfs arbitrary: printed out_df)
  case Nil
  then show ?case by (simp add: AList.updates_def)
next
  case (Cons df dfs)
  then show ?case
    using processInfluxDF_normalize [where tzdb = tzdb and z = z, OF _ assms(2)]
    by (simp add: normalize_spec_def AList.updates_def)
qed

lemma keys_updates:
  "length ks = length vs \<Longrightarrow>
   map fst (AList.updates ks vs al) = map fst al @ py_unique (filter (\<lambda>k. k \<notin> set (map fst al)) ks)"
proof (induction ks arbitrary: vs al)
  case Nil
  then show ?case by (simp add: AList.updates_def)
next
  case (Cons k ks)
  then obtain v vs' where vs: "vs = v # vs'" by (cases vs) auto
  have "filter (\<lambda>x. x \<noteq> k) (filter (\<lambda>x. x \<notin> set (map fst al)) ks) =
      filter (\<lambda>x. x \<notin> set (map fst al @ [k])) ks"
    by (auto intro: filter_cong)
  moreover have "k \<in> fst ` set al \<Longrightarrow>
      filter (\<lambda>x. x \<noteq> k \<and> x \<notin> fst ` set al) ks = filter (\<lambda>x. x \<notin> fst ` set al) ks"
    by (auto intro: filter_cong)
  ultimately show ?case
    using Cons vs by (simp add: AList.updates_def map_fst_AList_update dom_update)
qed

lemma example_two_influx: "influx_frame example_two"
  by (simp add: influx_frame_def example_two_def wf_frame_def columns_def nrows_def)

section \<open>Properties of the split and of the output dictionary\<close>

text \<open>
  C6. When the client returns a list of frames, each well formed with an integer
  \<open>table\<close> column, the split succeeds and partitions their rows: the groups hold as
  many rows together as the frames, and each group is a well-formed, non-empty frame
  with a single \<open>table\<close> value. Non-emptiness is the precondition \<open>processInfluxDF\<close>
  relies on (it reads the first row).
\<close>

theorem split_results_partition:
  assumes "list_all groupable rs"
  shows "\<exists>gs. split_results (QFrames rs) = Inr gs \<and> sum_list (map nrows gs) = sum_list (map nrows rs) \<and>
    list_all (\<lambda>g. wf_frame g \<and> 0 < nrows g \<and> (\<exists>k. list_all (\<lambda>x. x = CInt k) (the (map_of g ''table'')))) gs"
  using split_frames_ok [OF assms, of "[]"] by (simp add: split_results_def)

theorem split_results_partition_witness:
  "list_all groupable [example_two] \<and>
   (\<exists>gs. split_results (QFrames [example_two]) = Inr gs \<and>
     sum_list (map nrows gs) = sum_list (map nrows [example_two]) \<and>
     list_all (\<lambda>g. wf_frame g \<and> 0 < nrows g \<and> (\<exists>k. list_all (\<lambda>x. x = CInt k) (the (map_of g ''table'')))) gs)"
proof -
  have g: "list_all groupable [example_two]"
    by (simp add: groupable_def example_two_def wf_frame_def columns_def nrows_def)
  show ?thesis using split_results_partition [OF g] g by blast
qed

text \<open>
  C5. The output dictionary behaves as Python's \<open>dict\<close>: after normalising the frames
  in turn, its keys are the identifiers in order of first appearance, each key maps to
  the frame normalised last under it (earlier frames with the same identifier are
  overwritten), and the warnings are printed in order.
\<close>

theorem collect_outputs_dict:
  assumes "list_all influx_frame dfs" and "tzdb z = Some off"
  shows "\<exists>out. collect_outputs tzdb z ([], []) dfs = Inr (concat (map normalized_warnings dfs), out) \<and>
    map fst out = py_unique (map normalized_id dfs) \<and>
    map_of out = Map.empty (map normalized_id dfs [\<mapsto>] map (normalized_frame off) dfs)"
  using collect_outputs_ok [where tzdb = tzdb and z = z, OF assms, of "[]" "[]"]
    keys_updates [of "map normalized_id dfs" "map (normalized_frame off) dfs" "[]"]
  by (simp add: AList.updates_conv')

theorem collect_outputs_dict_witness:
  "list_all influx_frame [example_raw, example_late] \<and> example_tzdb ''UTC'' = Some 0 \<and>
   (\<exists>out. collect_outputs example_tzdb ''UTC'' ([], []) [example_raw, example_late] =
       Inr (concat (map normalized_warnings [example_raw, example_late]), out) \<and>
     map fst out = py_unique (map normalized_id [example_raw, example_late]) \<and>
     map_of out = Map.empty (map normalized_id [example_raw, example_late] [\<mapsto>]
       map (normalized_frame 0) [example_raw, example_late]))"
proof -
  have h: "list_all influx_frame [example_raw, example_late]"
    using example_raw_influx
    by (simp add: influx_frame_def example_late_def wf_frame_def columns_def nrows_def)
  have tz: "example_tzdb ''UTC'' = Some 0" by (simp add: example_tzdb_def)
  show ?thesis
    using collect_outputs_dict [where tzdb = example_tzdb and z = "''UTC''", OF h tz] h tz by blast
qed

text \<open>
  C19. A single frame (line 152) is not split: whatever tables it holds, the bundle has
  one entry, named after the first row's box and sensor and holding every row. The
  witness is a frame with two sensors, whose rows all end up under \<open>box7_P1\<close>; the
  specification's splitter promises one table per (box, sensor) pair.
\<close>

theorem process_results_single_frame:
  assumes "influx_frame df" and "tzdb z = Some off"
  shows "process_results tzdb z (QFrame df) =
    Inr (normalized_warnings df, [(normalized_id df, normalized_frame off df)])"
  using processInfluxDF_normalize [where tzdb = tzdb and z = z, OF assms]
  by (simp add: process_results_def split_results_def normalize_spec_def)

theorem process_results_single_frame_witness:
  "influx_frame example_two \<and> example_tzdb ''UTC'' = Some 0 \<and>
   length (py_unique (the (map_of example_two ''id''))) = 2 \<and>
   process_results example_tzdb ''UTC'' (QFrame example_two) =
     Inr (normalized_warnings example_two, [(normalized_id example_two, normalized_frame 0 example_two)])"
proof -
  have tz: "example_tzdb ''UTC'' = Some 0" by (simp add: example_tzdb_def)
  have ids: "length (py_unique (the (map_of example_two ''id''))) = 2" by (simp add: example_two_def)
  show ?thesis
    using process_results_single_frame [where tzdb = example_tzdb and z = "''UTC''",
        OF example_two_influx tz] example_two_influx tz ids by simp
qed

end
