(* ===== verification/Export.thy ===== *)
theory Export
  imports Split_Output
begin

text \<open>
  The exporter at the end of \<open>main\<close> in \<open>src/get-paros-data.py\<close> (lines 164--182):
  \<open>os.path.splitext\<close> splits the output path, and the extension selects one CSV file
  per identifier (\<open>to_csv(header=False, index=False)\<close>), one MAT file holding each
  frame's \<open>.values\<close>, or one pickle of the whole dictionary; any other extension does
  nothing. Effects are a list of events (file writes and printed lines) in the order the
  code performs them, and a file store applies the writes. The CSV text follows
  Python's \<open>csv\<close> writer with minimal quoting; a reference reader proves it lossless.
\<close>

section \<open>The definitions\<close>

abbreviation CR :: char where "CR \<equiv> CHR 0x0D"

text \<open>\<open>str.rfind\<close>: the last index of a character, \<open>-1\<close> when it does not occur.\<close>

fun rfind :: "char \<Rightarrow> string \<Rightarrow> int" where
  "rfind c [] = -1"
| "rfind c (x # xs) = (let r = rfind c xs in if 0 \<le> r then r + 1 else if x = c then 0 else -1)"

text \<open>
  \<open>posixpath.splitext\<close> (\<open>genericpath._splitext\<close>): the extension starts at the last
  dot after the last slash, provided a character other than a dot precedes it in the
  file name (the loop over \<open>filenameIndex\<close>); otherwise there is no extension.
\<close>

definition py_splitext :: "string \<Rightarrow> string \<times> string" where
  "py_splitext p =
     (let sepIndex = rfind (CHR ''/'') p; dotIndex = rfind (CHR ''.'') p in
      if sepIndex < dotIndex \<and> list_ex (\<lambda>i. p ! i \<noteq> CHR ''.'') [nat (sepIndex + 1)..<nat dotIndex]
      then (take (nat dotIndex) p, drop (nat dotIndex) p)
      else (p, []))"

text \<open>\<open>df.values\<close>: the rows of the frame, each listing the cells in column order.\<close>

definition df_values :: "frame \<Rightarrow> cell list list" where
  "df_values df = transpose (map snd df)"

text \<open>
  \<open>to_csv\<close> writes a missing value as the empty string (\<open>na_rep=''\<close>) and every
  other cell as \<open>str()\<close> does.
\<close>

fun csv_cell :: "cell \<Rightarrow> string" where
  "csv_cell CNaN = []"
| "csv_cell c = py_str c"

text \<open>
  Python's \<open>csv\<close> writer with \<open>QUOTE_MINIMAL\<close>: a field holding the delimiter, the
  quote character or a line break is quoted, with inner quotes doubled; a row made of
  one empty field is written as \<open>""\<close>; each row ends with \<open>\n\<close>.
\<close>

definition csv_needs_quote :: "string \<Rightarrow> bool" where
  "csv_needs_quote s = list_ex (\<lambda>c. c = CHR '','' \<or> c = DQ \<or> c = NL \<or> c = CR) s"

definition csv_escape :: "string \<Rightarrow> string" where
  "csv_escape s = concat (map (\<lambda>c. if c = DQ then [DQ, DQ] else [c]) s)"

definition csv_quote :: "string \<Rightarrow> string" where
  "csv_quote s = (if csv_needs_quote s then DQ # csv_escape s @ [DQ] else s)"

definition csv_row :: "string list \<Rightarrow> string" where
  "csv_row cells = (if cells = [[]] then [DQ, DQ] else py_join '','' (map csv_quote cells)) @ [NL]"

text \<open>\<open>cur_df.to_csv(filename, header=False, index=False)\<close> (line 170): the rows only.\<close>

definition to_csv_text :: "frame \<Rightarrow> string" where
  "to_csv_text df = concat (map (\<lambda>row. csv_row (map csv_cell row)) (df_values df))"

datatype file_content =
    CsvText string
  | MatArrays "(string \<times> cell list list) list"
  | PickledBundle output_bundle
  | PickledDict "(string \<times> string) list"

text \<open>\<open>PrintBundle\<close> is \<open>print(out_df)\<close>, the preview of the whole dictionary.\<close>

datatype io_event = WriteFile string file_content | Print string | PrintBundle output_bundle

text \<open>Lines 165--182.\<close>

definition export_output :: "string \<Rightarrow> output_bundle \<Rightarrow> io_event list" where
  "export_output output_file out_df =
     (case py_splitext output_file of (output_name, output_type) \<Rightarrow>
       if output_type = ''.csv'' then
         concat (map (\<lambda>(cur_name, cur_df).
           (let output_filename = output_name @ ''_'' @ cur_name @ ''.csv'' in
            [WriteFile output_filename (CsvText (to_csv_text cur_df)),
             Print (''Saved file '' @ output_filename @ '' successfully.'')])) out_df)
       else if output_type = ''.mat'' then
         (let mat_df = map (\<lambda>(key, df). (key, df_values df)) out_df;
              output_filename = output_name @ ''.mat'' in
          [WriteFile output_filename (MatArrays mat_df),
           Print (''Saved file '' @ output_filename @ '' successfully. Load in matlab.'')])
       else if output_type = ''.pickle'' then
         (let output_filename = output_name @ ''.pickle'' in
          [WriteFile output_filename (PickledBundle out_df),
           Print (NL # ''Saved file '' @ output_filename @
                  '' successfully. Serialized as a dictionary of dataframes.'')])
       else [])"

text \<open>The file store: a write replaces the whole file (\<open>open(..., "wb")\<close>).\<close>

type_synonym file_store = "string \<rightharpoonup> file_content"

fun apply_events :: "file_store \<Rightarrow> io_event list \<Rightarrow> file_store" where
  "apply_events fs [] = fs"
| "apply_events fs (WriteFile name c # es) = apply_events (fs(name \<mapsto> c)) es"
| "apply_events fs (Print _ # es) = apply_events fs es"
| "apply_events fs (PrintBundle _ # es) = apply_events fs es"

text \<open>
  A reference reader for the CSV text, in the manner of Python's \<open>csv.reader\<close>: the
  state records whether the reader is at the start of a field, inside an unquoted
  field, inside a quoted one, or just after its closing quote.
\<close>

datatype csv_mode = FieldStart | Unquoted | Quoted | QuoteClosed

fun csv_read :: "csv_mode \<Rightarrow> string \<Rightarrow> string list \<Rightarrow> string list list \<Rightarrow> string \<Rightarrow> string list list" where
  "csv_read m fld flds rows [] = (if m = FieldStart \<and> flds = [] then rows else rows @ [flds @ [fld]])"
| "csv_read FieldStart fld flds rows (c # cs) =
     (if c = DQ then csv_read Quoted [] flds rows cs
      else if c = CHR '','' then csv_read FieldStart [] (flds @ [[]]) rows cs
      else if c = NL then csv_read FieldStart [] [] (rows @ [flds @ [[]]]) cs
      else csv_read Unquoted [c] flds rows cs)"
| "csv_read Unquoted fld flds rows (c # cs) =
     (if c = CHR '','' then csv_read FieldStart [] (flds @ [fld]) rows cs
      else if c = NL then csv_read FieldStart [] [] (rows @ [flds @ [fld]]) cs
      else csv_read Unquoted (fld @ [c]) flds rows cs)"
| "csv_read Quoted fld flds rows (c # cs) =
     (if c = DQ then csv_read QuoteClosed fld flds rows cs
      else csv_read Quoted (fld @ [c]) flds rows cs)"
| "csv_read QuoteClosed fld flds rows (c # cs) =
     (if c = DQ then csv_read Quoted (fld @ [DQ]) flds rows cs
      else if c = CHR '','' then csv_read FieldStart [] (flds @ [fld]) rows cs
      else if c = NL then csv_read FieldStart [] [] (rows @ [flds @ [fld]]) cs
      else csv_read Unquoted (fld @ [c]) flds rows cs)"

definition csv_parse :: "string \<Rightarrow> string list list" where
  "csv_parse s = csv_read FieldStart [] [] [] s"

section \<open>Lemmas on paths\<close>




section \<open>Lemmas on the CSV text\<close>






lemma csv_read_escaped:
  "csv_read Quoted acc flds rows (csv_escape f @ DQ # rest) = csv_read QuoteClosed (acc @ f) flds rows rest"
  by (induction f arbitrary: acc) (auto simp: csv_escape_def)

lemma csv_read_plain:
  "\<not> csv_needs_quote f \<Longrightarrow> csv_read Unquoted acc flds rows (f @ rest) = csv_read Unquoted (acc @ f) flds rows rest"
  by (induction f arbitrary: acc) (auto simp: csv_needs_quote_def)

lemma csv_plain_head:
  "\<not> csv_needs_quote (c # cs) \<Longrightarrow> c \<noteq> DQ \<and> c \<noteq> CHR '','' \<and> c \<noteq> NL \<and> \<not> csv_needs_quote cs"
  by (auto simp: csv_needs_quote_def)

lemma csv_read_field_comma:
  "csv_read FieldStart [] flds rows (csv_quote f @ CHR '','' # rest) = csv_read FieldStart [] (flds @ [f]) rows rest"
proof (cases "csv_needs_quote f")
  case True
  then show ?thesis by (simp add: csv_quote_def csv_read_escaped)
next
  case False
  then show ?thesis
    by (cases f) (auto simp: csv_quote_def csv_read_plain dest!: csv_plain_head)
qed

lemma csv_read_field_nl:
  "csv_read FieldStart [] flds rows (csv_quote f @ NL # rest) = csv_read FieldStart [] [] (rows @ [flds @ [f]]) rest"
proof (cases "csv_needs_quote f")
  case True
  then show ?thesis by (simp add: csv_quote_def csv_read_escaped)
next
  case False
  then show ?thesis
    by (cases f) (auto simp: csv_quote_def csv_read_plain dest!: csv_plain_head)
qed

lemma csv_read_cells:
  "cs \<noteq> [] \<Longrightarrow>
   csv_read FieldStart [] flds rows (py_join '','' (map csv_quote cs) @ NL # rest) =
   csv_read FieldStart [] [] (rows @ [flds @ cs]) rest"
proof (induction cs arbitrary: flds)
  case Nil
  then show ?case by simp
next
  case (Cons x xs)
  show ?case
  proof (cases xs)
    case Nil
    then show ?thesis by (simp add: csv_read_field_nl)
  next
    case (Cons y ys)
    then show ?thesis
      using Cons.IH [of "flds @ [x]"] by (simp add: csv_read_field_comma)
  qed
qed

lemma csv_read_row:
  "cs \<noteq> [] \<Longrightarrow> csv_read FieldStart [] [] rows (csv_row cs @ rest) = csv_read FieldStart [] [] (rows @ [cs]) rest"
  by (cases "cs = [[]]") (simp_all add: csv_row_def csv_read_cells)

lemma csv_read_rows:
  "[] \<notin> set rss \<Longrightarrow> csv_read FieldStart [] [] rows (concat (map csv_row rss)) = rows @ rss"
proof (induction rss arbitrary: rows)
  case Nil
  then show ?case by simp
next
  case (Cons r rss)
  then have "r \<noteq> []" by auto
  with Cons show ?case by (simp add: csv_read_row)
qed

lemma foldr_max_length:
  "i < foldr (\<lambda>xs. max (length xs)) xss 0 \<Longrightarrow> \<exists>ys \<in> set xss. i < length ys"
  by (induction xss) (auto simp: less_max_iff_disj)

lemma transpose_rows_not_Nil: "[] \<notin> set (transpose xss)"
proof
  assume "[] \<in> set (transpose xss)"
  then obtain i where i: "i < length (transpose xss)" "transpose xss ! i = []"
    by (auto simp: in_set_conv_nth)
  then obtain ys where "ys \<in> set xss" "i < length ys"
    using foldr_max_length by (fastforce simp: length_transpose)
  then show False using i by (auto simp: nth_transpose filter_empty_conv)
qed

lemma rectangular_transpose:
  assumes "xss \<noteq> []" and "\<forall>xs \<in> set xss. length xs = n"
  shows "length (transpose xss) = n \<and> (\<forall>r \<in> set (transpose xss). length r = length xss)"
proof -
  have "foldr (\<lambda>xs. max (length xs)) xss 0 = (if xss = [] then 0 else n)"
    using assms(2) by (induction xss) auto
  then have len: "foldr (\<lambda>xs. max (length xs)) xss 0 = n" using assms(1) by simp
  have "length r = length xss" if "r \<in> set (transpose xss)" for r
  proof -
    from that obtain i where "i < length (transpose xss)" "r = transpose xss ! i"
      by (auto simp: in_set_conv_nth)
    with assms len show ?thesis
      by (simp add: nth_transpose length_transpose filter_True)
  qed
  with len show ?thesis by (simp add: length_transpose)
qed

section \<open>Lemmas on the export\<close>

lemma apply_events_writes:
  "apply_events fs (concat (map (\<lambda>(k, d). [WriteFile (g k) (h d), Print (m k)]) xs)) =
   fs ++ map_of (rev (map (\<lambda>(k, d). (g k, h d)) xs))"
  by (induction xs arbitrary: fs) (auto simp: map_add_upd_left map_of_append)

lemma export_output_csv:
  "py_splitext output_file = (base, ''.csv'') \<Longrightarrow>
   apply_events fs (export_output output_file out_df) =
   fs ++ map_of (rev (map (\<lambda>(k, d). (base @ ''_'' @ k @ ''.csv'', CsvText (to_csv_text d))) out_df))"
  using apply_events_writes [of fs "\<lambda>k. base @ ''_'' @ k @ ''.csv''" "\<lambda>d. CsvText (to_csv_text d)"
      "\<lambda>k. ''Saved file '' @ base @ ''_'' @ k @ ''.csv'' @ '' successfully.''" out_df]
  by (simp add: export_output_def Let_def)

lemma df_values_shape:
  assumes "wf_frame df" and "0 < nrows df"
  shows "length (df_values df) = nrows df \<and> list_all (\<lambda>r. length r = length (columns df)) (df_values df)"
proof -
  have "df \<noteq> []" using assms(2) by (auto simp: nrows_def)
  moreover have "\<forall>xs \<in> set (map snd df). length xs = nrows df"
    using assms(1) by (auto simp: wf_frame_def list_all_iff)
  ultimately show ?thesis
    using rectangular_transpose [of "map snd df" "nrows df"]
    by (simp add: df_values_def columns_def list_all_iff)
qed

section \<open>Properties of the exporter\<close>




text \<open>
  C7. The CSV text of a frame is lossless: read back with a CSV reader it gives the
  frame's rows, each cell as \<open>to_csv\<close> prints it, whatever characters the cells hold
  (commas, quotes and line breaks are quoted). In particular there is no header row
  and one record per row.
\<close>

theorem csv_roundtrip:
  "csv_parse (to_csv_text df) = map (map csv_cell) (df_values df)"
proof -
  have "[] \<notin> set (map (map csv_cell) (df_values df))"
    using transpose_rows_not_Nil [of "map snd df"] by (auto simp: df_values_def)
  then show ?thesis
    using csv_read_rows [of "map (map csv_cell) (df_values df)" "[]"]
    by (simp add: csv_parse_def to_csv_text_def comp_def)
qed

text \<open>
  C8. With a \<open>.csv\<close> output path, a bundle with distinct identifiers gives one file
  per identifier, named \<open>{base}_{identifier}.csv\<close>, holding that frame's CSV text;
  the names are distinct, and no other file of the store changes (the specification's
  two-tables example).
\<close>

theorem export_csv_files:
  assumes "py_splitext output_file = (base, ''.csv'')" and "distinct (map fst out_df)"
  shows "distinct (map (\<lambda>(k, _). base @ ''_'' @ k @ ''.csv'') out_df) \<and>
    (\<forall>(k, df) \<in> set out_df. apply_events fs (export_output output_file out_df) (base @ ''_'' @ k @ ''.csv'') =
       Some (CsvText (to_csv_text df))) \<and>
    (\<forall>name. name \<notin> set (map (\<lambda>(k, _). base @ ''_'' @ k @ ''.csv'') out_df) \<longrightarrow>
       apply_events fs (export_output output_file out_df) name = fs name)"
proof -
  let ?nm = "\<lambda>k. base @ ''_'' @ k @ ''.csv''"
  let ?L = "map (\<lambda>(k, d). (?nm k, CsvText (to_csv_text d))) out_df"
  have names: "map (\<lambda>(k, _). ?nm k) out_df = map ?nm (map fst out_df)" by (induction out_df) auto
  have inj: "inj ?nm" by (auto simp: inj_on_def)
  have keys: "map fst ?L = map ?nm (map fst out_df)" by (induction out_df) auto
  have d1: "distinct (map ?nm (map fst out_df))"
    by (rule distinct_map [THEN iffD2, OF conjI [OF assms(2) inj_on_subset [OF inj subset_UNIV]]])
  have dist: "distinct (map fst (rev ?L))"
    using d1 by (simp only: rev_map [symmetric] keys distinct_rev)
  have found: "map_of (rev ?L) (?nm k) = Some (CsvText (to_csv_text df))" if "(k, df) \<in> set out_df" for k df
    using that dist by (intro map_of_is_SomeI) auto
  have other: "map_of (rev ?L) name = None" if "name \<notin> set (map (\<lambda>(k, _). ?nm k) out_df)" for name
    using that by (force simp: map_of_eq_None_iff)
  have part1: "distinct (map (\<lambda>(k, _). ?nm k) out_df)" using d1 by (simp only: names)
  have part2: "\<forall>(k, df) \<in> set out_df. apply_events fs (export_output output_file out_df) (?nm k) =
      Some (CsvText (to_csv_text df))"
    using found by (auto simp: export_output_csv [OF assms(1)] map_add_find_right)
  have part3: "\<forall>name. name \<notin> set (map (\<lambda>(k, _). ?nm k) out_df) \<longrightarrow>
      apply_events fs (export_output output_file out_df) name = fs name"
    using other by (simp add: export_output_csv [OF assms(1)] map_add_def)
  show ?thesis using part1 part2 part3 by blast
qed

theorem export_csv_files_witness:
  "py_splitext ''out.csv'' = (''out'', ''.csv'') \<and>
   distinct (map fst [(''box7_P1'', [(''time'', [CFloat 10])]), (''box7_P2'', [(''time'', [CFloat 20])])]) \<and>
   apply_events Map.empty (export_output ''out.csv''
       [(''box7_P1'', [(''time'', [CFloat 10])]), (''box7_P2'', [(''time'', [CFloat 20])])]) ''out_box7_P2.csv'' =
     Some (CsvText (to_csv_text [(''time'', [CFloat 20])]))"
proof -
  have sp: "py_splitext ''out.csv'' = (''out'', ''.csv'')" by code_simp
  have d: "distinct (map fst [(''box7_P1'', [(''time'', [CFloat 10])]), (''box7_P2'', [(''time'', [CFloat 20])])])"
    by simp
  show ?thesis using export_csv_files [OF sp d, of Map.empty] sp d by simp
qed

text \<open>
  C25. With a \<open>.mat\<close> output path the exporter writes one file \<open>{base}.mat\<close> holding one
  array per identifier, and each array has the shape of its frame: as many rows as the
  frame and as many columns as it has labels (the specification's MAT example).
\<close>

theorem export_mat_shape:
  assumes "py_splitext output_file = (base, ''.mat'')"
    and "list_all (\<lambda>(_, df). wf_frame df \<and> 0 < nrows df) out_df"
  shows "export_output output_file out_df =
      [WriteFile (base @ ''.mat'') (MatArrays (map (\<lambda>(key, df). (key, df_values df)) out_df)),
       Print (''Saved file '' @ base @ ''.mat'' @ '' successfully. Load in matlab.'')] \<and>
    list_all (\<lambda>(_, df). length (df_values df) = nrows df \<and>
      list_all (\<lambda>r. length r = length (columns df)) (df_values df)) out_df"
  using assms df_values_shape by (auto simp: export_output_def list_all_iff)

theorem export_mat_shape_witness:
  "py_splitext ''out.mat'' = (''out'', ''.mat'') \<and>
   list_all (\<lambda>(_, df). wf_frame df \<and> 0 < nrows df) [(''box7_P1'', [(''time'', [CFloat 10, CFloat 20])])] \<and>
   length (df_values [(''time'', [CFloat 10, CFloat 20])]) = 2"
proof -
  have sp: "py_splitext ''out.mat'' = (''out'', ''.mat'')" by code_simp
  have w: "list_all (\<lambda>(_, df). wf_frame df \<and> 0 < nrows df) [(''box7_P1'', [(''time'', [CFloat 10, CFloat 20])])]"
    by (simp add: wf_frame_def columns_def nrows_def)
  show ?thesis using export_mat_shape [OF sp w] sp w by (simp add: nrows_def)
qed

text \<open>
  C26. Any other extension does nothing: no file is written and nothing is printed.
  This covers paths the user may not expect: \<open>data.CSV\<close> (the comparison is
  case-sensitive) and \<open>.csv\<close> (a leading dot starts a file name, not an extension).
\<close>

theorem export_unknown_noop:
  assumes "snd (py_splitext output_file) \<notin> set [''.csv'', ''.mat'', ''.pickle'']"
  shows "export_output output_file out_df = [] \<and> apply_events fs (export_output output_file out_df) = fs"
  using assms by (auto simp: export_output_def split: prod.splits)

theorem export_unknown_noop_witness:
  "export_output ''.csv'' [(''box7_P1'', [(''time'', [CFloat 10])])] = [] \<and>
   export_output ''data.CSV'' [(''box7_P1'', [(''time'', [CFloat 10])])] = []"
  using export_unknown_noop [of "''.csv''" "[(''box7_P1'', [(''time'', [CFloat 10])])]"]
    export_unknown_noop [of "''data.CSV''" "[(''box7_P1'', [(''time'', [CFloat 10])])]"]
  by (simp add: py_splitext_def)

end
