(* ===== verification/Credentials.thy ===== *)
theory Credentials
  imports Export
begin

text \<open>
  The credential store: \<open>src/influxdb-setup.py\<close> (lines 4--55) prompts for the URL,
  organisation and token, offering the stored values as defaults, and pickles them to
  \<open>influx-creds.pickle\<close>; \<open>loadInfluxClient\<close> of \<open>src/get-paros-data.py\<close> (lines
  31--51) reads the file back into a client, or prints a message and exits with status
  1. Standard input is a list of lines (\<open>input()\<close> at its end raises \<open>EOFError\<close>),
  standard output and the files are the events and the store of \<open>Export\<close>. The theory
  proves the write/read round trip, that empty answers keep the stored values, when
  the prompt loop ends (on a finite input, and on an unending one with
  \<open>ask_stream\<close>), and the exit on a missing file.
\<close>

section \<open>The definitions\<close>

definition CREDS_FILE :: string where
  "CREDS_FILE = ''influx-creds.pickle''"

text \<open>
  \<open>pickle.load(f)[key]\<close> on the credentials file: a pickled dictionary answers the
  key or raises \<open>KeyError\<close>; a file holding anything else is not a credentials
  dictionary and its load is reported as an \<open>UnpicklingError\<close>.
\<close>

definition pickle_get :: "file_content \<Rightarrow> string \<Rightarrow> string py_result" where
  "pickle_get c key =
     (case c of
        PickledDict d \<Rightarrow> (case map_of d key of None \<Rightarrow> Inl (KeyError key) | Some v \<Rightarrow> Inr v)
      | _ \<Rightarrow> Inl (UnpicklingError ''not a credentials dictionary''))"

text \<open>Lines 7--18: the stored values, or empty strings when there is no file.\<close>

definition current_creds :: "file_store \<Rightarrow> (string \<times> string \<times> string) py_result" where
  "current_creds fs =
     (case fs CREDS_FILE of
        None \<Rightarrow> Inr ([], [], [])
      | Some c \<Rightarrow>
          res_bind (pickle_get c ''idb_url'') (\<lambda>url.
          res_bind (pickle_get c ''idb_org'') (\<lambda>org.
          res_map (\<lambda>token. (url, org, token)) (pickle_get c ''idb_token''))))"

text \<open>
  One prompt loop (lines 20--27, repeated for the organisation and the token):
  \<open>while not value: value = input(prompt)\<close>, an empty answer taking the default or,
  without one, printing that the value must be specified. The loop consumes one line
  per round; it returns the value with the remaining lines and what it printed.
\<close>

fun ask :: "string \<Rightarrow> string \<Rightarrow> string list \<Rightarrow> (string \<times> string list \<times> io_event list) py_result" where
  "ask label cur [] = Inl EOFError"
| "ask label cur (line # lines) =
     (let prompt = Print (''Enter InfluxDB '' @ label @ '' ['' @ cur @ '']: '') in
      if line \<noteq> [] then Inr (line, lines, [prompt])
      else if cur = [] then
        res_map (\<lambda>(v, rest, out). (v, rest, prompt # Print (''InfluxDB '' @ label @ '' must be specified'') # out))
          (ask label cur lines)
      else Inr (cur, lines, [prompt]))"

text \<open>
  The same loop read from a terminal that never reaches end of file: the lines are an
  infinite sequence \<open>inp\<close> read from position \<open>i\<close>, and the loop may not end (every
  line empty and no default), which \<open>partial_function (option)\<close> makes the value
  \<open>None\<close>. It returns the value, the position after the line it used and the output.
\<close>

partial_function (option) ask_stream ::
    "string \<Rightarrow> string \<Rightarrow> (nat \<Rightarrow> string) \<Rightarrow> nat \<Rightarrow> (string \<times> nat \<times> io_event list) option" where
  "ask_stream label cur inp i =
     (let prompt = Print (''Enter InfluxDB '' @ label @ '' ['' @ cur @ '']: '') in
      if inp i \<noteq> [] then Some (inp i, Suc i, [prompt])
      else if cur = [] then
        Option.bind (ask_stream label cur inp (Suc i)) (\<lambda>(v, j, out).
          Some (v, j, prompt # Print (''InfluxDB '' @ label @ '' must be specified'') # out))
      else Some (cur, Suc i, [prompt]))"

text \<open>Lines 4--55: the whole setup script; it returns the new store and its output.\<close>

definition setup_main :: "file_store \<Rightarrow> string list \<Rightarrow> (file_store \<times> io_event list) py_result" where
  "setup_main fs stdin =
     res_bind (current_creds fs) (\<lambda>(cur_url, cur_org, cur_token).
     res_bind (ask ''URL'' cur_url stdin) (\<lambda>(influxdb_url, stdin, out1).
     res_bind (ask ''Org'' cur_org stdin) (\<lambda>(influxdb_org, stdin, out2).
     res_map (\<lambda>(influxdb_token, stdin, out3).
        (let output_dict = [(''idb_url'', influxdb_url), (''idb_org'', influxdb_org),
                            (''idb_token'', influxdb_token)] in
         (fs(CREDS_FILE \<mapsto> PickledDict output_dict),
          out1 @ out2 @ out3 @
          [Print (''Saved file '' @ CREDS_FILE @
                  '' successfully. Re-run this script anytime you need to update it'')])))
       (ask ''Token'' cur_token stdin))))"

text \<open>The client \<open>influxdb_client.InfluxDBClient(url, token, org, timeout)\<close>.\<close>

record influx_client =
  client_url :: string
  client_token :: string
  client_org :: string
  client_timeout :: nat

text \<open>
  Lines 31--51. \<open>exit(1)\<close> raises \<open>SystemExit(1)\<close>; the message printed before it is
  kept beside the outcome.
\<close>

definition loadInfluxClient :: "file_store \<Rightarrow> string \<Rightarrow> io_event list \<times> influx_client py_result" where
  "loadInfluxClient fs pickle_path =
     (case fs pickle_path of
        Some c \<Rightarrow>
          ([], res_bind (pickle_get c ''idb_url'') (\<lambda>url.
               res_bind (pickle_get c ''idb_token'') (\<lambda>token.
               res_map (\<lambda>org. \<lparr>client_url = url, client_token = token, client_org = org,
                               client_timeout = 100000000\<rparr>) (pickle_get c ''idb_org''))))
      | None \<Rightarrow>
          ([Print ''InfluxDB credentials file not found. Run influxdb-setup.py to generate one.''],
           Inl (SystemExit 1)))"

text \<open>A store whose credentials file, if any, is a complete credentials dictionary.\<close>

definition creds_ok :: "file_store \<Rightarrow> bool" where
  "creds_ok fs \<longleftrightarrow>
     (case fs CREDS_FILE of
        None \<Rightarrow> True
      | Some (PickledDict d) \<Rightarrow> list_all (\<lambda>k. map_of d k \<noteq> None) [''idb_url'', ''idb_org'', ''idb_token'']
      | Some _ \<Rightarrow> False)"

section \<open>Lemmas\<close>

lemma current_creds_ok:
  "creds_ok fs \<Longrightarrow> \<exists>url org token. current_creds fs = Inr (url, org, token)"
  by (auto simp: creds_ok_def current_creds_def pickle_get_def split: option.splits file_content.splits)

lemma current_creds_dict:
  "fs CREDS_FILE = Some (PickledDict d) \<Longrightarrow> map_of d ''idb_url'' = Some url \<Longrightarrow>
   map_of d ''idb_org'' = Some org \<Longrightarrow> map_of d ''idb_token'' = Some token \<Longrightarrow>
   current_creds fs = Inr (url, org, token)"
  by (simp add: current_creds_def pickle_get_def)

lemma load_dict:
  "loadInfluxClient (fs(path \<mapsto> PickledDict [(''idb_url'', url), (''idb_org'', org), (''idb_token'', token)])) path =
   ([], Inr \<lparr>client_url = url, client_token = token, client_org = org, client_timeout = 100000000\<rparr>)"
  by (simp add: loadInfluxClient_def pickle_get_def)

lemma ask_stream_reaches:
  "inp (i + k) \<noteq> [] \<Longrightarrow> \<exists>r. ask_stream label cur inp i = Some r"
proof (induction k arbitrary: i)
  case 0
  then show ?case by (simp add: ask_stream.simps [of label cur inp i])
next
  case (Suc k)
  then obtain r where r: "ask_stream label cur inp (Suc i) = Some r"
    by (metis add_Suc_shift)
  then show ?case
    by (cases r) (auto simp: ask_stream.simps [of label cur inp i] Let_def)
qed

lemma ask_stream_needs:
  assumes "ask_stream label cur inp i = Some y"
  shows "cur \<noteq> [] \<or> (\<exists>j\<ge>i. inp j \<noteq> [])"
proof (rule ask_stream.raw_induct [where P = "\<lambda>label cur inp i y. cur \<noteq> [] \<or> (\<exists>j\<ge>i. inp j \<noteq> [])",
    OF _ assms], goal_cases)
  case (1 loop label cur inp i y)
  show ?case
  proof (cases "inp i \<noteq> [] \<or> cur \<noteq> []")
    case True
    then show ?thesis by auto
  next
    case False
    with 1(2) obtain y' where "loop label cur inp (Suc i) = Some y'"
      by (auto simp: Let_def split: Option.bind_splits)
    with 1(1) False have "\<exists>j\<ge>Suc i. inp j \<noteq> []" by blast
    then show ?thesis by (auto intro: Suc_leD)
  qed
qed

section \<open>Properties of the credential store\<close>

text \<open>
  C20. Setting up and loading are inverse: when the store holds no credentials file or
  a complete one, answering the three prompts with non-empty values writes the file
  (replacing it whole, no other file touched), and \<open>loadInfluxClient\<close> then builds
  the client from exactly those values, printing nothing.
\<close>

theorem setup_load_roundtrip:
  assumes "creds_ok fs" and "url \<noteq> []" and "org \<noteq> []" and "token \<noteq> []"
  shows "\<exists>out. setup_main fs (url # org # token # rest) =
      Inr (fs(CREDS_FILE \<mapsto> PickledDict [(''idb_url'', url), (''idb_org'', org), (''idb_token'', token)]), out) \<and>
    loadInfluxClient (fs(CREDS_FILE \<mapsto> PickledDict [(''idb_url'', url), (''idb_org'', org), (''idb_token'', token)]))
      CREDS_FILE =
      ([], Inr \<lparr>client_url = url, client_token = token, client_org = org, client_timeout = 100000000\<rparr>)"
proof -
  obtain u o' t where "current_creds fs = Inr (u, o', t)" using current_creds_ok [OF assms(1)] by blast
  then show ?thesis using assms(2-4) by (simp add: setup_main_def load_dict)
qed

theorem setup_load_roundtrip_witness:
  "creds_ok Map.empty \<and>
   (\<exists>out. setup_main Map.empty [''http://db:8086'', ''paros'', ''secret''] =
      Inr (Map.empty(CREDS_FILE \<mapsto> PickledDict [(''idb_url'', ''http://db:8086''), (''idb_org'', ''paros''),
           (''idb_token'', ''secret'')]), out) \<and>
    loadInfluxClient (Map.empty(CREDS_FILE \<mapsto> PickledDict [(''idb_url'', ''http://db:8086''),
        (''idb_org'', ''paros''), (''idb_token'', ''secret'')])) CREDS_FILE =
      ([], Inr \<lparr>client_url = ''http://db:8086'', client_token = ''secret'', client_org = ''paros'',
                client_timeout = 100000000\<rparr>))"
proof -
  have ok: "creds_ok Map.empty" by (simp add: creds_ok_def)
  show ?thesis
    using setup_load_roundtrip [OF ok, of "''http://db:8086''" "''paros''" "''secret''" "[]"] ok by simp
qed

text \<open>
  C30. Re-running the setup and pressing return at every prompt keeps the stored
  credentials: the file is rewritten with the same three values.
\<close>

theorem setup_keeps_stored:
  assumes "fs CREDS_FILE = Some (PickledDict d)"
    and "map_of d ''idb_url'' = Some url" and "map_of d ''idb_org'' = Some org"
    and "map_of d ''idb_token'' = Some token"
    and "url \<noteq> []" and "org \<noteq> []" and "token \<noteq> []"
  shows "\<exists>out. setup_main fs ([] # [] # [] # rest) =
    Inr (fs(CREDS_FILE \<mapsto> PickledDict [(''idb_url'', url), (''idb_org'', org), (''idb_token'', token)]), out)"
  using current_creds_dict [where fs = fs, OF assms(1-4)] assms(5-7) by (simp add: setup_main_def)

theorem setup_keeps_stored_witness:
  "\<exists>out. setup_main (Map.empty(CREDS_FILE \<mapsto> PickledDict [(''idb_token'', ''t0''), (''idb_url'', ''u0''),
      (''idb_org'', ''o0'')])) [[], [], []] =
    Inr (Map.empty(CREDS_FILE \<mapsto> PickledDict [(''idb_url'', ''u0''), (''idb_org'', ''o0''), (''idb_token'', ''t0'')]), out)"
proof -
  let ?fs = "Map.empty(CREDS_FILE \<mapsto> PickledDict [(''idb_token'', ''t0''), (''idb_url'', ''u0''), (''idb_org'', ''o0'')])"
  have f: "?fs CREDS_FILE = Some (PickledDict [(''idb_token'', ''t0''), (''idb_url'', ''u0''), (''idb_org'', ''o0'')])"
    by simp
  show ?thesis
    using setup_keeps_stored [where fs = "Map.empty(CREDS_FILE \<mapsto> PickledDict [(''idb_token'', ''t0''),
        (''idb_url'', ''u0''), (''idb_org'', ''o0'')])", OF f, of "''u0''" "''o0''" "''t0''" "[]"] by simp
qed

text \<open>
  C29. The prompt loop without a stored default ends at the first non-empty answer,
  after printing the prompt and the must-be-specified message once per empty answer;
  if standard input ends first, \<open>input()\<close> raises \<open>EOFError\<close>.
\<close>

theorem ask_loop_ends:
  "(line \<noteq> [] \<longrightarrow>
     (\<exists>out. ask label [] (replicate n [] @ line # rest) = Inr (line, rest, out) \<and> length out = 2 * n + 1)) \<and>
   ask label [] (replicate n []) = Inl EOFError"
  by (induction n) auto

theorem ask_loop_ends_witness:
  "(\<exists>out. ask ''URL'' [] (replicate 2 [] @ ''http://db:8086'' # []) = Inr (''http://db:8086'', [], out) \<and>
     length out = 2 * 2 + 1) \<and>
   ask ''URL'' [] (replicate 2 []) = Inl EOFError"
  using ask_loop_ends [of "''http://db:8086''" "''URL''" 2 "[]"] by simp

text \<open>
  C28. The failures of the credential store: loading from a path with no file prints
  the instruction to run the setup and exits with status 1; the setup itself raises
  \<open>KeyError\<close> before prompting when the stored dictionary lacks a key, so a damaged
  file cannot be repaired by re-running it.
\<close>

theorem credentials_errors:
  "(fs path = None \<longrightarrow>
      loadInfluxClient fs path =
        ([Print ''InfluxDB credentials file not found. Run influxdb-setup.py to generate one.''],
         Inl (SystemExit 1))) \<and>
   (fs CREDS_FILE = Some (PickledDict d) \<and> map_of d ''idb_url'' = None \<longrightarrow>
      setup_main fs stdin = Inl (KeyError ''idb_url''))"
  by (simp add: loadInfluxClient_def setup_main_def current_creds_def pickle_get_def)

theorem credentials_errors_witness:
  "loadInfluxClient Map.empty ''influx-creds.pickle'' =
     ([Print ''InfluxDB credentials file not found. Run influxdb-setup.py to generate one.''], Inl (SystemExit 1)) \<and>
   setup_main (Map.empty(CREDS_FILE \<mapsto> PickledDict [(''idb_org'', ''o0'')])) [''u''] = Inl (KeyError ''idb_url'')"
  using credentials_errors [of Map.empty "''influx-creds.pickle''"]
    credentials_errors [of "Map.empty(CREDS_FILE \<mapsto> PickledDict [(''idb_org'', ''o0'')])" _
      "[(''idb_org'', ''o0'')]" "[''u'']"]
  by simp

text \<open>
  C22. Termination of the prompt loop on an unending input: it returns exactly when a
  default is stored or some line from the current position on is non-empty; with no
  default and only empty lines (\<open>yes '' | python influxdb-setup.py\<close>) it never ends.
\<close>

theorem ask_stream_terminates:
  "(\<exists>r. ask_stream label cur inp i = Some r) \<longleftrightarrow> cur \<noteq> [] \<or> (\<exists>j\<ge>i. inp j \<noteq> [])"
proof
  assume "\<exists>r. ask_stream label cur inp i = Some r"
  then show "cur \<noteq> [] \<or> (\<exists>j\<ge>i. inp j \<noteq> [])" using ask_stream_needs by blast
next
  assume "cur \<noteq> [] \<or> (\<exists>j\<ge>i. inp j \<noteq> [])"
  then show "\<exists>r. ask_stream label cur inp i = Some r"
  proof
    assume "cur \<noteq> []"
    then show ?thesis by (simp add: ask_stream.simps [of label cur inp i] Let_def)
  next
    assume "\<exists>j\<ge>i. inp j \<noteq> []"
    then obtain k where "inp (i + k) \<noteq> []" by (metis le_add_diff_inverse)
    then show ?thesis by (rule ask_stream_reaches)
  qed
qed

theorem ask_stream_terminates_witness:
  "ask_stream ''URL'' [] (\<lambda>j. if j < 2 then [] else ''http://db:8086'') 0 \<noteq> None \<and>
   ask_stream ''URL'' [] (\<lambda>j. []) 0 = None"
proof -
  have a: "\<exists>r. ask_stream ''URL'' [] (\<lambda>j. if j < 2 then [] else ''http://db:8086'') 0 = Some r"
    using ask_stream_terminates [of "''URL''" "[]" "\<lambda>j. if j < 2 then [] else ''http://db:8086''" 0]
    by (metis le0 less_irrefl_nat list.distinct(1) numeral_2_eq_2 zero_less_Suc)
  have b: "\<not> (\<exists>r. ask_stream ''URL'' [] (\<lambda>j. []) 0 = Some r)"
    using ask_stream_terminates [of "''URL''" "[]" "\<lambda>j. []" 0] by simp
  from a b show ?thesis by (metis not_None_eq)
qed

end
