(* ===== verification/Flux_Filter.thy ===== *)
theory Flux_Filter
  imports Py_Str
begin

text \<open>
  The filter stage of the Flux query, \<open>createFluxFilters\<close> of
  \<open>src/get-paros-data.py\<close> (lines 78--99): a comma-separated user string becomes one
  equality predicate per value, joined with \<open>or\<close>, inside a \<open>filter\<close> stage; an
  absent argument (Python \<open>None\<close>, here \<open>None\<close>) gives the empty string. The theory
  gives the function's value on every input, a parser for the stage it prints and the
  round trip through it, and the two places where the printed text does not determine
  the user's input (a quote inside a value) or does not follow the specification (an
  empty argument still filters).
\<close>

section \<open>The definitions\<close>

text \<open>\<open>f'r["{col_name}"] == "{i}"'\<close>, line 90.\<close>

definition flux_pred :: "string \<Rightarrow> string \<Rightarrow> string" where
  \<open>flux_pred col_name i = ''r["'' @ col_name @ ''"] == "'' @ i @ ''"''\<close>

text \<open>The loop of lines 88--90, appending one predicate per value.\<close>

fun append_filters :: "string \<Rightarrow> string list \<Rightarrow> string list \<Rightarrow> string list" where
  "append_filters col_name filter_list [] = filter_list"
| "append_filters col_name filter_list (i # in_list) =
     append_filters col_name (filter_list @ [flux_pred col_name i]) in_list"

definition filter_stage_prefix :: string where
  \<open>filter_stage_prefix = ''|> filter(fn: (r) => ''\<close>

definition createFluxFilters :: "string \<Rightarrow> string option \<Rightarrow> string" where
  "createFluxFilters col_name in_str_opt =
     (case in_str_opt of
        None \<Rightarrow> []
      | Some in_str \<Rightarrow>
          (let in_list = (if CHR '','' \<in> set in_str then py_split CHR '','' in_str else [in_str]);
               filter_list = append_filters col_name [] in_list;
               filter_list_str = py_join '' or '' filter_list
           in if 0 < length filter_list
              then filter_stage_prefix @ filter_list_str @ '')''
              else []))"

section \<open>Reading a filter stage back\<close>

text \<open>
  A parser for the text \<open>createFluxFilters\<close> prints: the predicates
  \<open>r["col"] == "v"\<close> separated by \<open> or \<close>, each value read up to the next quote.
\<close>

definition pred_head :: "string \<Rightarrow> string" where
  \<open>pred_head col_name = ''r["'' @ col_name @ ''"] == "''\<close>

function parse_preds :: "string \<Rightarrow> string \<Rightarrow> string list option" where
  "parse_preds col_name s =
     (let h = pred_head col_name in
      if take (length h) s \<noteq> h then None
      else
        (let rest = drop (length h) s;
             v = takeWhile (\<lambda>ch. ch \<noteq> DQ) rest;
             after = drop (length v) rest
         in if after = [DQ] then Some [v]
            else if take 5 after = DQ # '' or '' then
              map_option (Cons v) (parse_preds col_name (drop 5 after))
            else None))"
  by pat_completeness auto
termination
proof (relation "measure (\<lambda>(col_name, s). length s)")
  fix col_name s h rest v after
  assume h: "h = pred_head col_name" and rest: "rest = drop (length h) s"
    and after: "after = drop (length v) rest" and "\<not> take (length h) s \<noteq> h"
    and "take 5 after = DQ # '' or ''"
  have "0 < length h" by (simp add: h pred_head_def)
  moreover have "length h \<le> length s"
  proof -
    from \<open>\<not> take (length h) s \<noteq> h\<close> have "length (take (length h) s) = length h" by simp
    then show ?thesis by simp
  qed
  moreover have "length (drop 5 after) = length s - (5 + (length v + length h))"
    using rest after by simp
  ultimately have "length (drop 5 after) < length s"
    by linarith
  then show "((col_name, drop 5 after), col_name, s) \<in> measure (\<lambda>(col_name, s). length s)"
    by simp
qed simp

declare parse_preds.simps [simp del]

definition parse_filter :: "string \<Rightarrow> string \<Rightarrow> string list option" where
  "parse_filter col_name line =
     (let p = filter_stage_prefix in
      if take (length p) line = p \<and> drop (length p) line \<noteq> [] \<and> last line = CHR '')''
      then parse_preds col_name (butlast (drop (length p) line))
      else None)"

section \<open>The value of \<open>createFluxFilters\<close>\<close>

lemma append_filters_map:
  "append_filters col_name acc xs = acc @ map (flux_pred col_name) xs"
  by (induction xs arbitrary: acc) simp_all

text \<open>
  The two branches of line 82 agree: without a comma, \<open>split\<close> would have given the
  one-element list too.
\<close>

lemma in_list_eq_py_split:
  "(if CHR '','' \<in> set s then py_split CHR '','' s else [s]) = py_split CHR '','' s"
  by (simp add: py_split_no_sep)

lemma createFluxFilters_None [simp]: "createFluxFilters col_name None = []"
  by (simp add: createFluxFilters_def)

lemma createFluxFilters_Some:
  "createFluxFilters col_name (Some s) =
     filter_stage_prefix @ py_join '' or '' (map (flux_pred col_name) (py_split CHR '','' s)) @ '')''"
  by (simp add: createFluxFilters_def in_list_eq_py_split append_filters_map Let_def)

lemma createFluxFilters_Some_not_Nil [simp]: "createFluxFilters col_name (Some s) \<noteq> []"
  by (simp add: createFluxFilters_Some filter_stage_prefix_def)

lemma createFluxFilters_empty_iff:
  "createFluxFilters col_name x = [] \<longleftrightarrow> x = None"
  by (cases x) simp_all

section \<open>Parsing what is printed\<close>

lemma flux_pred_split:
  "flux_pred col_name v @ r = pred_head col_name @ v @ DQ # r"
  by (simp add: flux_pred_def pred_head_def)

lemma takeWhile_not_DQ:
  "DQ \<notin> set v \<Longrightarrow> takeWhile (\<lambda>ch. ch \<noteq> DQ) (v @ DQ # r) = v"
  by (induction v) auto

lemma parse_preds_step:
  assumes "DQ \<notin> set v"
  shows "parse_preds col_name (pred_head col_name @ v @ DQ # r) =
    (if r = [] then Some [v]
     else if take 4 r = '' or '' then map_option (Cons v) (parse_preds col_name (drop 4 r))
     else None)"
  using assms by (subst parse_preds.simps) (simp add: Let_def takeWhile_not_DQ)

lemma parse_preds_join:
  "vs \<noteq> [] \<Longrightarrow> (\<forall>v \<in> set vs. DQ \<notin> set v) \<Longrightarrow>
   parse_preds col_name (py_join '' or '' (map (flux_pred col_name) vs)) = Some vs"
proof (induction vs)
  case Nil
  then show ?case by simp
next
  case (Cons v vs)
  show ?case
  proof (cases vs)
    case Nil
    with Cons.prems show ?thesis
      using parse_preds_step [of v col_name "[]"] flux_pred_split [of col_name v "[]"] by simp
  next
    case (Cons v' vs')
    let ?r = "'' or '' @ py_join '' or '' (map (flux_pred col_name) vs)"
    have eq: "py_join '' or '' (map (flux_pred col_name) (v # vs)) =
        pred_head col_name @ v @ DQ # ?r"
      using Cons by (simp add: flux_pred_split [symmetric])
    from Cons.prems have "parse_preds col_name (py_join '' or '' (map (flux_pred col_name) vs)) = Some vs"
      using Cons Cons.IH by simp
    have "parse_preds col_name (pred_head col_name @ v @ DQ # ?r) =
        map_option (Cons v) (parse_preds col_name (drop 4 ?r))"
      using parse_preds_step [of v col_name ?r] Cons.prems by simp
    with \<open>parse_preds col_name (py_join '' or '' (map (flux_pred col_name) vs)) = Some vs\<close>
    show ?thesis by (simp only: eq) simp
  qed
qed

lemma filter_stage_prefix_not_Nil: "filter_stage_prefix \<noteq> []"
  by (simp add: filter_stage_prefix_def)

section \<open>Properties of the filter stage\<close>

text \<open>
  C3. \<open>createFluxFilters\<close> returns the empty string exactly when the argument is
  absent; for a present string it prints, inside \<open>|> filter(fn: (r) => ...)\<close>, one
  predicate \<open>r["col"] == "v"\<close> per comma-separated piece \<open>v\<close> (empty pieces
  included), joined with \<open> or \<close>.
\<close>

theorem createFluxFilters_value:
  \<open>createFluxFilters col_name in_str =
     (case in_str of
        None \<Rightarrow> []
      | Some s \<Rightarrow> ''|> filter(fn: (r) => '' @
                  py_join '' or '' (map (\<lambda>v. ''r["'' @ col_name @ ''"] == "'' @ v @ ''"'')
                    (py_split CHR '','' s)) @ '')'')\<close>
proof -
  have \<open>flux_pred col_name = (\<lambda>v. ''r["'' @ col_name @ ''"] == "'' @ v @ ''"'')\<close>
    by (rule ext) (simp add: flux_pred_def)
  then show ?thesis
    by (cases in_str) (simp_all add: createFluxFilters_Some filter_stage_prefix_def)
qed

text \<open>
  C13. For a value string without a double quote, the printed stage parses back into
  exactly the comma-separated pieces: one predicate per piece, as many as there are
  commas plus one, and joining them with commas gives the user's string back.
\<close>

theorem createFluxFilters_roundtrip:
  assumes "DQ \<notin> set s"
  shows "\<exists>vs. parse_filter col_name (createFluxFilters col_name (Some s)) = Some vs \<and>
             vs = py_split CHR '','' s \<and> length vs = Suc (count_list s CHR '','') \<and>
             py_join '','' vs = s"
proof -
  let ?vs = "py_split CHR '','' s"
  have free: "\<forall>v \<in> set ?vs. DQ \<notin> set v"
  proof
    fix v assume "v \<in> set ?vs"
    then have "set v \<subseteq> set s"
      by (rule py_split_pieces_subset)
    then show "DQ \<notin> set v" using assms by auto
  qed
  have body: "parse_preds col_name (py_join '' or '' (map (flux_pred col_name) ?vs)) = Some ?vs"
    using parse_preds_join [OF py_split_not_Nil free] .
  have "parse_filter col_name (createFluxFilters col_name (Some s)) = Some ?vs"
    using body filter_stage_prefix_not_Nil
    by (simp add: parse_filter_def createFluxFilters_Some Let_def butlast_append)
  then show ?thesis by (simp add: length_py_split py_join_py_split)
qed

text \<open>
  C23. Values are interpolated without escaping (the open question of the
  specification's design notes): for any column and any comma-free values \<open>a\<close>
  and \<open>b\<close>, the single value \<open>a" or r["col"] == "b\<close> prints the same stage as the two
  values \<open>a,b\<close>, so a quote in a value changes which records the query selects.
\<close>

theorem createFluxFilters_quote_injection:
  assumes "CHR '','' \<notin> set a" and "CHR '','' \<notin> set b" and "CHR '','' \<notin> set col_name"
  shows \<open>createFluxFilters col_name (Some (a @ ''" or r["'' @ col_name @ ''"] == "'' @ b)) =
         createFluxFilters col_name (Some (a @ CHR '','' # b))\<close>
proof -
  have \<open>py_split CHR '','' (a @ ''" or r["'' @ col_name @ ''"] == "'' @ b) =
      [a @ ''" or r["'' @ col_name @ ''"] == "'' @ b]\<close>
    using assms by (intro py_split_no_sep) simp
  moreover have "py_split CHR '','' (a @ CHR '','' # b) = [a, b]"
    using assms by (simp add: py_split_sep_append py_split_no_sep)
  ultimately show ?thesis
    by (simp add: createFluxFilters_Some flux_pred_def)
qed

text \<open>
  C27. The \<open>else\<close> branch of lines 94--97 is dead: \<open>split\<close> never gives an empty
  list, so only an absent argument omits the stage. An empty argument
  (\<open>--box-id ""\<close>) is not omitted, as the specification says it is, but filters on
  the empty value.
\<close>

theorem createFluxFilters_only_None_omitted:
  "(createFluxFilters col_name in_str = [] \<longleftrightarrow> in_str = None) \<and>
   createFluxFilters col_name (Some []) = filter_stage_prefix @ flux_pred col_name [] @ '')''"
  by (cases in_str) (simp_all add: createFluxFilters_Some)

text \<open>The round trip on two box identifiers.\<close>

theorem createFluxFilters_roundtrip_witness:
  "DQ \<notin> set ''box7,box8'' \<and>
   parse_filter ''_measurement'' (createFluxFilters ''_measurement'' (Some ''box7,box8'')) =
     Some [''box7'', ''box8'']"
proof -
  have q: "DQ \<notin> set ''box7,box8''" by simp
  from createFluxFilters_roundtrip [OF q, of "''_measurement''"]
  show ?thesis by simp
qed

theorem createFluxFilters_quote_injection_witness:
  \<open>createFluxFilters ''id'' (Some ''x" or r["id"] == "y'') = createFluxFilters ''id'' (Some ''x,y'')\<close>
  using createFluxFilters_quote_injection [of "''x''" "''y''" "''id''"] by simp

end
