(* ===== verification/Cli_Args.thy ===== *)
theory Cli_Args
  imports Py_Str
begin

text \<open>
  \<open>cliArguments\<close> of \<open>src/get-paros-data.py\<close> (lines 10--29): the parser the nine
  \<open>add_argument\<close> calls configure, and CPython 3.11's \<open>argparse\<close> run on it by
  \<open>parse_args()\<close>. The parser is data (\<open>PAROS_ARGUMENTS\<close>, one entry per call); the
  parse follows \<open>ArgumentParser._parse_known_args\<close>: every command-line string is first
  classified as an option, an argument or the separator \<open>--\<close>
  (\<open>_parse_optional\<close>, \<open>_get_option_tuples\<close>), then the strings are consumed left to
  right, positionals in order, each option taking the next argument or its \<open>=\<close> value.
  Errors leave through \<open>parser.error\<close> as \<open>SystemExit 2\<close>, \<open>-h\<close>/\<open>--help\<close> as
  \<open>SystemExit 0\<close>; the usage and help texts they print are not modelled.
\<close>

section \<open>The parsed namespace\<close>

text \<open>The parsed arguments (lines 18--26) as the rest of the program reads them.\<close>

record cli_args =
  arg_start_time :: string
  arg_end_time :: string
  arg_output_file :: string
  arg_box_id :: "string option"
  arg_sensor_id :: "string option"
  arg_bucket :: string
  arg_input_zone :: string
  arg_output_zone :: string
  arg_creds :: string

definition default_args :: "string \<Rightarrow> string \<Rightarrow> string \<Rightarrow> cli_args" where
  "default_args start_time end_time output_file =
     \<lparr>arg_start_time = start_time, arg_end_time = end_time, arg_output_file = output_file,
      arg_box_id = None, arg_sensor_id = None, arg_bucket = ''parosbox'',
      arg_input_zone = ''Etc/UTC'', arg_output_zone = ''Etc/UTC'', arg_creds = ''influx-creds.pickle''\<rparr>"

section \<open>The parser\<close>

text \<open>
  One \<open>add_argument\<close> call: a positional by its name, or an option by its option string
  and its default. Every argument of the script has \<open>type=str\<close>, the identity on strings.
\<close>

datatype argument = Positional string | Optional string "string option"

definition PAROS_ARGUMENTS :: "argument list" where
  "PAROS_ARGUMENTS =
     [Positional ''start_time'', Positional ''end_time'', Positional ''output_file'',
      Optional ''--box-id'' None, Optional ''--sensor-id'' None,
      Optional ''--bucket'' (Some ''parosbox''), Optional ''--input-zone'' (Some ''Etc/UTC''),
      Optional ''--output-zone'' (Some ''Etc/UTC''),
      Optional ''--creds'' (Some ''influx-creds.pickle'')]"

text \<open>\<open>_get_optional_kwargs\<close>: the attribute name of an option string.\<close>

definition option_dest :: "string \<Rightarrow> string" where
  "option_dest s =
     map (\<lambda>c. if c = CHR ''-'' then CHR ''_'' else c) (dropWhile (\<lambda>c. c = CHR ''-'') s)"

text \<open>
  The actions behind the option strings: the help action \<open>ArgumentParser\<close> adds first
  (\<open>add_help=True\<close>), then one store action per option.
\<close>

datatype opt_action = OptHelp | OptStore string

definition option_string_actions :: "argument list \<Rightarrow> (string \<times> opt_action) list" where
  "option_string_actions args =
     [(''-h'', OptHelp), (''--help'', OptHelp)] @
     concat (map (\<lambda>a. case a of Positional _ \<Rightarrow> [] | Optional s _ \<Rightarrow> [(s, OptStore (option_dest s))]) args)"

definition positional_dests :: "argument list \<Rightarrow> string list" where
  "positional_dests args = concat (map (\<lambda>a. case a of Positional d \<Rightarrow> [d] | Optional _ _ \<Rightarrow> []) args)"

text \<open>
  \<open>parse_known_args\<close> starts from a namespace holding every default (positionals
  default to \<open>None\<close>; the help action's default is suppressed).
\<close>

type_synonym namespace = "(string \<times> string option) list"

definition initial_namespace :: "argument list \<Rightarrow> namespace" where
  "initial_namespace args =
     map (\<lambda>a. case a of Positional d \<Rightarrow> (d, None) | Optional s dflt \<Rightarrow> (option_dest s, dflt)) args"

section \<open>Classifying the command line\<close>

text \<open>
  A classified string: an argument (\<open>'A'\<close> of the pattern), an option (\<open>'O'\<close>: the
  action if one matched, the option string, and the separator and explicit argument
  after it) or the separator \<open>--\<close> (\<open>'-'\<close>).
\<close>

datatype arg_token =
    TokArg string
  | TokOpt "opt_action option" string "(string \<times> string) option"
  | TokSep

text \<open>\<open>_negative_number_matcher\<close>, the pattern \<open>^-\d+$|^-\d*\.\d+$\<close> (\<open>$\<close> also
  matches before a final newline).\<close>

definition negative_number :: "string \<Rightarrow> bool" where
  "negative_number s =
     (let t = (if s \<noteq> [] \<and> last s = NL then butlast s else s) in
      case t of
        [] \<Rightarrow> False
      | c # r \<Rightarrow> c = CHR ''-'' \<and>
          ((r \<noteq> [] \<and> list_all is_ascii_digit r) \<or>
           (case dropWhile is_ascii_digit r of
              [] \<Rightarrow> False
            | d # fs \<Rightarrow> d = CHR ''.'' \<and> fs \<noteq> [] \<and> list_all is_ascii_digit fs)))"

text \<open>\<open>_get_option_tuples\<close>: the options a string abbreviates (\<open>allow_abbrev=True\<close>).\<close>

definition option_tuples :: "(string \<times> opt_action) list \<Rightarrow> string \<Rightarrow> arg_token list" where
  "option_tuples T s =
     (if take 2 s = ''--'' then
        (let pre = takeWhile (\<lambda>c. c \<noteq> CHR ''='') s;
             ex = (case dropWhile (\<lambda>c. c \<noteq> CHR ''='') s of [] \<Rightarrow> None | _ # e \<Rightarrow> Some (''='', e))
         in map (\<lambda>(os, a). TokOpt (Some a) os ex) (filter (\<lambda>(os, a). take (length pre) os = pre) T))
      else
        map (\<lambda>(os, a). if os = take 2 s then TokOpt (Some a) os (Some ([], drop 2 s))
                      else TokOpt (Some a) os None)
          (filter (\<lambda>(os, a). os = take 2 s \<or> take (length s) os = s) T))"

text \<open>\<open>_parse_optional\<close>; an ambiguous abbreviation is an error.\<close>

definition parse_optional :: "(string \<times> opt_action) list \<Rightarrow> string \<Rightarrow> arg_token py_result" where
  "parse_optional T s =
     (if s = [] \<or> hd s \<noteq> CHR ''-'' then Inr (TokArg s)
      else case map_of T s of
        Some a \<Rightarrow> Inr (TokOpt (Some a) s None)
      | None \<Rightarrow>
          if length s = 1 then Inr (TokArg s)
          else
            (let pre = takeWhile (\<lambda>c. c \<noteq> CHR ''='') s in
             case (dropWhile (\<lambda>c. c \<noteq> CHR ''='') s, map_of T pre) of
               (_ # e, Some a) \<Rightarrow> Inr (TokOpt (Some a) pre (Some (''='', e)))
             | _ \<Rightarrow>
                 (case option_tuples T s of
                    [] \<Rightarrow> if negative_number s \<or> CHR '' '' \<in> set s then Inr (TokArg s)
                          else Inr (TokOpt None s None)
                  | [t] \<Rightarrow> Inr t
                  | _ \<Rightarrow> Inl (SystemExit 2))))"

text \<open>The loop at the start of \<open>_parse_known_args\<close>: everything after \<open>--\<close> is an argument.\<close>

fun classify_args :: "(string \<times> opt_action) list \<Rightarrow> string list \<Rightarrow> arg_token list py_result" where
  "classify_args T [] = Inr []"
| "classify_args T (s # ss) =
     (if s = ''--'' then Inr (TokSep # map TokArg ss)
      else res_bind (parse_optional T s) (\<lambda>t. res_map (Cons t) (classify_args T ss)))"

section \<open>Consuming the command line\<close>

text \<open>
  The help action with an explicit argument (\<open>consume_optional\<close>): after a long option
  string, an \<open>=\<close>, or an empty or \<open>-\<close>-led tail it is \<open>ignored explicit argument\<close>
  (exit 2); after \<open>-h\<close> the tail is read as further single-letter flags, where \<open>h\<close>
  repeats the help action and any other letter ends the chain, so that the help action
  is taken (exit 0). \<open>-h\<close> is the only single-dash option of the parser.
\<close>

fun short_chain :: "string \<Rightarrow> int" where
  "short_chain [] = 0"
| "short_chain (c # r) =
     (if c = CHR ''-'' then 2
      else if c = CHR ''h'' then (case r of [] \<Rightarrow> 0 | d # _ \<Rightarrow> if d = CHR ''='' then 2 else short_chain r)
      else 0)"

definition help_explicit :: "string \<Rightarrow> string \<Rightarrow> string \<Rightarrow> int" where
  "help_explicit os sep e = (if take 2 os = ''--'' \<or> e = [] \<or> sep \<noteq> [] then 2 else short_chain e)"

text \<open>
  \<open>consume_positionals\<close> and \<open>consume_optional\<close> interleaved as the main loop of
  \<open>_parse_known_args\<close> runs them: the positionals left to fill, whether the string
  before was taken by a positional (the separator then belongs to that positional's
  match and is dropped; otherwise it is an unrecognised argument unless a positional is
  still to come), the namespace and the unrecognised strings.
\<close>

fun consume_args :: "string list \<Rightarrow> bool \<Rightarrow> arg_token list \<Rightarrow> namespace \<Rightarrow> string list \<Rightarrow>
    (namespace \<times> string list \<times> string list) py_result" where
  "consume_args ps prev [] ns ex = Inr (ns, ps, ex)"
| "consume_args ps prev (TokSep # ts) ns ex =
     (if ps \<noteq> [] \<or> prev then consume_args ps False ts ns ex
      else consume_args ps False ts ns (ex @ [''--'']))"
| "consume_args ps prev (TokArg s # ts) ns ex =
     (case ps of
        [] \<Rightarrow> consume_args [] False ts ns (ex @ [s])
      | p # ps' \<Rightarrow> consume_args ps' True ts (AList.update p (Some s) ns) ex)"
| "consume_args ps prev (TokOpt None s x # ts) ns ex = consume_args ps False ts ns (ex @ [s])"
| "consume_args ps prev (TokOpt (Some OptHelp) os x # ts) ns ex =
     Inl (SystemExit (case x of None \<Rightarrow> 0 | Some (sep, e) \<Rightarrow> help_explicit os sep e))"
| "consume_args ps prev (TokOpt (Some (OptStore d)) os (Some (sep, e)) # ts) ns ex =
     consume_args ps False ts (AList.update d (Some e) ns) ex"
| "consume_args ps prev (TokOpt (Some (OptStore d)) os None # ts) ns ex =
     (case ts of
        TokArg v # ts' \<Rightarrow> consume_args ps False ts' (AList.update d (Some v) ns) ex
      | _ \<Rightarrow> Inl (SystemExit 2))"

text \<open>
  \<open>parse_args\<close>: a positional never filled is \<open>the following arguments are required\<close>,
  an unrecognised string \<open>unrecognized arguments\<close>, both exit 2.
\<close>

definition parse_args :: "argument list \<Rightarrow> string list \<Rightarrow> namespace py_result" where
  "parse_args P argv =
     res_bind (classify_args (option_string_actions P) argv) (\<lambda>ts.
     res_bind (consume_args (positional_dests P) False ts (initial_namespace P) []) (\<lambda>(ns, ps, ex).
       if ps \<noteq> [] then Inl (SystemExit 2)
       else if ex \<noteq> [] then Inl (SystemExit 2)
       else Inr ns))"

text \<open>The attributes \<open>args.start_time\<close>, \<dots> of the namespace.\<close>

definition ns_get :: "namespace \<Rightarrow> string \<Rightarrow> string option" where
  "ns_get ns d = (case map_of ns d of Some v \<Rightarrow> v | None \<Rightarrow> None)"

definition args_of_namespace :: "namespace \<Rightarrow> cli_args" where
  "args_of_namespace ns =
     \<lparr>arg_start_time = the (ns_get ns ''start_time''), arg_end_time = the (ns_get ns ''end_time''),
      arg_output_file = the (ns_get ns ''output_file''),
      arg_box_id = ns_get ns ''box_id'', arg_sensor_id = ns_get ns ''sensor_id'',
      arg_bucket = the (ns_get ns ''bucket''), arg_input_zone = the (ns_get ns ''input_zone''),
      arg_output_zone = the (ns_get ns ''output_zone''), arg_creds = the (ns_get ns ''creds'')\<rparr>"

text \<open>Lines 10--29.\<close>

definition cliArguments :: "string list \<Rightarrow> cli_args py_result" where
  "cliArguments argv = res_map args_of_namespace (parse_args PAROS_ARGUMENTS argv)"

text \<open>A command-line string \<open>argparse\<close> can only take as an argument.\<close>

definition plain_arg :: "string \<Rightarrow> bool" where
  "plain_arg s \<longleftrightarrow> s = [] \<or> hd s \<noteq> CHR ''-''"

text \<open>The command line that gives every field of a record explicitly.\<close>

definition render_argv :: "cli_args \<Rightarrow> string list" where
  "render_argv a =
     (case arg_box_id a of None \<Rightarrow> [] | Some b \<Rightarrow> [''--box-id='' @ b]) @
     (case arg_sensor_id a of None \<Rightarrow> [] | Some s \<Rightarrow> [''--sensor-id='' @ s]) @
     [''--bucket='' @ arg_bucket a, ''--input-zone='' @ arg_input_zone a,
      ''--output-zone='' @ arg_output_zone a, ''--creds='' @ arg_creds a,
      ''--'', arg_start_time a, arg_end_time a, arg_output_file a]"

section \<open>Lemmas\<close>

abbreviation PAROS_TABLE :: "(string \<times> opt_action) list" where
  "PAROS_TABLE \<equiv> option_string_actions PAROS_ARGUMENTS"

lemma paros_table:
  "PAROS_TABLE = [(''-h'', OptHelp), (''--help'', OptHelp), (''--box-id'', OptStore ''box_id''),
     (''--sensor-id'', OptStore ''sensor_id''), (''--bucket'', OptStore ''bucket''),
     (''--input-zone'', OptStore ''input_zone''), (''--output-zone'', OptStore ''output_zone''),
     (''--creds'', OptStore ''creds'')]"
  by (simp add: option_string_actions_def PAROS_ARGUMENTS_def option_dest_def)

lemma paros_positionals: "positional_dests PAROS_ARGUMENTS = [''start_time'', ''end_time'', ''output_file'']"
  by (simp add: positional_dests_def PAROS_ARGUMENTS_def)

lemma paros_namespace:
  "initial_namespace PAROS_ARGUMENTS =
     [(''start_time'', None), (''end_time'', None), (''output_file'', None), (''box_id'', None),
      (''sensor_id'', None), (''bucket'', Some ''parosbox''), (''input_zone'', Some ''Etc/UTC''),
      (''output_zone'', Some ''Etc/UTC''), (''creds'', Some ''influx-creds.pickle'')]"
  by (simp add: initial_namespace_def PAROS_ARGUMENTS_def option_dest_def)

lemma parse_optional_plain: "plain_arg s \<Longrightarrow> parse_optional T s = Inr (TokArg s)"
  by (auto simp: plain_arg_def parse_optional_def)

lemma classify_plain: "list_all plain_arg ss \<Longrightarrow> classify_args T ss = Inr (map TokArg ss)"
proof (induction ss)
  case (Cons s ss)
  then have "s \<noteq> ''--''" by (auto simp: plain_arg_def)
  with Cons show ?case by (simp add: parse_optional_plain)
qed simp

lemma paros_table_no_eq: "\<forall>k \<in> set (map fst PAROS_TABLE). CHR ''='' \<notin> set k"
  by (simp add: paros_table)

lemma classify_plain3:
  "list_all plain_arg [s1, s2, s3] \<Longrightarrow>
   classify_args PAROS_TABLE [s1, s2, s3] = Inr [TokArg s1, TokArg s2, TokArg s3]"
  using classify_plain [of "[s1, s2, s3]" PAROS_TABLE] by (simp del: classify_args.simps)

lemma classify_render:
  "classify_args PAROS_TABLE (render_argv a) =
     Inr ((case arg_box_id a of None \<Rightarrow> []
           | Some b \<Rightarrow> [TokOpt (Some (OptStore ''box_id'')) ''--box-id'' (Some (''='', b))]) @
          (case arg_sensor_id a of None \<Rightarrow> []
           | Some s \<Rightarrow> [TokOpt (Some (OptStore ''sensor_id'')) ''--sensor-id'' (Some (''='', s))]) @
          [TokOpt (Some (OptStore ''bucket'')) ''--bucket'' (Some (''='', arg_bucket a)),
           TokOpt (Some (OptStore ''input_zone'')) ''--input-zone'' (Some (''='', arg_input_zone a)),
           TokOpt (Some (OptStore ''output_zone'')) ''--output-zone'' (Some (''='', arg_output_zone a)),
           TokOpt (Some (OptStore ''creds'')) ''--creds'' (Some (''='', arg_creds a)),
           TokSep, TokArg (arg_start_time a), TokArg (arg_end_time a), TokArg (arg_output_file a)])"
  by (cases "arg_box_id a"; cases "arg_sensor_id a")
     (simp_all add: render_argv_def parse_optional_def paros_table)

lemma classify_args_cong:
  assumes "''--'' \<notin> set pre" and "x \<noteq> ''--''" and "y \<noteq> ''--''"
    and "parse_optional T x = parse_optional T y"
  shows "classify_args T (pre @ x # post) = classify_args T (pre @ y # post)"
  using assms(1) by (induction pre) (auto simp: assms(2-4))

lemma filter_unique_key:
  assumes "distinct (map fst T)" and "map_of T k = Some a" and "P k"
    and "\<forall>q \<in> set (map fst T). P q \<longrightarrow> q = k"
  shows "filter (\<lambda>(q, b). P q) T = [(k, a)]"
  using assms
proof (induction T)
  case (Cons e T)
  obtain q b where e: "e = (q, b)" by (cases e)
  show ?case
  proof (cases "q = k")
    case True
    have ab: "b = a" using Cons.prems(2) e True by simp
    have notin: "k \<notin> set (map fst T)" using Cons.prems(1) e True by simp
    have "\<forall>x \<in> set T. \<not> (case x of (q', b') \<Rightarrow> P q')"
    proof
      fix x assume x: "x \<in> set T"
      obtain q' b' where x': "x = (q', b')" by (cases x)
      with x have "q' \<in> set (map fst T)" by (metis fst_conv image_eqI set_map)
      note q' = this
      have "\<not> P q'"
      proof
        assume "P q'"
        moreover have "q' \<in> set (map fst (e # T))" using q' by simp
        ultimately have "q' = k" using Cons.prems(4) by blast
        with notin q' show False by simp
      qed
      with x' show "\<not> (case x of (q', b') \<Rightarrow> P q')" by simp
    qed
    then have "filter (\<lambda>(q, b). P q) T = []" by (simp only: filter_False)
    with e True ab Cons.prems(3) show ?thesis by simp
  next
    case False
    have np: "\<not> P q" using Cons.prems(4) e False by simp
    have d: "distinct (map fst T)" using Cons.prems(1) by simp
    have m: "map_of T k = Some a" using Cons.prems(2) e False by (simp split: if_splits)
    have u: "\<forall>q \<in> set (map fst T). P q \<longrightarrow> q = k" using Cons.prems(4) by simp
    have ih: "filter (\<lambda>(q, b). P q) T = [(k, a)]" by (rule Cons.IH [OF d m Cons.prems(3) u])
    from e np ih show ?thesis by simp
  qed
qed simp

lemma paros_table_distinct: "distinct (map fst PAROS_TABLE)"
  by (simp add: paros_table)

lemma parse_optional_abbrev:
  assumes T: "distinct (map fst T)" "\<forall>k \<in> set (map fst T). CHR ''='' \<notin> set k"
    and os: "map_of T os = Some a"
    and p: "take 2 p = ''--''" "take (length p) os = p"
    and uniq: "\<forall>q \<in> set (map fst T). take (length p) q = p \<longrightarrow> q = os"
  shows "parse_optional T p = parse_optional T os"
proof (cases "p = os")
  case False
  have len: "2 \<le> length p"
  proof -
    have "length (take 2 p) = 2" using p(1) by simp
    then show ?thesis by simp
  qed
  have "(os, a) \<in> set T" using os by (rule map_of_SomeD)
  then have no_eq_os: "CHR ''='' \<notin> set os" using T(2) by force
  have "set p \<subseteq> set os" using p(2) by (metis set_take_subset)
  then have no_eq: "\<forall>c \<in> set p. c \<noteq> CHR ''=''" using no_eq_os by auto
  have none: "map_of T p = None"
  proof (rule ccontr)
    assume "map_of T p \<noteq> None"
    then obtain b where "(p, b) \<in> set T" by (auto dest: map_of_SomeD)
    with uniq have "p = os" by force
    with False show False by simp
  qed
  have hd_p: "hd p = CHR ''-''" using p(1) by (cases p) auto
  have hd_os: "os \<noteq> [] \<and> hd os = CHR ''-''"
  proof -
    have "take 2 os = ''--''" using p len by (metis take_take min.absorb1)
    then show ?thesis by (cases os) auto
  qed
  have filt: "filter (\<lambda>(q, b). take (length p) q = p) T = [(os, a)]"
    using filter_unique_key [OF T(1) os, of "\<lambda>q. take (length p) q = p"] p(2) uniq by simp
  have tw: "takeWhile (\<lambda>c. c \<noteq> CHR ''='') p = p" using no_eq by (simp add: takeWhile_eq_all_conv)
  have dw: "dropWhile (\<lambda>c. c \<noteq> CHR ''='') p = []" using no_eq by (simp add: dropWhile_eq_Nil_conv)
  have ot: "option_tuples T p = [TokOpt (Some a) os None]"
    using p(1) filt by (simp add: option_tuples_def Let_def tw dw)
  have "p \<noteq> [] \<and> length p \<noteq> 1" using len by auto
  then have "parse_optional T p = Inr (TokOpt (Some a) os None)"
    using hd_p none by (simp add: parse_optional_def Let_def tw dw ot)
  moreover have "parse_optional T os = Inr (TokOpt (Some a) os None)"
    using hd_os os by (simp add: parse_optional_def)
  ultimately show ?thesis by simp
qed simp

section \<open>Properties of the command line\<close>

text \<open>
  C9. Parsing round trip: the command line that gives every option with \<open>=\<close> and
  the positionals after \<open>--\<close> parses back to exactly the arguments it was made
  from, whatever the strings hold (the end time and output file apart from the string
  \<open>--\<close> itself, which CPython stores as an empty list).
\<close>

theorem cliArguments_roundtrip:
  "arg_end_time a \<noteq> ''--'' \<Longrightarrow> arg_output_file a \<noteq> ''--'' \<Longrightarrow>
   cliArguments (render_argv a) = Inr a"
  by (cases a; cases "arg_box_id a"; cases "arg_sensor_id a")
     (simp_all add: cliArguments_def parse_args_def classify_render paros_positionals
        paros_namespace args_of_namespace_def ns_get_def)

text \<open>
  C12. Three positionals alone parse to the start time, end time and output file,
  with no box or sensor filter, bucket \<open>parosbox\<close>, both zones \<open>Etc/UTC\<close> and
  credentials \<open>influx-creds.pickle\<close> (lines 23--26).
\<close>

theorem cliArguments_defaults:
  "list_all plain_arg [s1, s2, s3] \<Longrightarrow> cliArguments [s1, s2, s3] = Inr (default_args s1 s2 s3)"
  by (simp add: cliArguments_def parse_args_def classify_plain3 paros_positionals
        paros_namespace args_of_namespace_def ns_get_def default_args_def del: classify_args.simps)

text \<open>
  C17. The rejected command lines: a missing or an extra positional, an option
  without its value and the ambiguous abbreviation \<open>--b\<close> (\<open>--box-id\<close> or
  \<open>--bucket\<close>) end the program with exit status 2; \<open>-h\<close> ends it with status 0.
\<close>

theorem cliArguments_errors:
  "list_all plain_arg [s1, s2, s3, s4] \<Longrightarrow>
     cliArguments [s1, s2] = Inl (SystemExit 2) \<and>
     cliArguments [s1, s2, s3, s4] = Inl (SystemExit 2) \<and>
     cliArguments [s1, s2, s3, ''--bucket''] = Inl (SystemExit 2) \<and>
     cliArguments (''--b'' # rest) = Inl (SystemExit 2) \<and>
     (list_all plain_arg rest \<longrightarrow> cliArguments (''-h'' # rest) = Inl (SystemExit 0))"
proof (intro conjI impI)
  assume p: "list_all plain_arg [s1, s2, s3, s4]"
  have c2: "classify_args PAROS_TABLE [s1, s2] = Inr [TokArg s1, TokArg s2]"
    using p classify_plain [of "[s1, s2]" PAROS_TABLE] by (simp del: classify_args.simps)
  then show "cliArguments [s1, s2] = Inl (SystemExit 2)"
    by (simp add: cliArguments_def parse_args_def paros_positionals paros_namespace
        del: classify_args.simps)
  have c4: "classify_args PAROS_TABLE [s1, s2, s3, s4] = Inr [TokArg s1, TokArg s2, TokArg s3, TokArg s4]"
    using p classify_plain [of "[s1, s2, s3, s4]" PAROS_TABLE] by (simp del: classify_args.simps)
  then show "cliArguments [s1, s2, s3, s4] = Inl (SystemExit 2)"
    by (simp add: cliArguments_def parse_args_def paros_positionals paros_namespace
        del: classify_args.simps)
  have "classify_args PAROS_TABLE [s1, s2, s3, ''--bucket''] =
          Inr [TokArg s1, TokArg s2, TokArg s3, TokOpt (Some (OptStore ''bucket'')) ''--bucket'' None]"
    using p by (auto simp: parse_optional_plain parse_optional_def paros_table plain_arg_def)
  then show "cliArguments [s1, s2, s3, ''--bucket''] = Inl (SystemExit 2)"
    by (simp add: cliArguments_def parse_args_def paros_positionals paros_namespace
        del: classify_args.simps)
  show "cliArguments (''--b'' # rest) = Inl (SystemExit 2)"
    by (simp add: cliArguments_def parse_args_def parse_optional_def option_tuples_def paros_table)
next
  assume "list_all plain_arg rest"
  then have "classify_args PAROS_TABLE (''-h'' # rest) = Inr (TokOpt (Some OptHelp) ''-h'' None # map TokArg rest)"
    by (simp add: classify_plain parse_optional_def paros_table)
  then show "cliArguments (''-h'' # rest) = Inl (SystemExit 0)"
    by (simp add: cliArguments_def parse_args_def del: classify_args.simps)
qed

lemma cliArguments_abbrev_general:
  assumes "os \<in> set (map fst PAROS_TABLE)" and "take 2 p = ''--''" and "take (length p) os = p"
    and "\<forall>q \<in> set (map fst PAROS_TABLE). take (length p) q = p \<longrightarrow> q = os"
    and "''--'' \<notin> set pre"
  shows "cliArguments (pre @ p # post) = cliArguments (pre @ os # post)"
proof -
  have "map_of PAROS_TABLE os \<noteq> None"
    using assms(1) by (simp add: map_of_eq_None_iff)
  then obtain a where os: "map_of PAROS_TABLE os = Some a" by blast
  have "p \<noteq> ''--''"
  proof
    assume "p = ''--''"
    with assms(4) have "''--help'' = os" and "''--bucket'' = os" by (simp_all add: paros_table)
    then have "''--help'' = ''--bucket''" by (rule trans [OF _ sym])
    then show False by simp
  qed
  moreover have "os \<noteq> ''--''" using assms(1) by (auto simp: paros_table)
  moreover have "parse_optional PAROS_TABLE p = parse_optional PAROS_TABLE os"
    using parse_optional_abbrev [OF paros_table_distinct paros_table_no_eq os assms(2,3,4)] .
  ultimately have "classify_args PAROS_TABLE (pre @ p # post) = classify_args PAROS_TABLE (pre @ os # post)"
    by (rule classify_args_cong [OF assms(5)])
  then show ?thesis by (simp only: cliArguments_def parse_args_def)
qed

text \<open>
  C24. The abbreviations of the options of lines 21--26 (\<open>allow_abbrev\<close>): before any
  \<open>--\<close>, \<open>--bo\<close>, \<open>--s\<close>, \<open>--bu\<close>, \<open>--i\<close>, \<open>--o\<close>, \<open>--c\<close> and \<open>--h\<close> parse
  exactly as \<open>--box-id\<close>, \<open>--sensor-id\<close>, \<open>--bucket\<close>, \<open>--input-zone\<close>,
  \<open>--output-zone\<close>, \<open>--creds\<close> and \<open>--help\<close>: each is a prefix that no other option
  string of the parser starts with (while \<open>--b\<close> is ambiguous, C17).
\<close>

theorem cliArguments_abbrev:
  assumes "(p, os) \<in> set [(''--bo'', ''--box-id''), (''--s'', ''--sensor-id''), (''--bu'', ''--bucket''),
      (''--i'', ''--input-zone''), (''--o'', ''--output-zone''), (''--c'', ''--creds''), (''--h'', ''--help'')]"
    and "''--'' \<notin> set pre"
  shows "cliArguments (pre @ p # post) = cliArguments (pre @ os # post)"
proof -
  from assms(1) have "os \<in> set (map fst PAROS_TABLE) \<and> take 2 p = ''--'' \<and> take (length p) os = p \<and>
      (\<forall>q \<in> set (map fst PAROS_TABLE). take (length p) q = p \<longrightarrow> q = os)"
    by (auto simp: paros_table)
  then show ?thesis using cliArguments_abbrev_general assms(2) by blast
qed


theorem cliArguments_roundtrip_witness:
  "arg_end_time (default_args ''2024-03-01T02:30:05'' ''-1'' ''out.csv'') \<noteq> ''--'' \<and>
   arg_output_file (default_args ''2024-03-01T02:30:05'' ''-1'' ''out.csv'') \<noteq> ''--'' \<and>
   cliArguments (render_argv ((default_args ''2024-03-01T02:30:05'' ''-1'' ''out.csv'')
     \<lparr>arg_box_id := Some ''box7''\<rparr>)) =
   Inr ((default_args ''2024-03-01T02:30:05'' ''-1'' ''out.csv'')\<lparr>arg_box_id := Some ''box7''\<rparr>)"
  using cliArguments_roundtrip [of "(default_args ''2024-03-01T02:30:05'' ''-1'' ''out.csv'')
     \<lparr>arg_box_id := Some ''box7''\<rparr>"]
  by (simp add: default_args_def)

theorem cliArguments_defaults_witness:
  "list_all plain_arg [''2024-03-01T02:30:05'', ''2024-03-01T03:00:00'', ''out.csv''] \<and>
   cliArguments [''2024-03-01T02:30:05'', ''2024-03-01T03:00:00'', ''out.csv''] =
     Inr (default_args ''2024-03-01T02:30:05'' ''2024-03-01T03:00:00'' ''out.csv'')"
  using cliArguments_defaults [of "''2024-03-01T02:30:05''" "''2024-03-01T03:00:00''" "''out.csv''"]
  by (simp add: plain_arg_def)

theorem cliArguments_errors_witness:
  "list_all plain_arg [''a'', ''b'', ''c'', ''d''] \<and> list_all plain_arg [''x''] \<and>
   cliArguments [''a'', ''b''] = Inl (SystemExit 2) \<and>
   cliArguments [''a'', ''b'', ''c'', ''d''] = Inl (SystemExit 2) \<and>
   cliArguments [''a'', ''b'', ''c'', ''--bucket''] = Inl (SystemExit 2) \<and>
   cliArguments [''--b'', ''x''] = Inl (SystemExit 2) \<and>
   cliArguments [''-h'', ''x''] = Inl (SystemExit 0)"
  using cliArguments_errors [of "''a''" "''b''" "''c''" "''d''" "[''x'']"]
  by (simp add: plain_arg_def)

theorem cliArguments_abbrev_witness:
  "cliArguments [''a'', ''--i'', ''America/Chicago'', ''b'', ''c''] =
     cliArguments [''a'', ''--input-zone'', ''America/Chicago'', ''b'', ''c'']"
  using cliArguments_abbrev [of "''--i''" "''--input-zone''" "[''a'']" "[''America/Chicago'', ''b'', ''c'']"]
  by simp

end
