(* ===== verification/Calendar_Props.thy ===== *)
theory Calendar_Props
  imports Date_Time
begin

text \<open>
  Facts about the datetime arithmetic of \<open>Date_Time\<close> that the conversion of the
  query bounds (lines 116--123 and 131 of \<open>src/get-paros-data.py\<close>) relies on: the
  exact range outside which \<open>t + timedelta(seconds=delta)\<close> raises
  \<open>OverflowError\<close>, that parsed and shifted datetimes are valid, and the length of
  the text \<open>isoformat\<close> prints. \<open>Program_Main\<close> states them for \<open>convert_times\<close>.
\<close>

section \<open>Lemmas\<close>

lemma isoformat_length:
  assumes "valid_dt t"
  shows "length (isoformat t) = (if dt_microsecond t = 0 then 19 else 26)"
proof -
  from assms have v: "dt_year t < 10 ^ 4" "dt_month t < 10 ^ 2" "dt_day t < 10 ^ 2"
    "dt_hour t < 10 ^ 2" "dt_minute t < 10 ^ 2" "dt_second t < 10 ^ 2" "dt_microsecond t < 10 ^ 6"
    using days_in_month_le_31 [of "dt_month t" "dt_year t"]
    by (auto simp: valid_dt_def valid_date_def MAXYEAR_def)
  then show ?thesis
    by (simp add: isoformat_def length_zero_pad)
qed

lemma fromisoformat_valid: "fromisoformat s = Inr t \<Longrightarrow> valid_dt t"
  by (auto simp: fromisoformat_def Let_def split: option.splits prod.splits if_splits)

lemma local_to_utc_valid: "local_to_utc off t = Inr t' \<Longrightarrow> valid_dt t \<Longrightarrow> valid_dt t'"
  using dt_add_seconds_Inr by (auto simp: local_to_utc_def valid_dt_def)

lemma dt_add_seconds_range:
  assumes "valid_dt t"
  shows "(0 \<le> dt_seconds t + delta \<and> dt_seconds t + delta < 86400 * int MAXORDINAL \<longrightarrow>
            (\<exists>t'. dt_add_seconds delta t = Inr t' \<and> valid_dt t' \<and> dt_seconds t' = dt_seconds t + delta)) \<and>
         (\<not> (0 \<le> dt_seconds t + delta \<and> dt_seconds t + delta < 86400 * int MAXORDINAL) \<longrightarrow>
            dt_add_seconds delta t = Inl OverflowError)"
proof (intro conjI impI)
  let ?total = "dt_seconds t + delta"
  have us: "dt_microsecond t < 1000000" using assms by (simp add: valid_dt_def)
  have rng: "(0 < ?total div 86400 + 1 \<and> ?total div 86400 + 1 \<le> int MAXORDINAL) \<longleftrightarrow>
      (0 \<le> ?total \<and> ?total < 86400 * int MAXORDINAL)"
    by (auto simp: MAXORDINAL_def; linarith)
  {
    assume in_range: "0 \<le> ?total \<and> ?total < 86400 * int MAXORDINAL"
    have "\<exists>t'. dt_add_seconds delta t = Inr t'"
      using rng in_range
      by (cases "ord2ymd (nat (?total div 86400 + 1))") (simp add: dt_add_seconds_def Let_def)
    then obtain t' where r: "dt_add_seconds delta t = Inr t'" by blast
    from dt_add_seconds_Inr [OF r us]
    show "\<exists>t'. dt_add_seconds delta t = Inr t' \<and> valid_dt t' \<and> dt_seconds t' = ?total"
      using r by blast
  }
  assume "\<not> (0 \<le> ?total \<and> ?total < 86400 * int MAXORDINAL)"
  with rng have "\<not> (0 < ?total div 86400 + 1 \<and> ?total div 86400 + 1 \<le> int MAXORDINAL)" by blast
  then show "dt_add_seconds delta t = Inl OverflowError"
    unfolding dt_add_seconds_def Let_def by (rule if_not_P)
qed

end
