(* ===== verification/Program_Main.thy ===== *)
theory Program_Main
  imports Credentials Flux_Filter Cli_Args Calendar_Props
begin

text \<open>
  \<open>main\<close> of \<open>src/get-paros-data.py\<close> (lines 101--182) composed from the components:
  the credentials (\<open>loadInfluxClient\<close>), the zones and times (\<open>Date_Time\<close>), the
  filters (\<open>Flux_Filter\<close>), the query text (lines 129--140), the database, the split
  and normalisation (\<open>Split_Output\<close>) and the exporter (\<open>Export\<close>). The database is a
  parameter of the model, a function from the client and the query text to an answer or
  an exception: the program's behaviour is proved for every database. The parsed
  command line is the record \<open>cliArguments\<close> returns (theory \<open>Cli_Args\<close>). The theory proves the
  layout of the query, that the query carries the UTC conversion of the given times,
  the order in which failures occur, that the query bounds are valid datetimes, and the
  whole run on the specification's example. \<open>paros_main\<close> is the script as run
  from the shell: the command line parsed by \<open>cliArguments\<close>, then \<open>main_run\<close>.
\<close>

section \<open>The definitions\<close>

text \<open>Lines 129--140: the query text, stage by stage.\<close>

definition QUERY_DROP :: string where
  \<open>QUERY_DROP = TAB # ''|> drop(columns: ["_start", "_stop"])''\<close>

definition QUERY_PIVOT :: string where
  \<open>QUERY_PIVOT = ''        |> pivot(rowKey:["_time"], columnKey: ["_field"], valueColumn: "_value")''\<close>

definition build_query :: "string \<Rightarrow> naive_dt \<Rightarrow> naive_dt \<Rightarrow> string \<Rightarrow> string \<Rightarrow> string" where
  \<open>build_query bucket start_time end_time box_filters sensor_filters =
     (let q0 = ''from(bucket: "'' @ bucket @ ''")'' @ [NL] @
               ''        |> range(start: '' @ isoformat start_time @ ''Z, stop: '' @
               isoformat end_time @ ''Z)'' @ [NL];
          q1 = (if box_filters \<noteq> [] then q0 @ TAB # box_filters @ [NL] else q0);
          q2 = (if sensor_filters \<noteq> [] then q1 @ TAB # sensor_filters @ [NL] else q1)
      in q2 @ QUERY_DROP @ [NL] @ QUERY_PIVOT)\<close>

text \<open>Lines 113--123: the two zones, then each time parsed, localised and taken to UTC.\<close>

definition convert_times :: "tz_table \<Rightarrow> cli_args \<Rightarrow> (naive_dt \<times> naive_dt) py_result" where
  "convert_times tzdb args =
     res_bind (py_timezone tzdb (arg_input_zone args)) (\<lambda>input_tz.
     res_bind (py_timezone tzdb (arg_output_zone args)) (\<lambda>output_tz.
     res_bind (fromisoformat (arg_start_time args)) (\<lambda>start_time.
     res_bind (local_to_utc input_tz start_time) (\<lambda>start_time.
     res_bind (fromisoformat (arg_end_time args)) (\<lambda>end_time.
     res_map (\<lambda>end_time. (start_time, end_time)) (local_to_utc input_tz end_time))))))"

text \<open>The database behind \<open>query_api.query_data_frame\<close> (line 145).\<close>

type_synonym database = "influx_client \<Rightarrow> string \<Rightarrow> query_result py_result"

text \<open>
  Lines 107--143: the client, the times, the filters and the query, with what is printed
  up to the query; the outcome is the client and the query text.
\<close>

definition main_prepare :: "file_store \<Rightarrow> tz_table \<Rightarrow> cli_args \<Rightarrow>
    io_event list \<times> (influx_client \<times> string) py_result" where
  "main_prepare fs tzdb args =
     (case loadInfluxClient fs (arg_creds args) of
        (out0, Inl e) \<Rightarrow> (out0, Inl e)
      | (out0, Inr idb_client) \<Rightarrow>
          (case convert_times tzdb args of
             Inl e \<Rightarrow> (out0, Inl e)
           | Inr (start_time, end_time) \<Rightarrow>
               (let box_filters = createFluxFilters ''_measurement'' (arg_box_id args);
                    sensor_filters = createFluxFilters ''id'' (arg_sensor_id args);
                    idb_query = build_query (arg_bucket args) start_time end_time box_filters sensor_filters
                in (out0 @ [Print (NL # ''Running InfluxDB Query...'' @ [NL]), Print (idb_query @ [NL])],
                    Inr (idb_client, idb_query)))))"

text \<open>
  Lines 101--182: the whole run. It returns what was printed and written, in order, and
  the file store at the end, or the exception that ended the run.
\<close>

definition main_run :: "file_store \<Rightarrow> tz_table \<Rightarrow> database \<Rightarrow> cli_args \<Rightarrow>
    io_event list \<times> file_store py_result" where
  "main_run fs tzdb db args =
     (case main_prepare fs tzdb args of
        (out1, Inl e) \<Rightarrow> (out1, Inl e)
      | (out1, Inr (idb_client, idb_query)) \<Rightarrow>
          (case res_bind (db idb_client idb_query) (process_results tzdb (arg_output_zone args)) of
             Inl e \<Rightarrow> (out1, Inl e)
           | Inr (warnings, out_df) \<Rightarrow>
               (let out2 = out1 @ map Print warnings @
                           [Print (NL # ''Previewing Dataframes...'' @ [NL]), PrintBundle out_df];
                    evs = export_output (arg_output_file args) out_df
                in (out2 @ evs, Inr (apply_events fs evs)))))"

text \<open>
  The script as run from the shell (lines 184--185 and 107): the command line is parsed
  first, and a command line \<open>argparse\<close> rejects ends the run before anything else.
\<close>

definition paros_main :: "file_store \<Rightarrow> tz_table \<Rightarrow> database \<Rightarrow> string list \<Rightarrow>
    io_event list \<times> file_store py_result" where
  "paros_main fs tzdb db argv =
     (case cliArguments argv of
        Inl e \<Rightarrow> ([], Inl e)
      | Inr args \<Rightarrow> main_run fs tzdb db args)"

text \<open>
  The specification's example run: box \<open>box7\<close> in Chicago (CST) wall-clock time, CSV
  output, a store holding the credentials, and a database that answers the expected
  query with the two sensors' tables.
\<close>

definition example_args :: cli_args where
  "example_args =
     (default_args ''2024-03-01T02:30:05'' ''2024-03-01T03:00:00'' ''out.csv'')
       \<lparr>arg_box_id := Some ''box7'', arg_input_zone := ''America/Chicago'', arg_output_zone := ''UTC''\<rparr>"

definition example_store :: file_store where
  "example_store = Map.empty(CREDS_FILE \<mapsto> PickledDict [(''idb_url'', ''http://db:8086''),
     (''idb_org'', ''paros''), (''idb_token'', ''secret'')])"

definition example_query :: string where
  \<open>example_query =
     ''from(bucket: "parosbox")'' @ [NL] @
     ''        |> range(start: 2024-03-01T08:30:05Z, stop: 2024-03-01T09:00:00Z)'' @ [NL] @
     TAB # ''|> filter(fn: (r) => r["_measurement"] == "box7")'' @ [NL] @
     QUERY_DROP @ [NL] @ QUERY_PIVOT\<close>

definition example_db :: database where
  "example_db idb_client q =
     (if q = example_query then Inr (QFrames [example_two]) else Inl (ValueError ''unexpected query''))"

definition example_end :: naive_dt where
  "example_end = \<lparr>dt_year = 2024, dt_month = 3, dt_day = 1, dt_hour = 3, dt_minute = 0,
     dt_second = 0, dt_microsecond = 0\<rparr>"

definition example_end_utc :: naive_dt where
  "example_end_utc = \<lparr>dt_year = 2024, dt_month = 3, dt_day = 1, dt_hour = 9, dt_minute = 0,
     dt_second = 0, dt_microsecond = 0\<rparr>"

text \<open>The same run with the two times swapped: the range ends before it starts.\<close>

definition example_swapped :: cli_args where
  "example_swapped = example_args\<lparr>arg_start_time := ''2024-03-01T03:00:00'', arg_end_time := ''2024-03-01T02:30:05''\<rparr>"

text \<open>An end time six hours before the end of the calendar, in Chicago time.\<close>

definition example_last :: naive_dt where
  "example_last = \<lparr>dt_year = 9999, dt_month = 12, dt_day = 31, dt_hour = 23, dt_minute = 0,
     dt_second = 0, dt_microsecond = 0\<rparr>"

definition example_late_args :: cli_args where
  "example_late_args = example_args\<lparr>arg_end_time := ''9999-12-31T23:00:00''\<rparr>"

definition example_client :: influx_client where
  "example_client = \<lparr>client_url = ''http://db:8086'', client_token = ''secret'', client_org = ''paros'',
     client_timeout = 100000000\<rparr>"

section \<open>Lemmas\<close>

lemma isoformat_no_NL: "NL \<notin> set (isoformat t)"
proof
  assume "NL \<in> set (isoformat t)"
  then obtain w n where "NL \<in> set (zero_pad w n)"
    by (auto simp: isoformat_def split: if_splits)
  then show False using zero_pad_digits by (force simp: is_ascii_digit_def)
qed

lemma build_query_lines:
  \<open>build_query bucket s e box_filters sensor_filters =
     py_join [NL] ([''from(bucket: "'' @ bucket @ ''")'',
                    ''        |> range(start: '' @ isoformat s @ ''Z, stop: '' @ isoformat e @ ''Z)''] @
                   (if box_filters \<noteq> [] then [TAB # box_filters] else []) @
                   (if sensor_filters \<noteq> [] then [TAB # sensor_filters] else []) @
                   [QUERY_DROP, QUERY_PIVOT])\<close>
  by (simp add: build_query_def Let_def py_join_Cons)

lemma load_ok_silent:
  "snd (loadInfluxClient fs path) = Inr client \<Longrightarrow> loadInfluxClient fs path = ([], Inr client)"
  by (cases "fs path") (auto simp: loadInfluxClient_def)

lemma example_start_parse: "fromisoformat ''2024-03-01T02:30:05'' = Inr example_dt"
  by (simp add: fromisoformat_def parse_iso_date_def take_digits_def parse_iso_time_def hms_of_def
      paros_simps valid_dt_def valid_date_def example_dt_def MINYEAR_def MAXYEAR_def
      is_ascii_digit_def digit_val_def)

lemma example_end_parse: "fromisoformat ''2024-03-01T03:00:00'' = Inr example_end"
  by (simp add: fromisoformat_def parse_iso_date_def take_digits_def parse_iso_time_def hms_of_def
      paros_simps valid_dt_def valid_date_def example_end_def MINYEAR_def MAXYEAR_def
      is_ascii_digit_def digit_val_def)

lemma example_last_parse: "fromisoformat ''9999-12-31T23:00:00'' = Inr example_last"
  by (simp add: fromisoformat_def parse_iso_date_def take_digits_def parse_iso_time_def hms_of_def
      paros_simps valid_dt_def valid_date_def example_last_def MINYEAR_def MAXYEAR_def
      is_ascii_digit_def digit_val_def)

lemma example_start_utc: "local_to_utc (- 21600) example_dt = Inr example_utc"
  by (simp add: local_to_utc_def dt_add_seconds_def dt_seconds_def toordinal_def example_dt_def
      example_utc_def ord2ymd_def paros_simps MAXORDINAL_def)

lemma example_end_to_utc: "local_to_utc (- 21600) example_end = Inr example_end_utc"
  by (simp add: local_to_utc_def dt_add_seconds_def dt_seconds_def toordinal_def example_end_def
      example_end_utc_def ord2ymd_def paros_simps MAXORDINAL_def)

lemma example_load: "snd (loadInfluxClient example_store ''influx-creds.pickle'') = Inr example_client"
  by (simp add: loadInfluxClient_def pickle_get_def example_store_def example_client_def CREDS_FILE_def)

lemma example_zones:
  "example_tzdb ''America/Chicago'' = Some (- 21600) \<and> example_tzdb ''UTC'' = Some 0 \<and>
   example_tzdb ''Mars/Olympus'' = None"
  by (simp add: example_tzdb_def)

lemma example_query_built:
  "build_query ''parosbox'' example_utc example_end_utc (createFluxFilters ''_measurement'' (Some ''box7'')) [] =
   example_query"
  by (simp add: build_query_def example_query_def isoformat_def example_utc_def example_end_utc_def
      zero_pad_def nat_str.simps digit_char_def createFluxFilters_Some flux_pred_def filter_stage_prefix_def)

section \<open>Properties of the program\<close>

text \<open>
  C11. The query has the layout of the specification (section 4.1), one stage per line
  in this order: the bucket, the range of UTC times, the box filter and the sensor
  filter each only when present, the drop of \<open>_start\<close> and \<open>_stop\<close>, the pivot on
  \<open>_time\<close>; provided the bucket and the filters hold no line break.
\<close>

theorem build_query_stages:
  assumes "NL \<notin> set bucket" and "NL \<notin> set box_filters" and "NL \<notin> set sensor_filters"
  shows \<open>py_split NL (build_query bucket s e box_filters sensor_filters) =
     [''from(bucket: "'' @ bucket @ ''")'',
      ''        |> range(start: '' @ isoformat s @ ''Z, stop: '' @ isoformat e @ ''Z)''] @
     (if box_filters \<noteq> [] then [TAB # box_filters] else []) @
     (if sensor_filters \<noteq> [] then [TAB # sensor_filters] else []) @
     [QUERY_DROP, QUERY_PIVOT]\<close>
  unfolding build_query_lines
  using assms isoformat_no_NL [of s] isoformat_no_NL [of e]
  by (intro py_split_py_join) (auto simp: QUERY_DROP_def QUERY_PIVOT_def)

theorem build_query_stages_witness:
  \<open>NL \<notin> set ''parosbox'' \<and> NL \<notin> set (createFluxFilters ''_measurement'' (Some ''box7'')) \<and>
   NL \<notin> set (createFluxFilters ''id'' None) \<and>
   py_split NL (build_query ''parosbox'' example_utc example_utc
      (createFluxFilters ''_measurement'' (Some ''box7'')) (createFluxFilters ''id'' None)) =
     [''from(bucket: "parosbox")'',
      ''        |> range(start: '' @ isoformat example_utc @ ''Z, stop: '' @ isoformat example_utc @ ''Z)'',
      TAB # createFluxFilters ''_measurement'' (Some ''box7''), QUERY_DROP, QUERY_PIVOT]\<close>
proof -
  have b: "NL \<notin> set ''parosbox''" by simp
  have f: "NL \<notin> set (createFluxFilters ''_measurement'' (Some ''box7''))" by code_simp
  have n: "NL \<notin> set (createFluxFilters ''id'' None)" by simp
  show ?thesis using build_query_stages [OF b f n, of example_utc example_utc] b f n by simp
qed

text \<open>
  C4. Up to the query, \<open>main\<close> does what the specification describes: with the
  credentials loaded, both zones known and both times parsed and taken to UTC, it prints
  the banner and the query and sends the query built from the UTC times and the two
  filters. Nothing compares the two times: a range that ends before it starts is sent
  as it is (the witness), although the specification makes start \<open>\<le>\<close> end an
  invariant.
\<close>

theorem main_prepare_query:
  assumes "snd (loadInfluxClient fs (arg_creds args)) = Inr client"
    and "tzdb (arg_input_zone args) = Some off_in" and "tzdb (arg_output_zone args) = Some off_out"
    and "fromisoformat (arg_start_time args) = Inr st" and "local_to_utc off_in st = Inr st_utc"
    and "fromisoformat (arg_end_time args) = Inr et" and "local_to_utc off_in et = Inr et_utc"
  shows "main_prepare fs tzdb args =
    ([Print (NL # ''Running InfluxDB Query...'' @ [NL]),
      Print (build_query (arg_bucket args) st_utc et_utc (createFluxFilters ''_measurement'' (arg_box_id args))
         (createFluxFilters ''id'' (arg_sensor_id args)) @ [NL])],
     Inr (client, build_query (arg_bucket args) st_utc et_utc (createFluxFilters ''_measurement'' (arg_box_id args))
         (createFluxFilters ''id'' (arg_sensor_id args))))"
  using load_ok_silent [OF assms(1)] assms(2-7)
  by (simp add: main_prepare_def convert_times_def py_timezone_def Let_def)

theorem main_prepare_query_witness:
  "main_prepare example_store example_tzdb example_swapped =
    ([Print (NL # ''Running InfluxDB Query...'' @ [NL]),
      Print (build_query ''parosbox'' example_end_utc example_utc
        (createFluxFilters ''_measurement'' (Some ''box7'')) (createFluxFilters ''id'' None) @ [NL])],
     Inr (example_client, build_query ''parosbox'' example_end_utc example_utc
        (createFluxFilters ''_measurement'' (Some ''box7'')) (createFluxFilters ''id'' None))) \<and>
   dt_seconds example_utc < dt_seconds example_end_utc"
proof -
  have args: "arg_creds example_swapped = ''influx-creds.pickle'' \<and>
      arg_input_zone example_swapped = ''America/Chicago'' \<and> arg_output_zone example_swapped = ''UTC'' \<and>
      arg_start_time example_swapped = ''2024-03-01T03:00:00'' \<and>
      arg_end_time example_swapped = ''2024-03-01T02:30:05'' \<and>
      arg_bucket example_swapped = ''parosbox'' \<and> arg_box_id example_swapped = Some ''box7'' \<and>
      arg_sensor_id example_swapped = None"
    by (simp add: example_swapped_def example_args_def default_args_def)
  have lt: "dt_seconds example_utc < dt_seconds example_end_utc"
    by (simp add: dt_seconds_def toordinal_def example_utc_def example_end_utc_def paros_simps)
  show ?thesis
    using main_prepare_query [where fs = example_store and tzdb = example_tzdb and args = example_swapped,
        OF _ _ _ _ example_end_to_utc _ example_start_utc]
      args example_load example_zones example_start_parse example_end_parse lt
    by simp
qed

text \<open>
  C2. The whole run on the specification's example: the query built from the
  arguments is the one the database expects, its answer is split into the two sensors'
  tables, and the store ends with one headerless CSV file per sensor, holding the unix
  times 10.0 and 20.0 and the values; the credentials file is untouched.
\<close>

theorem main_run_example:
  "case main_run example_store example_tzdb example_db example_args of
     (_, Inr fs') \<Rightarrow>
       fs' ''out_box7_P1.csv'' = Some (CsvText (''10.0,1013.0'' @ [NL] @ ''20.0,1014.0'' @ [NL])) \<and>
       fs' ''out_box7_P2.csv'' = Some (CsvText (''10.0,7.0'' @ [NL] @ ''20.0,8.0'' @ [NL])) \<and>
       fs' CREDS_FILE = example_store CREDS_FILE
   | (_, Inl _) \<Rightarrow> False"
proof -
  have args: "arg_creds example_args = ''influx-creds.pickle'' \<and>
      arg_input_zone example_args = ''America/Chicago'' \<and> arg_output_zone example_args = ''UTC'' \<and>
      arg_start_time example_args = ''2024-03-01T02:30:05'' \<and>
      arg_end_time example_args = ''2024-03-01T03:00:00'' \<and> arg_output_file example_args = ''out.csv'' \<and>
      arg_bucket example_args = ''parosbox'' \<and> arg_box_id example_args = Some ''box7'' \<and>
      arg_sensor_id example_args = None"
    by (simp add: example_args_def default_args_def)
  have prep: "main_prepare example_store example_tzdb example_args =
      ([Print (NL # ''Running InfluxDB Query...'' @ [NL]), Print (example_query @ [NL])],
       Inr (example_client, example_query))"
    using args example_load example_zones
    by (simp add: main_prepare_def convert_times_def py_timezone_def load_ok_silent example_start_parse
        example_end_parse example_start_utc example_end_to_utc example_query_built Let_def)
  have db: "example_db example_client example_query = Inr (QFrames [example_two])"
    by (simp add: example_db_def)
  have run: "process_results example_tzdb ''UTC'' (QFrames [example_two]) =
      Inr ([], [(''box7_P1'', [(''time'', [CFloat 10, CFloat 20]), (''_value'', [CFloat 1013, CFloat 1014])]),
               (''box7_P2'', [(''time'', [CFloat 10, CFloat 20]), (''_value'', [CFloat 7, CFloat 8])])])"
    by code_simp
  have files: "let fs' = apply_events example_store (export_output ''out.csv''
        [(''box7_P1'', [(''time'', [CFloat 10, CFloat 20]), (''_value'', [CFloat 1013, CFloat 1014])]),
         (''box7_P2'', [(''time'', [CFloat 10, CFloat 20]), (''_value'', [CFloat 7, CFloat 8])])]) in
      fs' ''out_box7_P1.csv'' = Some (CsvText (''10.0,1013.0'' @ [NL] @ ''20.0,1014.0'' @ [NL])) \<and>
      fs' ''out_box7_P2.csv'' = Some (CsvText (''10.0,7.0'' @ [NL] @ ''20.0,8.0'' @ [NL])) \<and>
      fs' CREDS_FILE = example_store CREDS_FILE"
    by code_simp
  show ?thesis using args files by (simp add: main_run_def prep db run Let_def)
qed

text \<open>
  C21. The order of failures in \<open>main\<close>: a missing credentials file ends the run first,
  with the message and exit status 1; then an unknown input zone raises
  \<open>UnknownTimeZoneError\<close>, and a start time that does not parse raises its error,
  before anything is printed and whatever the database would answer.
\<close>

theorem main_run_errors:
  "(fs (arg_creds args) = None \<longrightarrow>
      main_run fs tzdb db args =
        ([Print ''InfluxDB credentials file not found. Run influxdb-setup.py to generate one.''],
         Inl (SystemExit 1))) \<and>
   (snd (loadInfluxClient fs (arg_creds args)) = Inr client \<and> tzdb (arg_input_zone args) = None \<longrightarrow>
      main_run fs tzdb db args = ([], Inl (UnknownTimeZoneError (arg_input_zone args)))) \<and>
   (snd (loadInfluxClient fs (arg_creds args)) = Inr client \<and> tzdb (arg_input_zone args) = Some off_in \<and>
    tzdb (arg_output_zone args) = Some off_out \<and> fromisoformat (arg_start_time args) = Inl err \<longrightarrow>
      main_run fs tzdb db args = ([], Inl err))"
proof (intro conjI impI)
  assume "fs (arg_creds args) = None"
  then show "main_run fs tzdb db args =
      ([Print ''InfluxDB credentials file not found. Run influxdb-setup.py to generate one.''],
       Inl (SystemExit 1))"
    by (simp add: main_run_def main_prepare_def loadInfluxClient_def)
next
  assume a: "snd (loadInfluxClient fs (arg_creds args)) = Inr client \<and> tzdb (arg_input_zone args) = None"
  then have "loadInfluxClient fs (arg_creds args) = ([], Inr client)" by (intro load_ok_silent) simp
  with a show "main_run fs tzdb db args = ([], Inl (UnknownTimeZoneError (arg_input_zone args)))"
    by (simp add: main_run_def main_prepare_def convert_times_def py_timezone_def)
next
  assume a: "snd (loadInfluxClient fs (arg_creds args)) = Inr client \<and> tzdb (arg_input_zone args) = Some off_in \<and>
    tzdb (arg_output_zone args) = Some off_out \<and> fromisoformat (arg_start_time args) = Inl err"
  then have "loadInfluxClient fs (arg_creds args) = ([], Inr client)" by (intro load_ok_silent) simp
  with a show "main_run fs tzdb db args = ([], Inl err)"
    by (simp add: main_run_def main_prepare_def convert_times_def py_timezone_def)
qed

theorem main_run_errors_witness:
  "main_run Map.empty example_tzdb example_db example_args =
     ([Print ''InfluxDB credentials file not found. Run influxdb-setup.py to generate one.''], Inl (SystemExit 1)) \<and>
   main_run example_store example_tzdb example_db (example_args\<lparr>arg_input_zone := ''Mars/Olympus''\<rparr>) =
     ([], Inl (UnknownTimeZoneError ''Mars/Olympus'')) \<and>
   main_run example_store example_tzdb example_db (example_args\<lparr>arg_start_time := ''2024-13-01T00:00:00''\<rparr>) =
     ([], Inl (ValueError ''value out of range''))"
proof -
  have bad: "fromisoformat ''2024-13-01T00:00:00'' = Inl (ValueError ''value out of range'')"
    by (simp add: fromisoformat_def parse_iso_date_def take_digits_def parse_iso_time_def hms_of_def
        paros_simps valid_dt_def valid_date_def MINYEAR_def MAXYEAR_def is_ascii_digit_def digit_val_def)
  have a: "arg_creds example_args = ''influx-creds.pickle'' \<and> arg_input_zone example_args = ''America/Chicago'' \<and>
      arg_output_zone example_args = ''UTC''"
    by (simp add: example_args_def default_args_def)
  show ?thesis
    using main_run_errors [of Map.empty example_args example_tzdb example_db]
      main_run_errors [of example_store "example_args\<lparr>arg_input_zone := ''Mars/Olympus''\<rparr>" example_tzdb
        example_db example_client]
      main_run_errors [of example_store "example_args\<lparr>arg_start_time := ''2024-13-01T00:00:00''\<rparr>" example_tzdb
        example_db example_client "-21600" 0 "ValueError ''value out of range''"]
      example_load example_zones bad a
    by simp
qed

text \<open>
  C15. The range of the query bounds (lines 116--123): with both zones known and both
  times parsed, \<open>convert_times\<close> shifts the start and the end time alike by the
  input zone's offset; when both shifted times lie in 0001-01-01T00:00:00 ..
  9999-12-31T23:59:59 it returns them, as valid datetimes each printed in 19 or 26
  characters, and otherwise it raises \<open>OverflowError\<close> (for the start time first).
\<close>

theorem convert_times_range:
  assumes "tzdb (arg_input_zone args) = Some off" and "tzdb (arg_output_zone args) = Some off'"
    and "fromisoformat (arg_start_time args) = Inr st" and "fromisoformat (arg_end_time args) = Inr et"
  shows "(0 \<le> dt_seconds st - off \<and> dt_seconds st - off < 86400 * int MAXORDINAL \<and>
          0 \<le> dt_seconds et - off \<and> dt_seconds et - off < 86400 * int MAXORDINAL \<longrightarrow>
          (\<exists>s e. convert_times tzdb args = Inr (s, e) \<and> valid_dt s \<and> valid_dt e \<and>
             dt_seconds s = dt_seconds st - off \<and> dt_seconds e = dt_seconds et - off \<and>
             length (isoformat s) \<in> {19, 26} \<and> length (isoformat e) \<in> {19, 26})) \<and>
         (\<not> (0 \<le> dt_seconds st - off \<and> dt_seconds st - off < 86400 * int MAXORDINAL) \<longrightarrow>
            convert_times tzdb args = Inl OverflowError) \<and>
         (0 \<le> dt_seconds st - off \<and> dt_seconds st - off < 86400 * int MAXORDINAL \<and>
          \<not> (0 \<le> dt_seconds et - off \<and> dt_seconds et - off < 86400 * int MAXORDINAL) \<longrightarrow>
            convert_times tzdb args = Inl OverflowError)"
proof -
  have vst: "valid_dt st" using assms(3) by (rule fromisoformat_valid)
  have vet: "valid_dt et" using assms(4) by (rule fromisoformat_valid)
  note rs = dt_add_seconds_range [OF vst, of "- off"]
  note re = dt_add_seconds_range [OF vet, of "- off"]
  have conv: "convert_times tzdb args =
      res_bind (dt_add_seconds (- off) st) (\<lambda>s. res_map (\<lambda>e. (s, e)) (dt_add_seconds (- off) et))"
    using assms by (simp add: convert_times_def py_timezone_def local_to_utc_def)
  show ?thesis
  proof (intro conjI impI)
    assume r: "0 \<le> dt_seconds st - off \<and> dt_seconds st - off < 86400 * int MAXORDINAL \<and>
        0 \<le> dt_seconds et - off \<and> dt_seconds et - off < 86400 * int MAXORDINAL"
    from rs r obtain s where s: "dt_add_seconds (- off) st = Inr s" "valid_dt s"
        "dt_seconds s = dt_seconds st - off" by auto
    from re r obtain e where e: "dt_add_seconds (- off) et = Inr e" "valid_dt e"
        "dt_seconds e = dt_seconds et - off" by auto
    have "convert_times tzdb args = Inr (s, e)" using conv s(1) e(1) by simp
    moreover have "length (isoformat s) \<in> {19, 26}" "length (isoformat e) \<in> {19, 26}"
      using isoformat_length [OF s(2)] isoformat_length [OF e(2)] by simp_all
    ultimately show "\<exists>s e. convert_times tzdb args = Inr (s, e) \<and> valid_dt s \<and> valid_dt e \<and>
        dt_seconds s = dt_seconds st - off \<and> dt_seconds e = dt_seconds et - off \<and>
        length (isoformat s) \<in> {19, 26} \<and> length (isoformat e) \<in> {19, 26}"
      using s(2,3) e(2,3) by blast
  next
    assume "\<not> (0 \<le> dt_seconds st - off \<and> dt_seconds st - off < 86400 * int MAXORDINAL)"
    then have "dt_add_seconds (- off) st = Inl OverflowError" using rs by simp
    then show "convert_times tzdb args = Inl OverflowError" using conv by simp
  next
    assume r: "0 \<le> dt_seconds st - off \<and> dt_seconds st - off < 86400 * int MAXORDINAL \<and>
        \<not> (0 \<le> dt_seconds et - off \<and> dt_seconds et - off < 86400 * int MAXORDINAL)"
    from rs r obtain s where s: "dt_add_seconds (- off) st = Inr s" by auto
    have "dt_add_seconds (- off) et = Inl OverflowError" using re r by simp
    then show "convert_times tzdb args = Inl OverflowError" using conv s by simp
  qed
qed

theorem convert_times_range_witness:
  "(\<exists>s e. convert_times example_tzdb example_args = Inr (s, e) \<and> valid_dt s \<and> valid_dt e \<and>
      dt_seconds s = dt_seconds example_dt + 21600 \<and> dt_seconds e = dt_seconds example_end + 21600) \<and>
   convert_times example_tzdb example_late_args = Inl OverflowError"
proof -
  have args: "arg_input_zone example_args = ''America/Chicago'' \<and> arg_output_zone example_args = ''UTC'' \<and>
      arg_start_time example_args = ''2024-03-01T02:30:05'' \<and>
      arg_end_time example_args = ''2024-03-01T03:00:00''"
    by (simp add: example_args_def default_args_def)
  have largs: "arg_input_zone example_late_args = ''America/Chicago'' \<and>
      arg_output_zone example_late_args = ''UTC'' \<and>
      arg_start_time example_late_args = ''2024-03-01T02:30:05'' \<and>
      arg_end_time example_late_args = ''9999-12-31T23:00:00''"
    by (simp add: example_late_args_def example_args_def default_args_def)
  have z: "example_tzdb ''America/Chicago'' = Some (- 21600)" "example_tzdb ''UTC'' = Some 0"
    using example_zones by simp_all
  have rst: "0 \<le> dt_seconds example_dt + 21600 \<and> dt_seconds example_dt + 21600 < 86400 * int MAXORDINAL"
    by (simp add: dt_seconds_def toordinal_def example_dt_def paros_simps MAXORDINAL_def)
  have ret: "0 \<le> dt_seconds example_end + 21600 \<and> dt_seconds example_end + 21600 < 86400 * int MAXORDINAL"
    by (simp add: dt_seconds_def toordinal_def example_end_def paros_simps MAXORDINAL_def)
  have rlast: "\<not> (dt_seconds example_last + 21600 < 86400 * int MAXORDINAL)"
    by (simp add: dt_seconds_def toordinal_def example_last_def paros_simps MAXORDINAL_def)
  have h1: "example_tzdb (arg_input_zone example_args) = Some (- 21600)"
    and h2: "example_tzdb (arg_output_zone example_args) = Some 0"
    and h3: "fromisoformat (arg_start_time example_args) = Inr example_dt"
    and h4: "fromisoformat (arg_end_time example_args) = Inr example_end"
    using args z example_start_parse example_end_parse by simp_all
  have l1: "example_tzdb (arg_input_zone example_late_args) = Some (- 21600)"
    and l2: "example_tzdb (arg_output_zone example_late_args) = Some 0"
    and l3: "fromisoformat (arg_start_time example_late_args) = Inr example_dt"
    and l4: "fromisoformat (arg_end_time example_late_args) = Inr example_last"
    using largs z example_start_parse example_last_parse by simp_all
  have a: "\<exists>s e. convert_times example_tzdb example_args = Inr (s, e) \<and> valid_dt s \<and> valid_dt e \<and>
      dt_seconds s = dt_seconds example_dt + 21600 \<and> dt_seconds e = dt_seconds example_end + 21600"
  proof -
    from convert_times_range [OF h1 h2 h3 h4] rst ret
    obtain s e where "convert_times example_tzdb example_args = Inr (s, e)" "valid_dt s" "valid_dt e"
        "dt_seconds s = dt_seconds example_dt + 21600" "dt_seconds e = dt_seconds example_end + 21600"
      by auto
    then show ?thesis by blast
  qed
  have b: "convert_times example_tzdb example_late_args = Inl OverflowError"
    using convert_times_range [OF l1 l2 l3 l4] rst rlast by simp
  from a b show ?thesis by blast
qed

end
