(* ===== verification/Spec2Isabelle.thy ===== *)
theory Spec2Isabelle
  imports Program_Main
begin

text \<open>
  \<^bold>\<open>A verification model of paros-tools.\<close>

  The repository holds two Python scripts. \<open>src/influxdb-setup.py\<close> asks for the
  InfluxDB URL, organisation and token and pickles them to \<open>influx-creds.pickle\<close>.
  \<open>src/get-paros-data.py\<close> loads those credentials (\<open>loadInfluxClient\<close>), turns
  its command line into a Flux query (\<open>createFluxFilters\<close> and the query assembly of
  \<open>main\<close>), sends it to the database, splits the answer into one DataFrame per
  (box, sensor) table, normalises each (\<open>processInfluxDF\<close>) and writes the bundle
  as CSV, MAT or pickle files chosen by the output file's extension. The two scripts
  share only the credentials file.

  \<^bold>\<open>Theories\<close>, each importing the ones before it that it uses.
  \<^item> \<open>Paros_Prelude\<close>: the Python exceptions as a datatype \<open>py_error\<close>, results
    \<open>py_error + 'a\<close> (\<open>Inl\<close> the exception) with \<open>res_bind\<close> and \<open>res_map\<close>, the
    fact collections \<open>paros_simps\<close> and \<open>paros_wf\<close>, shared lemmas on lists and
    association lists.
  \<^item> \<open>Py_Str\<close>: the string builtins the scripts call (\<open>str.split\<close>, \<open>str.join\<close>,
    decimal printing and parsing) with their round trips.
  \<^item> \<open>Cli_Args\<close>: \<open>cliArguments\<close> (lines 10--29): the parser its \<open>add_argument\<close>
    calls configure, as data (\<open>PAROS_ARGUMENTS\<close>), and CPython 3.11's
    \<open>argparse.parse_args\<close> run on it (\<open>classify_args\<close> for \<open>_parse_optional\<close>
    and the abbreviations, \<open>consume_args\<close> for the consume loop), giving the record
    \<open>cli_args\<close> or \<open>SystemExit 0/2\<close>; claims C9, C12, C17, C24.
  \<^item> \<open>Flux_Filter\<close>: \<open>createFluxFilters\<close> (lines 78--99) and a parser for the stage
    it prints; claims C3, C13, C23, C27.
  \<^item> \<open>Date_Time\<close>: the proleptic Gregorian calendar of CPython's \<open>datetime\<close>
    (\<open>_ymd2ord\<close>, \<open>_ord2ymd\<close>), \<open>fromisoformat\<close>, \<open>isoformat\<close>, and the
    conversion of the command line's times to UTC (lines 113--123); claim C14.
  \<^item> \<open>Calendar_Props\<close>: the facts about the datetime model that the query bounds
    rely on: the exact range of \<open>datetime + timedelta\<close>, the validity of parsed and
    shifted datetimes and the length of \<open>isoformat\<close>; used by claim C15.
  \<^item> \<open>Frame\<close>: a pandas DataFrame as an association list of labelled cell columns with
    the invariant \<open>wf_frame\<close> (distinct labels, equal lengths), \<open>str()\<close> of a cell,
    and the DataFrame and \<open>.dt\<close> operations the normaliser calls, each raise a branch.
  \<^item> \<open>Normalize\<close>: \<open>processInfluxDF\<close> (lines 53--76) step by step, its contract
    \<open>normalize_spec\<close> and the refinement lemma; claims C1, C10, C16, C18.
  \<^item> \<open>Split_Output\<close>: the split of the answer (lines 145--152) and the \<open>out_df\<close>
    dictionary (lines 155--159), an association list with Python's insertion order;
    claims C5, C6, C19.
  \<^item> \<open>Export\<close>: the exporter (lines 164--182), \<open>os.path.splitext\<close>, the CSV text of
    \<open>to_csv\<close> through the \<open>csv\<close> writer's quoting, the MAT arrays, the pickle, as an
    ordered list of writes and prints applied to a file store; a reference CSV reader;
    claims C7, C8, C25, C26, C31.
  \<^item> \<open>Credentials\<close>: \<open>influxdb-setup.py\<close> (standard input a list of lines) and
    \<open>loadInfluxClient\<close> (lines 31--51) over the same file store; the prompt loop
    also on an unending input (\<open>ask_stream\<close>, \<open>partial_function (option)\<close>);
    claims C20, C22, C28--C30.
  \<^item> \<open>Program_Main\<close>: \<open>main\<close> (lines 101--182) composed from the components, with the
    database a parameter (a function from the client and the query text to an answer or
    an exception), so that its properties hold for every database, and \<open>paros_main\<close>,
    the script from its command line (lines 184--185 and 107); claims C2, C4, C11, C15,
    C21.

  \<^bold>\<open>What the lemmas show.\<close> The normaliser implements its contract on every table
  the client returns (refinement), keeps the frame invariant and raises the documented
  exceptions; its error-code warning ignores the error codes. The split partitions the
  rows into non-empty groups and the dictionary keeps the last table per identifier; a
  single-frame answer is not split. The query has the specification's layout and
  carries the UTC conversion of the given times, which are never compared; both times
  are shifted by the input zone's offset, exactly inside 0001--9999 and with
  \<open>OverflowError\<close> outside, and print in 19 or 26 characters. The zone shift, the
  filter stage, the CSV text and the credentials file each have their round trip; the
  filter stage interpolates values unescaped; \<open>os.path.splitext\<close> is characterised
  completely, including its leading-dot rule. The whole program is run on the
  specification's example. The command line parses back to the record it was printed
  from, defaults as lines 23--26 say, rejects what \<open>argparse\<close> rejects and accepts
  the abbreviations of the parser's option names. The setup prompt loop on an
  unending input ends exactly when an answer or a default exists.

  \<^bold>\<open>Bounds and loops.\<close> Every loop is structural recursion over its input (the
  filter list, the frames, the prompt answers, the characters of a path or a CSV text)
  or, for the calendar's \<open>find_year\<close> and \<open>find_month\<close>, a \<open>function\<close> with a
  measure; no fuel is needed. The one loop that may not end is the setup prompt on an
  input that never reaches end of file: \<open>ask_stream\<close> is a
  \<open>partial_function (option)\<close>, and C22 says exactly when it returns. Datetimes are bounded by \<open>MAXORDINAL\<close> (year 9999), and
  a shift outside it raises \<open>OverflowError\<close>, as CPython does.

  \<^bold>\<open>Approximations.\<close> Time zones are fixed offsets (no daylight saving); floats are
  rationals printed positionally (no exponent notation); the MAT and pickle files hold
  the structure that is serialised, not its bytes; \<open>groupby\<close> keys are integers; an
  exception inside the normalisation loop drops the warnings printed before it; in
  \<open>argparse\<close>, a second \<open>--\<close> given as a positional value (CPython stores an
  empty list there) is kept as the string, and no short option other than \<open>-h\<close>
  exists. The library models follow CPython 3.11 for \<open>argparse\<close> but the 3.7--3.10
  grammar for \<open>datetime.fromisoformat\<close>: 3.11 accepts more ISO 8601 forms (\<open>Z\<close>,
  the basic format, fractions of other lengths), which the model rejects with
  \<open>ValueError\<close>; on the strings the model accepts the two agree. Column lookup
  \<open>df[c]\<close> raises for a duplicated label, which pandas returns as a DataFrame at lines
  54--55; the frames the client returns have distinct labels (\<open>wf_frame\<close>), and
  every claim about the normaliser assumes them.

  \<^bold>\<open>Not modelled.\<close> The InfluxDB client's network query is the database parameter;
  it has no logic of the repository's own. The usage and help texts \<open>argparse\<close>
  prints, and the \<open>import\<close> lines, are not modelled.
\<close>

end
